theory Spec2Isabelle
  imports Main "HOL-Library.Sublist"
begin

section \<open>Strings and formatting\<close>

text \<open>
  A Go \<^verbatim>\<open>string\<close> is a sequence of bytes, modelled by \<^typ>\<open>string\<close>, and a \<^verbatim>\<open>rune\<close> is a
  code point, modelled by a natural number. This section holds the functions of the Go
  standard library that \<^verbatim>\<open>mint.go\<close> calls on strings, from the packages \<^verbatim>\<open>unicode/utf8\<close>,
  \<^verbatim>\<open>unicode\<close>, \<^verbatim>\<open>strings\<close> and \<^verbatim>\<open>strconv\<close>.
\<close>

definition RuneError :: nat where
  "RuneError = 0xFFFD"

text \<open>
  The table \<^verbatim>\<open>first\<close> of the package \<^verbatim>\<open>utf8\<close>, which gives for a first byte the size of
  the sequence in its low bits and the index of the range of its second byte in its high
  bits (\<open>0xF0\<close> for ASCII, \<open>0xF1\<close> for a byte that starts no sequence), and the table
  \<^verbatim>\<open>acceptRanges\<close>.
\<close>

definition first :: "nat \<Rightarrow> nat" where
  "first b =
     (if b < 0x80 then 0xF0
      else if b < 0xC2 then 0xF1
      else if b < 0xE0 then 0x02
      else if b = 0xE0 then 0x13
      else if b < 0xED then 0x03
      else if b = 0xED then 0x23
      else if b < 0xF0 then 0x03
      else if b = 0xF0 then 0x34
      else if b < 0xF4 then 0x04
      else if b = 0xF4 then 0x44
      else 0xF1)"

definition acceptRanges :: "nat \<Rightarrow> nat \<times> nat" where
  "acceptRanges i = [(0x80, 0xBF), (0xA0, 0xBF), (0x80, 0x9F), (0x90, 0xBF), (0x80, 0x8F)] ! i"

text \<open>
  \<^verbatim>\<open>utf8.DecodeRuneInString(s)\<close>: the first rune of \<open>s\<close> and its width in bytes; a byte that
  starts no well-formed sequence gives \<open>RuneError\<close> with the width 1.
\<close>

definition DecodeRuneInString :: "string \<Rightarrow> nat \<times> nat" where
  "DecodeRuneInString s =
     (let n = length s; b = (\<lambda>i. (of_char (s ! i) :: nat)) in
      if n < 1 then (RuneError, 0)
      else
        (let s0 = b 0; x = first s0 in
         if x \<ge> 0xF0 then (if x = 0xF0 then s0 else RuneError, 1)
         else
           (let sz = x mod 8; accept = acceptRanges (x div 16) in
            if n < sz then (RuneError, 1)
            else
              (let s1 = b 1 in
               if s1 < fst accept \<or> snd accept < s1 then (RuneError, 1)
               else if sz \<le> 2 then (s0 mod 32 * 64 + s1 mod 64, 2)
               else
                 (let s2 = b 2 in
                  if s2 < 0x80 \<or> 0xBF < s2 then (RuneError, 1)
                  else if sz \<le> 3 then (s0 mod 16 * 4096 + s1 mod 64 * 64 + s2 mod 64, 3)
                  else
                    (let s3 = b 3 in
                     if s3 < 0x80 \<or> 0xBF < s3 then (RuneError, 1)
                     else (s0 mod 8 * 262144 + s1 mod 64 * 4096 + s2 mod 64 * 64 + s3 mod 64,
                           4)))))))"

text \<open>
  The runes of a string with the bytes each one was decoded from, as a \<^verbatim>\<open>range\<close> loop over
  the string visits them.
\<close>

function decode :: "string \<Rightarrow> (nat \<times> string) list" where
  "decode s =
     (if s = [] then []
      else (fst (DecodeRuneInString s), take (snd (DecodeRuneInString s)) s)
             # decode (drop (snd (DecodeRuneInString s)) s))"
  by pat_completeness auto

termination
  by (relation "measure length")
     (auto simp: DecodeRuneInString_def Let_def neq_Nil_conv)

declare decode.simps [simp del]

definition runes :: "string \<Rightarrow> nat list" where
  "runes s = map fst (decode s)"

text \<open>\<^verbatim>\<open>utf8.AppendRune\<close>: the UTF-8 encoding of a rune.\<close>

definition AppendRune :: "nat \<Rightarrow> string" where
  "AppendRune r =
     (if r < 0x80 then [char_of r]
      else if r < 0x800 then [char_of (0xC0 + r div 64), char_of (0x80 + r mod 64)]
      else if r > 0x10FFFF \<or> (0xD800 \<le> r \<and> r \<le> 0xDFFF) then [CHR 0xEF, CHR 0xBF, CHR 0xBD]
      else if r < 0x10000 then
        [char_of (0xE0 + r div 4096), char_of (0x80 + r div 64 mod 64), char_of (0x80 + r mod 64)]
      else
        [char_of (0xF0 + r div 262144), char_of (0x80 + r div 4096 mod 64),
         char_of (0x80 + r div 64 mod 64), char_of (0x80 + r mod 64)])"

text \<open>
  The lower case of the runes beyond ASCII, as the table \<^verbatim>\<open>unicode.CaseRanges\<close> gives it
  (version 15.0.0 of the Unicode character database): the ranges of runes that have a lower
  case other than themselves, each with the distance \<^verbatim>\<open>Delta[LowerCase]\<close> to it, neighbouring
  ranges with the same distance being joined; \<open>UpperLower\<close> marks a range in which upper-case
  and lower-case letters alternate, starting with an upper-case one.
\<close>

datatype delta = UpperLower | Delta int

definition CaseRanges :: "(nat \<times> nat \<times> delta) list" where
  "CaseRanges =
     [
      (0x00C0, 0x00D6, Delta 32), (0x00D8, 0x00DE, Delta 32), (0x0100, 0x012F, UpperLower),
      (0x0130, 0x0130, Delta (- 199)), (0x0132, 0x0137, UpperLower), (0x0139, 0x0148, UpperLower),
      (0x014A, 0x0177, UpperLower), (0x0178, 0x0178, Delta (- 121)), (0x0179, 0x017E, UpperLower),
      (0x0181, 0x0181, Delta 210), (0x0182, 0x0185, UpperLower), (0x0186, 0x0186, Delta 206),
      (0x0187, 0x0188, UpperLower), (0x0189, 0x018A, Delta 205), (0x018B, 0x018C, UpperLower),
      (0x018E, 0x018E, Delta 79), (0x018F, 0x018F, Delta 202), (0x0190, 0x0190, Delta 203),
      (0x0191, 0x0192, UpperLower), (0x0193, 0x0193, Delta 205), (0x0194, 0x0194, Delta 207),
      (0x0196, 0x0196, Delta 211), (0x0197, 0x0197, Delta 209), (0x0198, 0x0199, UpperLower),
      (0x019C, 0x019C, Delta 211), (0x019D, 0x019D, Delta 213), (0x019F, 0x019F, Delta 214),
      (0x01A0, 0x01A5, UpperLower), (0x01A6, 0x01A6, Delta 218), (0x01A7, 0x01A8, UpperLower),
      (0x01A9, 0x01A9, Delta 218), (0x01AC, 0x01AD, UpperLower), (0x01AE, 0x01AE, Delta 218),
      (0x01AF, 0x01B0, UpperLower), (0x01B1, 0x01B2, Delta 217), (0x01B3, 0x01B6, UpperLower),
      (0x01B7, 0x01B7, Delta 219), (0x01B8, 0x01B9, UpperLower), (0x01BC, 0x01BD, UpperLower),
      (0x01C4, 0x01C4, Delta 2), (0x01C5, 0x01C6, UpperLower), (0x01C7, 0x01C7, Delta 2),
      (0x01C8, 0x01C9, UpperLower), (0x01CA, 0x01CA, Delta 2), (0x01CB, 0x01DC, UpperLower),
      (0x01DE, 0x01EF, UpperLower), (0x01F1, 0x01F1, Delta 2), (0x01F2, 0x01F5, UpperLower),
      (0x01F6, 0x01F6, Delta (- 97)), (0x01F7, 0x01F7, Delta (- 56)), (0x01F8, 0x021F, UpperLower),
      (0x0220, 0x0220, Delta (- 130)), (0x0222, 0x0233, UpperLower), (0x023A, 0x023A, Delta 10795),
      (0x023B, 0x023C, UpperLower), (0x023D, 0x023D, Delta (- 163)), (0x023E, 0x023E, Delta 10792),
      (0x0241, 0x0242, UpperLower), (0x0243, 0x0243, Delta (- 195)), (0x0244, 0x0244, Delta 69),
      (0x0245, 0x0245, Delta 71), (0x0246, 0x024F, UpperLower), (0x0370, 0x0373, UpperLower),
      (0x0376, 0x0377, UpperLower), (0x037F, 0x037F, Delta 116), (0x0386, 0x0386, Delta 38),
      (0x0388, 0x038A, Delta 37), (0x038C, 0x038C, Delta 64), (0x038E, 0x038F, Delta 63),
      (0x0391, 0x03A1, Delta 32), (0x03A3, 0x03AB, Delta 32), (0x03CF, 0x03CF, Delta 8),
      (0x03D8, 0x03EF, UpperLower), (0x03F4, 0x03F4, Delta (- 60)), (0x03F7, 0x03F8, UpperLower),
      (0x03F9, 0x03F9, Delta (- 7)), (0x03FA, 0x03FB, UpperLower), (0x03FD, 0x03FF, Delta (- 130)),
      (0x0400, 0x040F, Delta 80), (0x0410, 0x042F, Delta 32), (0x0460, 0x0481, UpperLower),
      (0x048A, 0x04BF, UpperLower), (0x04C0, 0x04C0, Delta 15), (0x04C1, 0x04CE, UpperLower),
      (0x04D0, 0x052F, UpperLower), (0x0531, 0x0556, Delta 48), (0x10A0, 0x10C5, Delta 7264),
      (0x10C7, 0x10C7, Delta 7264), (0x10CD, 0x10CD, Delta 7264), (0x13A0, 0x13EF, Delta 38864),
      (0x13F0, 0x13F5, Delta 8), (0x1C90, 0x1CBA, Delta (- 3008)), (0x1CBD, 0x1CBF, Delta (- 3008)),
      (0x1E00, 0x1E95, UpperLower), (0x1E9E, 0x1E9E, Delta (- 7615)), (0x1EA0, 0x1EFF, UpperLower),
      (0x1F08, 0x1F0F, Delta (- 8)), (0x1F18, 0x1F1D, Delta (- 8)), (0x1F28, 0x1F2F, Delta (- 8)),
      (0x1F38, 0x1F3F, Delta (- 8)), (0x1F48, 0x1F4D, Delta (- 8)), (0x1F59, 0x1F59, Delta (- 8)),
      (0x1F5B, 0x1F5B, Delta (- 8)), (0x1F5D, 0x1F5D, Delta (- 8)), (0x1F5F, 0x1F5F, Delta (- 8)),
      (0x1F68, 0x1F6F, Delta (- 8)), (0x1F88, 0x1F8F, Delta (- 8)), (0x1F98, 0x1F9F, Delta (- 8)),
      (0x1FA8, 0x1FAF, Delta (- 8)), (0x1FB8, 0x1FB9, Delta (- 8)), (0x1FBA, 0x1FBB, Delta (- 74)),
      (0x1FBC, 0x1FBC, Delta (- 9)), (0x1FC8, 0x1FCB, Delta (- 86)), (0x1FCC, 0x1FCC, Delta (- 9)),
      (0x1FD8, 0x1FD9, Delta (- 8)), (0x1FDA, 0x1FDB, Delta (- 100)), (0x1FE8, 0x1FE9, Delta (- 8)),
      (0x1FEA, 0x1FEB, Delta (- 112)), (0x1FEC, 0x1FEC, Delta (- 7)), (0x1FF8, 0x1FF9, Delta (- 128)),
      (0x1FFA, 0x1FFB, Delta (- 126)), (0x1FFC, 0x1FFC, Delta (- 9)), (0x2126, 0x2126, Delta (- 7517)),
      (0x212A, 0x212A, Delta (- 8383)), (0x212B, 0x212B, Delta (- 8262)), (0x2132, 0x2132, Delta 28),
      (0x2160, 0x216F, Delta 16), (0x2183, 0x2184, UpperLower), (0x24B6, 0x24CF, Delta 26),
      (0x2C00, 0x2C2F, Delta 48), (0x2C60, 0x2C61, UpperLower), (0x2C62, 0x2C62, Delta (- 10743)),
      (0x2C63, 0x2C63, Delta (- 3814)), (0x2C64, 0x2C64, Delta (- 10727)), (0x2C67, 0x2C6C, UpperLower),
      (0x2C6D, 0x2C6D, Delta (- 10780)), (0x2C6E, 0x2C6E, Delta (- 10749)), (0x2C6F, 0x2C6F, Delta (- 10783)),
      (0x2C70, 0x2C70, Delta (- 10782)), (0x2C72, 0x2C73, UpperLower), (0x2C75, 0x2C76, UpperLower),
      (0x2C7E, 0x2C7F, Delta (- 10815)), (0x2C80, 0x2CE3, UpperLower), (0x2CEB, 0x2CEE, UpperLower),
      (0x2CF2, 0x2CF3, UpperLower), (0xA640, 0xA66D, UpperLower), (0xA680, 0xA69B, UpperLower),
      (0xA722, 0xA72F, UpperLower), (0xA732, 0xA76F, UpperLower), (0xA779, 0xA77C, UpperLower),
      (0xA77D, 0xA77D, Delta (- 35332)), (0xA77E, 0xA787, UpperLower), (0xA78B, 0xA78C, UpperLower),
      (0xA78D, 0xA78D, Delta (- 42280)), (0xA790, 0xA793, UpperLower), (0xA796, 0xA7A9, UpperLower),
      (0xA7AA, 0xA7AA, Delta (- 42308)), (0xA7AB, 0xA7AB, Delta (- 42319)), (0xA7AC, 0xA7AC, Delta (- 42315)),
      (0xA7AD, 0xA7AD, Delta (- 42305)), (0xA7AE, 0xA7AE, Delta (- 42308)), (0xA7B0, 0xA7B0, Delta (- 42258)),
      (0xA7B1, 0xA7B1, Delta (- 42282)), (0xA7B2, 0xA7B2, Delta (- 42261)), (0xA7B3, 0xA7B3, Delta 928),
      (0xA7B4, 0xA7C3, UpperLower), (0xA7C4, 0xA7C4, Delta (- 48)), (0xA7C5, 0xA7C5, Delta (- 42307)),
      (0xA7C6, 0xA7C6, Delta (- 35384)), (0xA7C7, 0xA7CA, UpperLower), (0xA7D0, 0xA7D1, UpperLower),
      (0xA7D6, 0xA7D9, UpperLower), (0xA7F5, 0xA7F6, UpperLower), (0xFF21, 0xFF3A, Delta 32),
      (0x10400, 0x10427, Delta 40), (0x104B0, 0x104D3, Delta 40), (0x10570, 0x1057A, Delta 39),
      (0x1057C, 0x1058A, Delta 39), (0x1058C, 0x10592, Delta 39), (0x10594, 0x10595, Delta 39),
      (0x10C80, 0x10CB2, Delta 64), (0x118A0, 0x118BF, Delta 32), (0x16E40, 0x16E5F, Delta 32),
      (0x1E900, 0x1E921, Delta 34)]"

text \<open>
  The search of \<^verbatim>\<open>unicode.to\<close> for the range of a rune, with the case \<^verbatim>\<open>LowerCase\<close> (the
  Go function bisects the table, whose ranges are disjoint and in ascending order).
\<close>

fun to_lower :: "(nat \<times> nat \<times> delta) list \<Rightarrow> nat \<Rightarrow> nat" where
  "to_lower [] r = r"
| "to_lower ((lo, hi, d) # caseRange) r =
     (if lo \<le> r \<and> r \<le> hi then
        (case d of
           UpperLower \<Rightarrow> lo + ((r - lo) div 2 * 2 + 1)
         | Delta k \<Rightarrow> nat (int r + k))
      else to_lower caseRange r)"

text \<open>\<^verbatim>\<open>unicode.ToLower(r)\<close>\<close>

definition unicode_ToLower :: "nat \<Rightarrow> nat" where
  "unicode_ToLower r =
     (if r \<le> 0x7F then (if 0x41 \<le> r \<and> r \<le> 0x5A then r + 32 else r)
      else to_lower CaseRanges r)"

text \<open>
  \<^verbatim>\<open>strings.Map(mapping, s)\<close>, for a mapping that drops no rune: every rune of \<open>s\<close> is replaced
  by the encoding of its image (a byte that is not part of a well-formed sequence counts as
  \<open>RuneError\<close>).
\<close>

definition strings_Map :: "(nat \<Rightarrow> nat) \<Rightarrow> string \<Rightarrow> string" where
  "strings_Map mapping s = concat (map (\<lambda>(c, bytes). AppendRune (mapping c)) (decode s))"

text \<open>
  \<^verbatim>\<open>strings.ToLower(s)\<close>: a string of ASCII bytes is mapped byte by byte, any other string
  with \<^verbatim>\<open>Map(unicode.ToLower, s)\<close>.
\<close>

definition lower_byte :: "char \<Rightarrow> char" where
  "lower_byte c =
     (let n = (of_char c :: nat) in if 0x41 \<le> n \<and> n \<le> 0x5A then char_of (n + 32) else c)"

definition ToLower :: "string \<Rightarrow> string" where
  "ToLower s =
     (if list_all (\<lambda>c. (of_char c :: nat) < 0x80) s then map lower_byte s
      else strings_Map unicode_ToLower s)"

text \<open>\<^verbatim>\<open>strings.Contains(s, substr)\<close>: \<^verbatim>\<open>substr\<close> starts at some position of \<^verbatim>\<open>s\<close>.\<close>

fun Contains :: "string \<Rightarrow> string \<Rightarrow> bool" where
  "Contains [] substr = (substr = [])"
| "Contains (c # s) substr = (prefix substr (c # s) \<or> Contains s substr)"

text \<open>\<^verbatim>\<open>strings.Join(elems, sep)\<close>.\<close>

fun Join :: "string list \<Rightarrow> string \<Rightarrow> string" where
  "Join [] sep = []"
| "Join [x] sep = x"
| "Join (x # y # ys) sep = x @ sep @ Join (y # ys) sep"

definition hex_digit :: "nat \<Rightarrow> char" where
  "hex_digit d = ''0123456789abcdef'' ! (d mod 16)"

text \<open>Decimal rendering of an integer (\<^verbatim>\<open>strconv.Itoa\<close>, the verb \<^verbatim>\<open>%d\<close>).\<close>

fun nat_digits :: "nat \<Rightarrow> string" where
  "nat_digits n = (if n < 10 then [hex_digit n] else nat_digits (n div 10) @ [hex_digit (n mod 10)])"

declare nat_digits.simps [simp del]

definition Itoa :: "int \<Rightarrow> string" where
  "Itoa i = (if i < 0 then CHR ''-'' # nat_digits (nat (- i)) else nat_digits (nat i))"

text \<open>
  \<^verbatim>\<open>strconv.IsPrint(r)\<close>: the letters, marks, numbers, punctuation and symbols, and the ASCII
  space. Up to \<open>0xFF\<close> the Go function decides by comparison; beyond, by its tables, given
  here as the ranges of the printable runes (version 15.0.0 of the Unicode character
  database).
\<close>

definition print_ranges :: "(nat \<times> nat) list" where
  "print_ranges =
     [
      (0x0100, 0x0377), (0x037A, 0x037F), (0x0384, 0x038A), (0x038C, 0x038C), (0x038E, 0x03A1),
      (0x03A3, 0x052F), (0x0531, 0x0556), (0x0559, 0x058A), (0x058D, 0x058F), (0x0591, 0x05C7),
      (0x05D0, 0x05EA), (0x05EF, 0x05F4), (0x0606, 0x061B), (0x061D, 0x06DC), (0x06DE, 0x070D),
      (0x0710, 0x074A), (0x074D, 0x07B1), (0x07C0, 0x07FA), (0x07FD, 0x082D), (0x0830, 0x083E),
      (0x0840, 0x085B), (0x085E, 0x085E), (0x0860, 0x086A), (0x0870, 0x088E), (0x0898, 0x08E1),
      (0x08E3, 0x0983), (0x0985, 0x098C), (0x098F, 0x0990), (0x0993, 0x09A8), (0x09AA, 0x09B0),
      (0x09B2, 0x09B2), (0x09B6, 0x09B9), (0x09BC, 0x09C4), (0x09C7, 0x09C8), (0x09CB, 0x09CE),
      (0x09D7, 0x09D7), (0x09DC, 0x09DD), (0x09DF, 0x09E3), (0x09E6, 0x09FE), (0x0A01, 0x0A03),
      (0x0A05, 0x0A0A), (0x0A0F, 0x0A10), (0x0A13, 0x0A28), (0x0A2A, 0x0A30), (0x0A32, 0x0A33),
      (0x0A35, 0x0A36), (0x0A38, 0x0A39), (0x0A3C, 0x0A3C), (0x0A3E, 0x0A42), (0x0A47, 0x0A48),
      (0x0A4B, 0x0A4D), (0x0A51, 0x0A51), (0x0A59, 0x0A5C), (0x0A5E, 0x0A5E), (0x0A66, 0x0A76),
      (0x0A81, 0x0A83), (0x0A85, 0x0A8D), (0x0A8F, 0x0A91), (0x0A93, 0x0AA8), (0x0AAA, 0x0AB0),
      (0x0AB2, 0x0AB3), (0x0AB5, 0x0AB9), (0x0ABC, 0x0AC5), (0x0AC7, 0x0AC9), (0x0ACB, 0x0ACD),
      (0x0AD0, 0x0AD0), (0x0AE0, 0x0AE3), (0x0AE6, 0x0AF1), (0x0AF9, 0x0AFF), (0x0B01, 0x0B03),
      (0x0B05, 0x0B0C), (0x0B0F, 0x0B10), (0x0B13, 0x0B28), (0x0B2A, 0x0B30), (0x0B32, 0x0B33),
      (0x0B35, 0x0B39), (0x0B3C, 0x0B44), (0x0B47, 0x0B48), (0x0B4B, 0x0B4D), (0x0B55, 0x0B57),
      (0x0B5C, 0x0B5D), (0x0B5F, 0x0B63), (0x0B66, 0x0B77), (0x0B82, 0x0B83), (0x0B85, 0x0B8A),
      (0x0B8E, 0x0B90), (0x0B92, 0x0B95), (0x0B99, 0x0B9A), (0x0B9C, 0x0B9C), (0x0B9E, 0x0B9F),
      (0x0BA3, 0x0BA4), (0x0BA8, 0x0BAA), (0x0BAE, 0x0BB9), (0x0BBE, 0x0BC2), (0x0BC6, 0x0BC8),
      (0x0BCA, 0x0BCD), (0x0BD0, 0x0BD0), (0x0BD7, 0x0BD7), (0x0BE6, 0x0BFA), (0x0C00, 0x0C0C),
      (0x0C0E, 0x0C10), (0x0C12, 0x0C28), (0x0C2A, 0x0C39), (0x0C3C, 0x0C44), (0x0C46, 0x0C48),
      (0x0C4A, 0x0C4D), (0x0C55, 0x0C56), (0x0C58, 0x0C5A), (0x0C5D, 0x0C5D), (0x0C60, 0x0C63),
      (0x0C66, 0x0C6F), (0x0C77, 0x0C8C), (0x0C8E, 0x0C90), (0x0C92, 0x0CA8), (0x0CAA, 0x0CB3),
      (0x0CB5, 0x0CB9), (0x0CBC, 0x0CC4), (0x0CC6, 0x0CC8), (0x0CCA, 0x0CCD), (0x0CD5, 0x0CD6),
      (0x0CDD, 0x0CDE), (0x0CE0, 0x0CE3), (0x0CE6, 0x0CEF), (0x0CF1, 0x0CF3), (0x0D00, 0x0D0C),
      (0x0D0E, 0x0D10), (0x0D12, 0x0D44), (0x0D46, 0x0D48), (0x0D4A, 0x0D4F), (0x0D54, 0x0D63),
      (0x0D66, 0x0D7F), (0x0D81, 0x0D83), (0x0D85, 0x0D96), (0x0D9A, 0x0DB1), (0x0DB3, 0x0DBB),
      (0x0DBD, 0x0DBD), (0x0DC0, 0x0DC6), (0x0DCA, 0x0DCA), (0x0DCF, 0x0DD4), (0x0DD6, 0x0DD6),
      (0x0DD8, 0x0DDF), (0x0DE6, 0x0DEF), (0x0DF2, 0x0DF4), (0x0E01, 0x0E3A), (0x0E3F, 0x0E5B),
      (0x0E81, 0x0E82), (0x0E84, 0x0E84), (0x0E86, 0x0E8A), (0x0E8C, 0x0EA3), (0x0EA5, 0x0EA5),
      (0x0EA7, 0x0EBD), (0x0EC0, 0x0EC4), (0x0EC6, 0x0EC6), (0x0EC8, 0x0ECE), (0x0ED0, 0x0ED9),
      (0x0EDC, 0x0EDF), (0x0F00, 0x0F47), (0x0F49, 0x0F6C), (0x0F71, 0x0F97), (0x0F99, 0x0FBC),
      (0x0FBE, 0x0FCC), (0x0FCE, 0x0FDA), (0x1000, 0x10C5), (0x10C7, 0x10C7), (0x10CD, 0x10CD),
      (0x10D0, 0x1248), (0x124A, 0x124D), (0x1250, 0x1256), (0x1258, 0x1258), (0x125A, 0x125D),
      (0x1260, 0x1288), (0x128A, 0x128D), (0x1290, 0x12B0), (0x12B2, 0x12B5), (0x12B8, 0x12BE),
      (0x12C0, 0x12C0), (0x12C2, 0x12C5), (0x12C8, 0x12D6), (0x12D8, 0x1310), (0x1312, 0x1315),
      (0x1318, 0x135A), (0x135D, 0x137C), (0x1380, 0x1399), (0x13A0, 0x13F5), (0x13F8, 0x13FD),
      (0x1400, 0x167F), (0x1681, 0x169C), (0x16A0, 0x16F8), (0x1700, 0x1715), (0x171F, 0x1736),
      (0x1740, 0x1753), (0x1760, 0x176C), (0x176E, 0x1770), (0x1772, 0x1773), (0x1780, 0x17DD),
      (0x17E0, 0x17E9), (0x17F0, 0x17F9), (0x1800, 0x180D), (0x180F, 0x1819), (0x1820, 0x1878),
      (0x1880, 0x18AA), (0x18B0, 0x18F5), (0x1900, 0x191E), (0x1920, 0x192B), (0x1930, 0x193B),
      (0x1940, 0x1940), (0x1944, 0x196D), (0x1970, 0x1974), (0x1980, 0x19AB), (0x19B0, 0x19C9),
      (0x19D0, 0x19DA), (0x19DE, 0x1A1B), (0x1A1E, 0x1A5E), (0x1A60, 0x1A7C), (0x1A7F, 0x1A89),
      (0x1A90, 0x1A99), (0x1AA0, 0x1AAD), (0x1AB0, 0x1ACE), (0x1B00, 0x1B4C), (0x1B50, 0x1B7E),
      (0x1B80, 0x1BF3), (0x1BFC, 0x1C37), (0x1C3B, 0x1C49), (0x1C4D, 0x1C88), (0x1C90, 0x1CBA),
      (0x1CBD, 0x1CC7), (0x1CD0, 0x1CFA), (0x1D00, 0x1F15), (0x1F18, 0x1F1D), (0x1F20, 0x1F45),
      (0x1F48, 0x1F4D), (0x1F50, 0x1F57), (0x1F59, 0x1F59), (0x1F5B, 0x1F5B), (0x1F5D, 0x1F5D),
      (0x1F5F, 0x1F7D), (0x1F80, 0x1FB4), (0x1FB6, 0x1FC4), (0x1FC6, 0x1FD3), (0x1FD6, 0x1FDB),
      (0x1FDD, 0x1FEF), (0x1FF2, 0x1FF4), (0x1FF6, 0x1FFE), (0x2010, 0x2027), (0x2030, 0x205E),
      (0x2070, 0x2071), (0x2074, 0x208E), (0x2090, 0x209C), (0x20A0, 0x20C0), (0x20D0, 0x20F0),
      (0x2100, 0x218B), (0x2190, 0x2426), (0x2440, 0x244A), (0x2460, 0x2B73), (0x2B76, 0x2B95),
      (0x2B97, 0x2CF3), (0x2CF9, 0x2D25), (0x2D27, 0x2D27), (0x2D2D, 0x2D2D), (0x2D30, 0x2D67),
      (0x2D6F, 0x2D70), (0x2D7F, 0x2D96), (0x2DA0, 0x2DA6), (0x2DA8, 0x2DAE), (0x2DB0, 0x2DB6),
      (0x2DB8, 0x2DBE), (0x2DC0, 0x2DC6), (0x2DC8, 0x2DCE), (0x2DD0, 0x2DD6), (0x2DD8, 0x2DDE),
      (0x2DE0, 0x2E5D), (0x2E80, 0x2E99), (0x2E9B, 0x2EF3), (0x2F00, 0x2FD5), (0x2FF0, 0x2FFB),
      (0x3001, 0x303F), (0x3041, 0x3096), (0x3099, 0x30FF), (0x3105, 0x312F), (0x3131, 0x318E),
      (0x3190, 0x31E3), (0x31F0, 0x321E), (0x3220, 0xA48C), (0xA490, 0xA4C6), (0xA4D0, 0xA62B),
      (0xA640, 0xA6F7), (0xA700, 0xA7CA), (0xA7D0, 0xA7D1), (0xA7D3, 0xA7D3), (0xA7D5, 0xA7D9),
      (0xA7F2, 0xA82C), (0xA830, 0xA839), (0xA840, 0xA877), (0xA880, 0xA8C5), (0xA8CE, 0xA8D9),
      (0xA8E0, 0xA953), (0xA95F, 0xA97C), (0xA980, 0xA9CD), (0xA9CF, 0xA9D9), (0xA9DE, 0xA9FE),
      (0xAA00, 0xAA36), (0xAA40, 0xAA4D), (0xAA50, 0xAA59), (0xAA5C, 0xAAC2), (0xAADB, 0xAAF6),
      (0xAB01, 0xAB06), (0xAB09, 0xAB0E), (0xAB11, 0xAB16), (0xAB20, 0xAB26), (0xAB28, 0xAB2E),
      (0xAB30, 0xAB6B), (0xAB70, 0xABED), (0xABF0, 0xABF9), (0xAC00, 0xD7A3), (0xD7B0, 0xD7C6),
      (0xD7CB, 0xD7FB), (0xF900, 0xFA6D), (0xFA70, 0xFAD9), (0xFB00, 0xFB06), (0xFB13, 0xFB17),
      (0xFB1D, 0xFB36), (0xFB38, 0xFB3C), (0xFB3E, 0xFB3E), (0xFB40, 0xFB41), (0xFB43, 0xFB44),
      (0xFB46, 0xFBC2), (0xFBD3, 0xFD8F), (0xFD92, 0xFDC7), (0xFDCF, 0xFDCF), (0xFDF0, 0xFE19),
      (0xFE20, 0xFE52), (0xFE54, 0xFE66), (0xFE68, 0xFE6B), (0xFE70, 0xFE74), (0xFE76, 0xFEFC),
      (0xFF01, 0xFFBE), (0xFFC2, 0xFFC7), (0xFFCA, 0xFFCF), (0xFFD2, 0xFFD7), (0xFFDA, 0xFFDC),
      (0xFFE0, 0xFFE6), (0xFFE8, 0xFFEE), (0xFFFC, 0xFFFD), (0x10000, 0x1000B), (0x1000D, 0x10026),
      (0x10028, 0x1003A), (0x1003C, 0x1003D), (0x1003F, 0x1004D), (0x10050, 0x1005D), (0x10080, 0x100FA),
      (0x10100, 0x10102), (0x10107, 0x10133), (0x10137, 0x1018E), (0x10190, 0x1019C), (0x101A0, 0x101A0),
      (0x101D0, 0x101FD), (0x10280, 0x1029C), (0x102A0, 0x102D0), (0x102E0, 0x102FB), (0x10300, 0x10323),
      (0x1032D, 0x1034A), (0x10350, 0x1037A), (0x10380, 0x1039D), (0x1039F, 0x103C3), (0x103C8, 0x103D5),
      (0x10400, 0x1049D), (0x104A0, 0x104A9), (0x104B0, 0x104D3), (0x104D8, 0x104FB), (0x10500, 0x10527),
      (0x10530, 0x10563), (0x1056F, 0x1057A), (0x1057C, 0x1058A), (0x1058C, 0x10592), (0x10594, 0x10595),
      (0x10597, 0x105A1), (0x105A3, 0x105B1), (0x105B3, 0x105B9), (0x105BB, 0x105BC), (0x10600, 0x10736),
      (0x10740, 0x10755), (0x10760, 0x10767), (0x10780, 0x10785), (0x10787, 0x107B0), (0x107B2, 0x107BA),
      (0x10800, 0x10805), (0x10808, 0x10808), (0x1080A, 0x10835), (0x10837, 0x10838), (0x1083C, 0x1083C),
      (0x1083F, 0x10855), (0x10857, 0x1089E), (0x108A7, 0x108AF), (0x108E0, 0x108F2), (0x108F4, 0x108F5),
      (0x108FB, 0x1091B), (0x1091F, 0x10939), (0x1093F, 0x1093F), (0x10980, 0x109B7), (0x109BC, 0x109CF),
      (0x109D2, 0x10A03), (0x10A05, 0x10A06), (0x10A0C, 0x10A13), (0x10A15, 0x10A17), (0x10A19, 0x10A35),
      (0x10A38, 0x10A3A), (0x10A3F, 0x10A48), (0x10A50, 0x10A58), (0x10A60, 0x10A9F), (0x10AC0, 0x10AE6),
      (0x10AEB, 0x10AF6), (0x10B00, 0x10B35), (0x10B39, 0x10B55), (0x10B58, 0x10B72), (0x10B78, 0x10B91),
      (0x10B99, 0x10B9C), (0x10BA9, 0x10BAF), (0x10C00, 0x10C48), (0x10C80, 0x10CB2), (0x10CC0, 0x10CF2),
      (0x10CFA, 0x10D27), (0x10D30, 0x10D39), (0x10E60, 0x10E7E), (0x10E80, 0x10EA9), (0x10EAB, 0x10EAD),
      (0x10EB0, 0x10EB1), (0x10EFD, 0x10F27), (0x10F30, 0x10F59), (0x10F70, 0x10F89), (0x10FB0, 0x10FCB),
      (0x10FE0, 0x10FF6), (0x11000, 0x1104D), (0x11052, 0x11075), (0x1107F, 0x110BC), (0x110BE, 0x110C2),
      (0x110D0, 0x110E8), (0x110F0, 0x110F9), (0x11100, 0x11134), (0x11136, 0x11147), (0x11150, 0x11176),
      (0x11180, 0x111DF), (0x111E1, 0x111F4), (0x11200, 0x11211), (0x11213, 0x11241), (0x11280, 0x11286),
      (0x11288, 0x11288), (0x1128A, 0x1128D), (0x1128F, 0x1129D), (0x1129F, 0x112A9), (0x112B0, 0x112EA),
      (0x112F0, 0x112F9), (0x11300, 0x11303), (0x11305, 0x1130C), (0x1130F, 0x11310), (0x11313, 0x11328),
      (0x1132A, 0x11330), (0x11332, 0x11333), (0x11335, 0x11339), (0x1133B, 0x11344), (0x11347, 0x11348),
      (0x1134B, 0x1134D), (0x11350, 0x11350), (0x11357, 0x11357), (0x1135D, 0x11363), (0x11366, 0x1136C),
      (0x11370, 0x11374), (0x11400, 0x1145B), (0x1145D, 0x11461), (0x11480, 0x114C7), (0x114D0, 0x114D9),
      (0x11580, 0x115B5), (0x115B8, 0x115DD), (0x11600, 0x11644), (0x11650, 0x11659), (0x11660, 0x1166C),
      (0x11680, 0x116B9), (0x116C0, 0x116C9), (0x11700, 0x1171A), (0x1171D, 0x1172B), (0x11730, 0x11746),
      (0x11800, 0x1183B), (0x118A0, 0x118F2), (0x118FF, 0x11906), (0x11909, 0x11909), (0x1190C, 0x11913),
      (0x11915, 0x11916), (0x11918, 0x11935), (0x11937, 0x11938), (0x1193B, 0x11946), (0x11950, 0x11959),
      (0x119A0, 0x119A7), (0x119AA, 0x119D7), (0x119DA, 0x119E4), (0x11A00, 0x11A47), (0x11A50, 0x11AA2),
      (0x11AB0, 0x11AF8), (0x11B00, 0x11B09), (0x11C00, 0x11C08), (0x11C0A, 0x11C36), (0x11C38, 0x11C45),
      (0x11C50, 0x11C6C), (0x11C70, 0x11C8F), (0x11C92, 0x11CA7), (0x11CA9, 0x11CB6), (0x11D00, 0x11D06),
      (0x11D08, 0x11D09), (0x11D0B, 0x11D36), (0x11D3A, 0x11D3A), (0x11D3C, 0x11D3D), (0x11D3F, 0x11D47),
      (0x11D50, 0x11D59), (0x11D60, 0x11D65), (0x11D67, 0x11D68), (0x11D6A, 0x11D8E), (0x11D90, 0x11D91),
      (0x11D93, 0x11D98), (0x11DA0, 0x11DA9), (0x11EE0, 0x11EF8), (0x11F00, 0x11F10), (0x11F12, 0x11F3A),
      (0x11F3E, 0x11F59), (0x11FB0, 0x11FB0), (0x11FC0, 0x11FF1), (0x11FFF, 0x12399), (0x12400, 0x1246E),
      (0x12470, 0x12474), (0x12480, 0x12543), (0x12F90, 0x12FF2), (0x13000, 0x1342F), (0x13440, 0x13455),
      (0x14400, 0x14646), (0x16800, 0x16A38), (0x16A40, 0x16A5E), (0x16A60, 0x16A69), (0x16A6E, 0x16ABE),
      (0x16AC0, 0x16AC9), (0x16AD0, 0x16AED), (0x16AF0, 0x16AF5), (0x16B00, 0x16B45), (0x16B50, 0x16B59),
      (0x16B5B, 0x16B61), (0x16B63, 0x16B77), (0x16B7D, 0x16B8F), (0x16E40, 0x16E9A), (0x16F00, 0x16F4A),
      (0x16F4F, 0x16F87), (0x16F8F, 0x16F9F), (0x16FE0, 0x16FE4), (0x16FF0, 0x16FF1), (0x17000, 0x187F7),
      (0x18800, 0x18CD5), (0x18D00, 0x18D08), (0x1AFF0, 0x1AFF3), (0x1AFF5, 0x1AFFB), (0x1AFFD, 0x1AFFE),
      (0x1B000, 0x1B122), (0x1B132, 0x1B132), (0x1B150, 0x1B152), (0x1B155, 0x1B155), (0x1B164, 0x1B167),
      (0x1B170, 0x1B2FB), (0x1BC00, 0x1BC6A), (0x1BC70, 0x1BC7C), (0x1BC80, 0x1BC88), (0x1BC90, 0x1BC99),
      (0x1BC9C, 0x1BC9F), (0x1CF00, 0x1CF2D), (0x1CF30, 0x1CF46), (0x1CF50, 0x1CFC3), (0x1D000, 0x1D0F5),
      (0x1D100, 0x1D126), (0x1D129, 0x1D172), (0x1D17B, 0x1D1EA), (0x1D200, 0x1D245), (0x1D2C0, 0x1D2D3),
      (0x1D2E0, 0x1D2F3), (0x1D300, 0x1D356), (0x1D360, 0x1D378), (0x1D400, 0x1D454), (0x1D456, 0x1D49C),
      (0x1D49E, 0x1D49F), (0x1D4A2, 0x1D4A2), (0x1D4A5, 0x1D4A6), (0x1D4A9, 0x1D4AC), (0x1D4AE, 0x1D4B9),
      (0x1D4BB, 0x1D4BB), (0x1D4BD, 0x1D4C3), (0x1D4C5, 0x1D505), (0x1D507, 0x1D50A), (0x1D50D, 0x1D514),
      (0x1D516, 0x1D51C), (0x1D51E, 0x1D539), (0x1D53B, 0x1D53E), (0x1D540, 0x1D544), (0x1D546, 0x1D546),
      (0x1D54A, 0x1D550), (0x1D552, 0x1D6A5), (0x1D6A8, 0x1D7CB), (0x1D7CE, 0x1DA8B), (0x1DA9B, 0x1DA9F),
      (0x1DAA1, 0x1DAAF), (0x1DF00, 0x1DF1E), (0x1DF25, 0x1DF2A), (0x1E000, 0x1E006), (0x1E008, 0x1E018),
      (0x1E01B, 0x1E021), (0x1E023, 0x1E024), (0x1E026, 0x1E02A), (0x1E030, 0x1E06D), (0x1E08F, 0x1E08F),
      (0x1E100, 0x1E12C), (0x1E130, 0x1E13D), (0x1E140, 0x1E149), (0x1E14E, 0x1E14F), (0x1E290, 0x1E2AE),
      (0x1E2C0, 0x1E2F9), (0x1E2FF, 0x1E2FF), (0x1E4D0, 0x1E4F9), (0x1E7E0, 0x1E7E6), (0x1E7E8, 0x1E7EB),
      (0x1E7ED, 0x1E7EE), (0x1E7F0, 0x1E7FE), (0x1E800, 0x1E8C4), (0x1E8C7, 0x1E8D6), (0x1E900, 0x1E94B),
      (0x1E950, 0x1E959), (0x1E95E, 0x1E95F), (0x1EC71, 0x1ECB4), (0x1ED01, 0x1ED3D), (0x1EE00, 0x1EE03),
      (0x1EE05, 0x1EE1F), (0x1EE21, 0x1EE22), (0x1EE24, 0x1EE24), (0x1EE27, 0x1EE27), (0x1EE29, 0x1EE32),
      (0x1EE34, 0x1EE37), (0x1EE39, 0x1EE39), (0x1EE3B, 0x1EE3B), (0x1EE42, 0x1EE42), (0x1EE47, 0x1EE47),
      (0x1EE49, 0x1EE49), (0x1EE4B, 0x1EE4B), (0x1EE4D, 0x1EE4F), (0x1EE51, 0x1EE52), (0x1EE54, 0x1EE54),
      (0x1EE57, 0x1EE57), (0x1EE59, 0x1EE59), (0x1EE5B, 0x1EE5B), (0x1EE5D, 0x1EE5D), (0x1EE5F, 0x1EE5F),
      (0x1EE61, 0x1EE62), (0x1EE64, 0x1EE64), (0x1EE67, 0x1EE6A), (0x1EE6C, 0x1EE72), (0x1EE74, 0x1EE77),
      (0x1EE79, 0x1EE7C), (0x1EE7E, 0x1EE7E), (0x1EE80, 0x1EE89), (0x1EE8B, 0x1EE9B), (0x1EEA1, 0x1EEA3),
      (0x1EEA5, 0x1EEA9), (0x1EEAB, 0x1EEBB), (0x1EEF0, 0x1EEF1), (0x1F000, 0x1F02B), (0x1F030, 0x1F093),
      (0x1F0A0, 0x1F0AE), (0x1F0B1, 0x1F0BF), (0x1F0C1, 0x1F0CF), (0x1F0D1, 0x1F0F5), (0x1F100, 0x1F1AD),
      (0x1F1E6, 0x1F202), (0x1F210, 0x1F23B), (0x1F240, 0x1F248), (0x1F250, 0x1F251), (0x1F260, 0x1F265),
      (0x1F300, 0x1F6D7), (0x1F6DC, 0x1F6EC), (0x1F6F0, 0x1F6FC), (0x1F700, 0x1F776), (0x1F77B, 0x1F7D9),
      (0x1F7E0, 0x1F7EB), (0x1F7F0, 0x1F7F0), (0x1F800, 0x1F80B), (0x1F810, 0x1F847), (0x1F850, 0x1F859),
      (0x1F860, 0x1F887), (0x1F890, 0x1F8AD), (0x1F8B0, 0x1F8B1), (0x1F900, 0x1FA53), (0x1FA60, 0x1FA6D),
      (0x1FA70, 0x1FA7C), (0x1FA80, 0x1FA88), (0x1FA90, 0x1FABD), (0x1FABF, 0x1FAC5), (0x1FACE, 0x1FADB),
      (0x1FAE0, 0x1FAE8), (0x1FAF0, 0x1FAF8), (0x1FB00, 0x1FB92), (0x1FB94, 0x1FBCA), (0x1FBF0, 0x1FBF9),
      (0x20000, 0x2A6DF), (0x2A700, 0x2B739), (0x2B740, 0x2B81D), (0x2B820, 0x2CEA1), (0x2CEB0, 0x2EBE0),
      (0x2F800, 0x2FA1D), (0x30000, 0x3134A), (0x31350, 0x323AF), (0xE0100, 0xE01EF)]"

definition IsPrint :: "nat \<Rightarrow> bool" where
  "IsPrint r =
     (if r \<le> 0xFF then (0x20 \<le> r \<and> r \<le> 0x7E) \<or> (0xA1 \<le> r \<and> r \<noteq> 0xAD)
      else list_ex (\<lambda>(lo, hi). lo \<le> r \<and> r \<le> hi) print_ranges)"

text \<open>
  \<^verbatim>\<open>strconv.Quote\<close>, which the verb \<^verbatim>\<open>%q\<close> applies to a string: the text between double
  quotes, with the printable runes as they are and Go escape sequences for the quote, the
  backslash, the runes that are not printable and the bytes that are not part of a
  well-formed sequence. \<open>hex_digits shifts r\<close> are the hexadecimal digits of \<open>r\<close> at the
  given shifts, as the loops over \<^verbatim>\<open>lowerhex[r>>uint(s)&0xF]\<close> write them.
\<close>

definition hex_digits :: "nat list \<Rightarrow> nat \<Rightarrow> string" where
  "hex_digits shifts r = map (\<lambda>s. hex_digit (r div 2 ^ s)) shifts"

definition appendEscapedRune :: "nat \<Rightarrow> string" where
  "appendEscapedRune r =
     (if r = 0x22 \<or> r = 0x5C then [CHR 0x5C, char_of r]
      else if IsPrint r then AppendRune r
      else if r = 7 then [CHR 0x5C, CHR ''a'']
      else if r = 8 then [CHR 0x5C, CHR ''b'']
      else if r = 12 then [CHR 0x5C, CHR ''f'']
      else if r = 10 then [CHR 0x5C, CHR ''n'']
      else if r = 13 then [CHR 0x5C, CHR ''r'']
      else if r = 9 then [CHR 0x5C, CHR ''t'']
      else if r = 11 then [CHR 0x5C, CHR ''v'']
      else if r < 0x20 \<or> r = 0x7F then [CHR 0x5C, CHR ''x''] @ hex_digits [4, 0] r
      else if r > 0x10FFFF \<or> (0xD800 \<le> r \<and> r \<le> 0xDFFF) then
        [CHR 0x5C, CHR ''u''] @ hex_digits [12, 8, 4, 0] RuneError
      else if r < 0x10000 then [CHR 0x5C, CHR ''u''] @ hex_digits [12, 8, 4, 0] r
      else [CHR 0x5C, CHR ''U''] @ hex_digits [28, 24, 20, 16, 12, 8, 4, 0] r)"

definition quote_rune :: "nat \<times> string \<Rightarrow> string" where
  "quote_rune rb =
     (case rb of (r, bytes) \<Rightarrow>
        if length bytes = 1 \<and> r = RuneError then
          [CHR 0x5C, CHR ''x''] @ hex_digits [4, 0] (of_char (hd bytes))
        else appendEscapedRune r)"

definition Quote :: "string \<Rightarrow> string" where
  "Quote s = [CHR 0x22] @ concat (map quote_rune (decode s)) @ [CHR 0x22]"

section \<open>Errors\<close>

text \<open>\<^verbatim>\<open>type HTTPError struct\<close>: the uniform structured error.\<close>

record HTTPError =
  Code :: int
  Err :: string
  Message :: string

text \<open>The two sentinel errors of \<^verbatim>\<open>strconv\<close> and its \<^verbatim>\<open>NumError\<close> (fields Func, Num, Err).\<close>

datatype strconv_err = ErrSyntax | ErrRange

datatype NumError = NumError string string strconv_err

text \<open>
  Values of the interface \<^verbatim>\<open>error\<close>, by dynamic type. The constructors are the types that
  \<^verbatim>\<open>toHTTPError\<close> tells apart:
  \<^item> \<open>HTTPErrorPtr\<close> is a \<^verbatim>\<open>*HTTPError\<close> and \<open>HTTPErrorVal\<close> an \<^verbatim>\<open>HTTPError\<close>;
  \<^item> \<open>ExtractErrorPtr Type Field Value Message Err\<close> is an \<^verbatim>\<open>*ExtractError\<close> with its five
    fields in the order of the struct declaration, \<open>Err\<close> being the wrapped cause
    (\<open>None\<close> for \<^verbatim>\<open>nil\<close>);
  \<^item> \<open>UnmarshalTypeError Field Type Value\<close> is a \<^verbatim>\<open>*json.UnmarshalTypeError\<close> (the type
    by its name), \<open>SyntaxError\<close> a \<^verbatim>\<open>*json.SyntaxError\<close>;
  \<^item> \<open>MultiError\<close> is a \<^verbatim>\<open>schema.MultiError\<close>, a map from field names to errors, given as
    the list of its entries in the order in which the \<^verbatim>\<open>range\<close> loop visits them, each
    error by its \<^verbatim>\<open>Error()\<close> text;
  \<^item> \<open>ConversionError Key\<close> and \<open>UnknownKeyError Key\<close> are the two pointer types of the
    schema package;
  \<^item> \<open>NumErrorPtr\<close> is a \<^verbatim>\<open>*strconv.NumError\<close>;
  \<^item> \<open>Other msg cause\<close> is a value of any other error type, with the text its
    \<^verbatim>\<open>Error()\<close> method returns and the error its \<^verbatim>\<open>Unwrap()\<close> method returns, if any.
  Pointers are not nil, and error types with an \<^verbatim>\<open>As\<close> method or with an \<^verbatim>\<open>Unwrap\<close>
  method returning several errors are not modelled.
\<close>

datatype err =
    HTTPErrorPtr HTTPError
  | HTTPErrorVal HTTPError
  | ExtractErrorPtr string string string string "err option"
  | UnmarshalTypeError string string string
  | SyntaxError
  | MultiError "(string \<times> string) list"
  | ConversionError string
  | UnknownKeyError string
  | NumErrorPtr NumError
  | Other string "err option"

definition ErrTypeBodyRead :: string where "ErrTypeBodyRead = ''body_read_error''"
definition ErrTypeEmptyBody :: string where "ErrTypeEmptyBody = ''empty_body''"
definition ErrTypeFormParse :: string where "ErrTypeFormParse = ''form_parse_error''"
definition ErrTypePathConversion :: string where "ErrTypePathConversion = ''path_conversion_error''"
definition ErrTypeMissingPath :: string where "ErrTypeMissingPath = ''missing_path_value''"
definition ErrTypeValidation :: string where "ErrTypeValidation = ''validation_error''"

lemmas ErrType_defs =
  ErrTypeBodyRead_def ErrTypeEmptyBody_def ErrTypeFormParse_def
  ErrTypePathConversion_def ErrTypeMissingPath_def ErrTypeValidation_def

text \<open>The constructors of extraction failures.\<close>

definition NewBodyReadError :: "err \<Rightarrow> err" where
  "NewBodyReadError e =
     ExtractErrorPtr ErrTypeBodyRead [] [] ''failed to read request body'' (Some e)"

definition NewEmptyBodyError :: err where
  "NewEmptyBodyError = ExtractErrorPtr ErrTypeEmptyBody [] [] ''request body is required'' None"

definition NewFormParseError :: "err \<Rightarrow> err" where
  "NewFormParseError e =
     ExtractErrorPtr ErrTypeFormParse [] [] ''invalid form data format'' (Some e)"

definition NewPathConversionError :: "string \<Rightarrow> string \<Rightarrow> string \<Rightarrow> err \<Rightarrow> err" where
  "NewPathConversionError field val targetType e =
     ExtractErrorPtr ErrTypePathConversion field val
       (''invalid path parameter '' @ Quote field @ '': cannot convert '' @ Quote val
          @ '' to '' @ targetType)
       (Some e)"

definition NewMissingPathError :: "string \<Rightarrow> err" where
  "NewMissingPathError field =
     ExtractErrorPtr ErrTypeMissingPath field []
       (''missing required path parameter: '' @ field) None"

text \<open>The text of the two sentinels and of a \<^verbatim>\<open>NumError\<close>.\<close>

definition strconv_err_text :: "strconv_err \<Rightarrow> string" where
  "strconv_err_text e = (case e of ErrSyntax \<Rightarrow> ''invalid syntax'' | ErrRange \<Rightarrow> ''value out of range'')"

definition NumError_Error :: "NumError \<Rightarrow> string" where
  "NumError_Error ne =
     (case ne of NumError fn num e \<Rightarrow>
        ''strconv.'' @ fn @ '': parsing '' @ Quote num @ '': '' @ strconv_err_text e)"

text \<open>
  The chain that \<^verbatim>\<open>errors.As\<close> walks: the error, then what \<^verbatim>\<open>Unwrap\<close> returns, and so on.
  \<^verbatim>\<open>(*ExtractError).Unwrap\<close> returns the field \<^verbatim>\<open>Err\<close>, and \<^verbatim>\<open>(*NumError).Unwrap\<close> its
  sentinel.
\<close>

fun chain :: "err \<Rightarrow> err list" where
  "chain (ExtractErrorPtr t f v m (Some c)) = ExtractErrorPtr t f v m (Some c) # chain c"
| "chain (Other m (Some c)) = Other m (Some c) # chain c"
| "chain (NumErrorPtr (NumError fn num e)) =
     [NumErrorPtr (NumError fn num e), Other (strconv_err_text e) None]"
| "chain e = [e]"

text \<open>
  \<^verbatim>\<open>errors.As(err, &target)\<close> for the three targets of \<^verbatim>\<open>toHTTPError\<close>: the first error
  of the chain that has the target's type.
\<close>

fun first_some :: "('a \<Rightarrow> 'b option) \<Rightarrow> 'a list \<Rightarrow> 'b option" where
  "first_some f [] = None"
| "first_some f (x # xs) = (case f x of Some y \<Rightarrow> Some y | None \<Rightarrow> first_some f xs)"

definition As_HTTPErrorPtr :: "err \<Rightarrow> HTTPError option" where
  "As_HTTPErrorPtr e = first_some (\<lambda>x. case x of HTTPErrorPtr h \<Rightarrow> Some h | _ \<Rightarrow> None) (chain e)"

definition As_HTTPErrorVal :: "err \<Rightarrow> HTTPError option" where
  "As_HTTPErrorVal e = first_some (\<lambda>x. case x of HTTPErrorVal h \<Rightarrow> Some h | _ \<Rightarrow> None) (chain e)"

definition As_ExtractErrorPtr :: "err \<Rightarrow> (string \<times> string) option" where
  "As_ExtractErrorPtr e =
     first_some (\<lambda>x. case x of ExtractErrorPtr t f v m c \<Rightarrow> Some (t, m) | _ \<Rightarrow> None) (chain e)"

text \<open>\<^verbatim>\<open>func inferStatusCode(msg string) int\<close>\<close>

definition inferStatusCode :: "string \<Rightarrow> int" where
  "inferStatusCode msg =
     (let lower = ToLower msg in
      if Contains lower ''not found'' then 404
      else if Contains lower ''unauthorized'' then 401
      else if Contains lower ''forbidden'' then 403
      else if Contains lower ''timeout'' then 408
      else if Contains lower ''bad request'' \<or> Contains lower ''invalid'' then 400
      else 500)"

text \<open>\<^verbatim>\<open>func inferErrorType(code int) string\<close>\<close>

definition inferErrorType :: "int \<Rightarrow> string" where
  "inferErrorType code =
     (if code = 400 then ''bad_request''
      else if code = 401 then ''unauthorized''
      else if code = 403 then ''forbidden''
      else if code = 404 then ''not_found''
      else if code = 408 then ''timeout''
      else ''internal_error'')"

text \<open>
  The \<^verbatim>\<open>Error()\<close> method. \<^verbatim>\<open>toHTTPError\<close> calls it in its last branch only, which the
  errors of the json and schema packages never reach: their texts are not modelled and are
  left empty here.
\<close>

definition Error_text :: "err \<Rightarrow> string" where
  "Error_text e =
     (case e of
        NumErrorPtr ne \<Rightarrow> NumError_Error ne
      | Other msg c \<Rightarrow> msg
      | HTTPErrorPtr h \<Rightarrow> (if Message h \<noteq> [] then Message h else Err h)
      | HTTPErrorVal h \<Rightarrow> (if Message h \<noteq> [] then Message h else Err h)
      | ExtractErrorPtr t f v m c \<Rightarrow> m
      | _ \<Rightarrow> [])"

text \<open>The switch of \<^verbatim>\<open>toHTTPError\<close> on the type of an extraction failure.\<close>

definition extractErr_to_HTTPError :: "string \<Rightarrow> string \<Rightarrow> HTTPError" where
  "extractErr_to_HTTPError ty msg =
     (if ty = ErrTypeBodyRead then
        \<lparr>Code = 500, Err = ''internal_server_error'', Message = ''unable to process request''\<rparr>
      else if ty = ErrTypeEmptyBody then \<lparr>Code = 400, Err = ''empty_body'', Message = msg\<rparr>
      else if ty = ErrTypeFormParse then \<lparr>Code = 400, Err = ''invalid_form'', Message = msg\<rparr>
      else if ty = ErrTypePathConversion then
        \<lparr>Code = 400, Err = ''invalid_path_parameter'', Message = msg\<rparr>
      else if ty = ErrTypeMissingPath then
        \<lparr>Code = 400, Err = ''missing_path_parameter'', Message = msg\<rparr>
      else if ty = ErrTypeValidation then
        \<lparr>Code = 400, Err = ''validation_failed'', Message = msg\<rparr>
      else \<lparr>Code = 400, Err = ty, Message = msg\<rparr>)"

text \<open>The type switch of \<^verbatim>\<open>toHTTPError\<close> on the error itself, with its default branch.\<close>

definition switch_to_HTTPError :: "err \<Rightarrow> HTTPError" where
  "switch_to_HTTPError e =
     (case e of
        UnmarshalTypeError field ty val \<Rightarrow>
          \<lparr>Code = 400, Err = ''invalid_json_type'',
           Message = ''field '' @ Quote field @ '' expects '' @ ty @ '' but got '' @ val\<rparr>
      | SyntaxError \<Rightarrow>
          \<lparr>Code = 400, Err = ''invalid_json_syntax'', Message = ''invalid JSON syntax''\<rparr>
      | MultiError es \<Rightarrow>
          \<lparr>Code = 400, Err = ''validation_failed'',
           Message = Join (map (\<lambda>(field, fieldErr). field @ '': '' @ fieldErr) es) ''; ''\<rparr>
      | ConversionError k \<Rightarrow>
          \<lparr>Code = 400, Err = ''conversion_failed'',
           Message = ''cannot convert field '' @ Quote k\<rparr>
      | UnknownKeyError k \<Rightarrow>
          \<lparr>Code = 400, Err = ''unknown_field'', Message = ''unknown field: '' @ k\<rparr>
      | _ \<Rightarrow>
          (let errMsg = Error_text e; code = inferStatusCode errMsg
           in \<lparr>Code = code, Err = inferErrorType code, Message = []\<rparr>))"

text \<open>\<^verbatim>\<open>func toHTTPError(err error) *HTTPError\<close>, \<open>None\<close> being \<^verbatim>\<open>nil\<close>.\<close>

definition toHTTPError :: "err option \<Rightarrow> HTTPError option" where
  "toHTTPError err =
     (case err of
        None \<Rightarrow> None
      | Some e \<Rightarrow>
          (case As_HTTPErrorPtr e of
             Some httpErr \<Rightarrow> Some httpErr
           | None \<Rightarrow>
               (case As_HTTPErrorVal e of
                  Some httpErrVal \<Rightarrow> Some httpErrVal
                | None \<Rightarrow>
                    (case As_ExtractErrorPtr e of
                       Some (ty, msg) \<Rightarrow> Some (extractErr_to_HTTPError ty msg)
                     | None \<Rightarrow> Some (switch_to_HTTPError e)))))"

section \<open>Process-wide configuration\<close>

text \<open>
  \<^verbatim>\<open>type Config struct\<close>. The type variable \<open>'d\<close> stands for the values of the application
  (structs, maps, slices) that handlers return and that are encoded as JSON. What
  \<^verbatim>\<open>jsonEncode\<close> is asked to encode is such a value or a \<^verbatim>\<open>*HTTPError\<close>.

  \<^item> \<open>JSONMarshalFunc\<close> returns the bytes or an error.
  \<^item> \<open>JSONEncodeFunc\<close> is handed the writer: it is given by the byte slices it passes to
    \<^verbatim>\<open>w.Write\<close>, in order, and the error it returns.
  \<^item> \<open>Logger\<close> names the logger of the user; \<open>None\<close> is \<^verbatim>\<open>nil\<close>, for which \<^verbatim>\<open>log.Default()\<close>
    is used.
  \<^item> \<open>Validator\<close> is the validation instance; \<open>None\<close> is \<^verbatim>\<open>nil\<close>.
  The fields \<^verbatim>\<open>SchemaDecoder\<close> and \<^verbatim>\<open>JSONUnmarshalFunc\<close> are read by the JSON, Query and
  Form extractors only, which are extractors like any other here (see \<open>extractor\<close> below).
\<close>

datatype 'd encodable = EncHTTPError HTTPError | EncData 'd

datatype validator = DefaultValidator | UserValidator nat

record 'd Config =
  JSONMarshalFunc :: "('d encodable \<Rightarrow> err + string) option"
  JSONEncodeFunc :: "('d encodable \<Rightarrow> string list \<times> err option) option"
  Logger :: "nat option"
  EnableValidation :: bool
  Validator :: "validator option"

text \<open>The configuration that \<^verbatim>\<open>initDefaultConfig\<close> builds.\<close>

definition defaultConfig :: "'d Config" where
  "defaultConfig =
     \<lparr>JSONMarshalFunc = None, JSONEncodeFunc = None, Logger = None,
      EnableValidation = True, Validator = Some DefaultValidator\<rparr>"

text \<open>The lines written to a logger, one constructor for each format string of \<^verbatim>\<open>mint.go\<close>.\<close>

datatype log_entry =
    WarnMultipleWriteHeader int int
  | WarnNestedBraces nat string
  | WarnUnmatchedBrace nat string
  | WarnUnbalancedBraces string
  | FailedWriteErrorResponse err
  | FailedWriteResponse err

text \<open>
  What a piece of user code does with the \<^verbatim>\<open>http.ResponseWriter\<close> it is handed (a custom
  error hook, a \<^verbatim>\<open>Responder\<close>, an \<^verbatim>\<open>http.Handler\<close>): a sequence of calls of its methods.
\<close>

datatype wop =
    OpWriteHeader int
  | OpWrite string
  | OpHeaderSet string string
  | OpHeaderAdd string string

text \<open>
  The variables of the package: \<open>config\<close> (\<open>None\<close> is the nil pointer), \<open>configOnce\<close> (whether
  the \<^verbatim>\<open>sync.Once\<close> has fired) and \<open>CustomErrorHandler\<close> (\<open>None\<close> is nil), and with them
  \<open>log_output\<close>, the lines logged so far, each with the logger it went to. The read/write
  lock around \<open>config\<close> does not appear: one request is served at a time.
\<close>

record 'd globals =
  config :: "'d Config option"
  configOnce :: bool
  CustomErrorHandler :: "(err \<Rightarrow> wop list) option"
  log_output :: "(nat option \<times> log_entry) list"

text \<open>
  The state in which one request is served: the variables of the package, and
  \<^item> the fields \<open>statusCode\<close> and \<open>headerWritten\<close> of the \<^verbatim>\<open>ResponseWriter\<close> wrapper;
  \<^item> the embedded \<^verbatim>\<open>http.ResponseWriter\<close> of the transport, which records what it is sent:
    \<open>wire_status\<close> the codes passed to its \<^verbatim>\<open>WriteHeader\<close>, \<open>wire_header\<close> its header map
    (keys in canonical form) and \<open>wire_body\<close> the bytes passed to its \<^verbatim>\<open>Write\<close>, which
    always succeeds.
\<close>

record 'd state = "'d globals" +
  statusCode :: int
  headerWritten :: bool
  wire_status :: "int list"
  wire_header :: "string \<Rightarrow> string list"
  wire_body :: string

text \<open>The variables of the package in a state, and a state with other variables.\<close>

definition put_globals :: "'d globals \<Rightarrow> 'd state \<Rightarrow> 'd state" where
  "put_globals g s =
     s\<lparr>config := config g, configOnce := configOnce g,
       CustomErrorHandler := CustomErrorHandler g, log_output := log_output g\<rparr>"

text \<open>
  When the process starts, the variables have their zero values; \<open>process_start\<close> is that
  moment, with a writer that has been sent nothing.
\<close>

definition process_start :: "'d state" where
  "process_start =
     \<lparr>config = None, configOnce = False, CustomErrorHandler = None, log_output = [],
      statusCode = 0, headerWritten = False,
      wire_status = [], wire_header = (\<lambda>k. []), wire_body = []\<rparr>"

text \<open>A Go panic ends the handling of the request.\<close>

datatype panic =
    NilPointerDereference
  | InsufficientPathParameters string
  | UnsupportedParameterType string

definition and_then :: "panic + 'a \<Rightarrow> ('a \<Rightarrow> panic + 'b) \<Rightarrow> panic + 'b" where
  "and_then m f = (case m of Inl p \<Rightarrow> Inl p | Inr x \<Rightarrow> f x)"

text \<open>\<^verbatim>\<open>func initDefaultConfig()\<close>: the body runs the first time only.\<close>

definition initDefaultConfig :: "('d, 'z) globals_scheme \<Rightarrow> ('d, 'z) globals_scheme" where
  "initDefaultConfig s =
     (if configOnce s then s
      else (if config s = None then s\<lparr>config := Some defaultConfig\<rparr> else s)\<lparr>configOnce := True\<rparr>)"

text \<open>\<^verbatim>\<open>func SetConfig(cfg *Config)\<close>\<close>

definition SetConfig ::
  "'d Config option \<Rightarrow> ('d, 'z) globals_scheme \<Rightarrow> ('d, 'z) globals_scheme"
where
  "SetConfig cfg s =
     (case cfg of
        None \<Rightarrow> initDefaultConfig s
      | Some c \<Rightarrow>
          s\<lparr>config :=
              Some (if EnableValidation c \<and> Validator c = None
                    then c\<lparr>Validator := Some DefaultValidator\<rparr> else c)\<rparr>)"

text \<open>\<^verbatim>\<open>func getConfig() *Config\<close>: the pointer it returns, and the state it leaves.\<close>

definition getConfig ::
  "('d, 'z) globals_scheme \<Rightarrow> 'd Config option \<times> ('d, 'z) globals_scheme"
where
  "getConfig s = (let s' = initDefaultConfig s in (config s', s'))"

text \<open>
  \<^verbatim>\<open>getConfig().logger().Printf(...)\<close>: the method \<^verbatim>\<open>logger\<close> reads a field of its receiver,
  which panics on a nil pointer.
\<close>

definition log_Printf ::
  "log_entry \<Rightarrow> ('d, 'z) globals_scheme \<Rightarrow> panic + ('d, 'z) globals_scheme"
where
  "log_Printf l s =
     (case getConfig s of
        (None, s') \<Rightarrow> Inl NilPointerDereference
      | (Some c, s') \<Rightarrow> Inr (s'\<lparr>log_output := log_output s' @ [(Logger c, l)]\<rparr>))"

text \<open>
  The \<^verbatim>\<open>sync.Once\<close> fires in \<^verbatim>\<open>initDefaultConfig\<close> only, which leaves \<open>config\<close> set, and
  nothing resets \<open>config\<close> to nil: in every state that the process reaches, \<open>config\<close> is
  set once \<open>configOnce\<close> has fired.
\<close>

definition config_ok :: "('d, 'z) globals_scheme \<Rightarrow> bool" where
  "config_ok s = (configOnce s \<longrightarrow> config s \<noteq> None)"

section \<open>The response wrapper\<close>

text \<open>\<^verbatim>\<open>func (rw *ResponseWriter) WriteHeader(code int)\<close>\<close>

definition WriteHeader :: "int \<Rightarrow> 'd state \<Rightarrow> panic + 'd state" where
  "WriteHeader code s =
     (if headerWritten s then log_Printf (WarnMultipleWriteHeader (statusCode s) code) s
      else
        (let code = (if code \<le> 0 then 200 else code)
         in Inr (s\<lparr>statusCode := code, headerWritten := True,
                   wire_status := wire_status s @ [code]\<rparr>)))"

text \<open>\<^verbatim>\<open>func (rw *ResponseWriter) Write(b []byte) (int, error)\<close>\<close>

definition Write :: "string \<Rightarrow> 'd state \<Rightarrow> panic + 'd state" where
  "Write b s =
     and_then (if \<not> headerWritten s then WriteHeader 200 s else Inr s)
       (\<lambda>s. Inr (s\<lparr>wire_body := wire_body s @ b\<rparr>))"

text \<open>\<^verbatim>\<open>w.Header().Set(key, value)\<close> and \<^verbatim>\<open>w.Header().Add(key, value)\<close>, on the embedded writer.\<close>

definition Header_Set :: "string \<Rightarrow> string \<Rightarrow> 'd state \<Rightarrow> 'd state" where
  "Header_Set k v s = s\<lparr>wire_header := (wire_header s)(k := [v])\<rparr>"

definition Header_Add :: "string \<Rightarrow> string \<Rightarrow> 'd state \<Rightarrow> 'd state" where
  "Header_Add k v s = s\<lparr>wire_header := (wire_header s)(k := wire_header s k @ [v])\<rparr>"

fun do_wop :: "wop \<Rightarrow> 'd state \<Rightarrow> panic + 'd state" where
  "do_wop (OpWriteHeader code) s = WriteHeader code s"
| "do_wop (OpWrite b) s = Write b s"
| "do_wop (OpHeaderSet k v) s = Inr (Header_Set k v s)"
| "do_wop (OpHeaderAdd k v) s = Inr (Header_Add k v s)"

fun run_wops :: "wop list \<Rightarrow> 'd state \<Rightarrow> panic + 'd state" where
  "run_wops [] s = Inr s"
| "run_wops (x # xs) s = (case do_wop x s of Inl p \<Rightarrow> Inl p | Inr s' \<Rightarrow> run_wops xs s')"

text \<open>Writing byte slices one after the other.\<close>

fun Write_all :: "string list \<Rightarrow> 'd state \<Rightarrow> panic + 'd state" where
  "Write_all [] s = Inr s"
| "Write_all (b # bs) s = (case Write b s of Inl p \<Rightarrow> Inl p | Inr s' \<Rightarrow> Write_all bs s')"

text \<open>
  \<^verbatim>\<open>func WriteHeaders(w http.ResponseWriter, headers http.Header)\<close>: the map is given by
  its entries in the order of the \<^verbatim>\<open>range\<close> loop.
\<close>

definition WriteHeaders :: "(string \<times> string list) list \<Rightarrow> 'd state \<Rightarrow> 'd state" where
  "WriteHeaders headers s =
     fold (\<lambda>(key, values) s. fold (\<lambda>value s. Header_Add key value s) values s) headers s"

section \<open>JSON encoding\<close>

text \<open>
  The string literal that \<^verbatim>\<open>encoding/json\<close> writes for a Go string when the escaping of
  HTML is off: escapes for the quote, the backslash and the control characters, the escape
  of U+FFFD for a byte that is not part of a well-formed sequence, escapes for the two
  separators U+2028 and U+2029, and every other rune by its bytes.
\<close>

definition json_byte :: "char \<Rightarrow> string" where
  "json_byte c =
     (let n = (of_char c :: nat) in
      if n = 0x22 then [CHR 0x5C, CHR 0x22]
      else if n = 0x5C then [CHR 0x5C, CHR 0x5C]
      else if n = 8 then [CHR 0x5C, CHR ''b'']
      else if n = 12 then [CHR 0x5C, CHR ''f'']
      else if n = 10 then [CHR 0x5C, CHR ''n'']
      else if n = 13 then [CHR 0x5C, CHR ''r'']
      else if n = 9 then [CHR 0x5C, CHR ''t'']
      else if n < 0x20 then
        [CHR 0x5C, CHR ''u'', CHR ''0'', CHR ''0'', hex_digit (n div 16), hex_digit n]
      else [c])"

definition json_rune :: "nat \<times> string \<Rightarrow> string" where
  "json_rune rb =
     (case rb of (r, bytes) \<Rightarrow>
        if r < 0x80 then json_byte (hd bytes)
        else if r = RuneError \<and> length bytes = 1 then
          [CHR 0x5C, CHR ''u'', CHR ''f'', CHR ''f'', CHR ''f'', CHR ''d'']
        else if r = 0x2028 \<or> r = 0x2029 then
          [CHR 0x5C, CHR ''u'', CHR ''2'', CHR ''0'', CHR ''2'', hex_digit r]
        else bytes)"

definition json_string :: "string \<Rightarrow> string" where
  "json_string s = [CHR 0x22] @ concat (map json_rune (decode s)) @ [CHR 0x22]"

text \<open>
  What \<^verbatim>\<open>encoding/json\<close> writes for an \<^verbatim>\<open>HTTPError\<close>, from the tags of the struct:
  \<^verbatim>\<open>json:"code"\<close>, \<^verbatim>\<open>json:"error"\<close> and \<^verbatim>\<open>json:"message,omitempty"\<close>.
\<close>

definition marshal_HTTPError :: "HTTPError \<Rightarrow> string" where
  \<open>marshal_HTTPError e =
     ''{"code":'' @ Itoa (Code e) @ '',"error":'' @ json_string (Err e)
     @ (if Message e = [] then [] else '',"message":'' @ json_string (Message e))
     @ ''}''\<close>

text \<open>
  \<^verbatim>\<open>json.NewEncoder(w).Encode(v)\<close> with \<^verbatim>\<open>SetEscapeHTML(false)\<close>: the bytes it passes to
  \<^verbatim>\<open>w.Write\<close> in one call (the encoding, then a newline), or the error of the encoding, in
  which case nothing is written. The parameter \<open>M\<close> is what the package does with the values
  of the application.
\<close>

definition std_Encode :: "('d \<Rightarrow> err + string) \<Rightarrow> 'd encodable \<Rightarrow> err + string" where
  "std_Encode M v =
     (case v of
        EncHTTPError e \<Rightarrow> Inr (marshal_HTTPError e @ [CHR 0x0A])
      | EncData d \<Rightarrow> (case M d of Inl e \<Rightarrow> Inl e | Inr b \<Rightarrow> Inr (b @ [CHR 0x0A])))"

text \<open>\<^verbatim>\<open>func (c *Config) jsonEncode(w io.Writer, v any) error\<close>, on a receiver that is not nil.\<close>

definition jsonEncode ::
  "('d \<Rightarrow> err + string) \<Rightarrow> 'd Config \<Rightarrow> 'd encodable \<Rightarrow> 'd state \<Rightarrow> panic + (err option \<times> 'd state)"
where
  "jsonEncode M c v s =
     (case JSONEncodeFunc c of
        Some f \<Rightarrow>
          (case f v of (chunks, e) \<Rightarrow> and_then (Write_all chunks s) (\<lambda>s'. Inr (e, s')))
      | None \<Rightarrow>
          (case JSONMarshalFunc c of
             Some f \<Rightarrow>
               (case f v of
                  Inl e \<Rightarrow> Inr (Some e, s)
                | Inr jsonData \<Rightarrow> and_then (Write jsonData s) (\<lambda>s'. Inr (None, s')))
           | None \<Rightarrow>
               (case std_Encode M v of
                  Inl e \<Rightarrow> Inr (Some e, s)
                | Inr b \<Rightarrow> and_then (Write b s) (\<lambda>s'. Inr (None, s')))))"

text \<open>
  \<^verbatim>\<open>config.jsonEncode(w, v)\<close> as \<^verbatim>\<open>handleCommonTypes\<close> and \<^verbatim>\<open>handleError\<close> write it: on the
  package variable itself, not on \<^verbatim>\<open>getConfig()\<close>. The method reads the field
  \<^verbatim>\<open>c.JSONEncodeFunc\<close> first, which panics when the variable is still nil.
\<close>

definition config_jsonEncode ::
  "('d \<Rightarrow> err + string) \<Rightarrow> 'd encodable \<Rightarrow> 'd state \<Rightarrow> panic + (err option \<times> 'd state)"
where
  "config_jsonEncode M v s =
     (case config s of None \<Rightarrow> Inl NilPointerDereference | Some c \<Rightarrow> jsonEncode M c v s)"

section \<open>Response and error classification\<close>

text \<open>
  A value of type \<^verbatim>\<open>any\<close> handed to \<^verbatim>\<open>handleCommonTypes\<close>, by the branch that takes it:
  \<open>VNil\<close> the nil interface, \<open>VResponder\<close> a value with a \<^verbatim>\<open>Respond\<close> method (given by what
  the method does with the writer), then the cases of the type switch: \<^verbatim>\<open>string\<close>,
  \<^verbatim>\<open>StatusCode\<close>, \<^verbatim>\<open>[]byte\<close>, \<^verbatim>\<open>HTML\<close> or \<^verbatim>\<open>template.HTML\<close>, an \<^verbatim>\<open>io.Reader\<close> (given by
  the non-empty slices that \<^verbatim>\<open>io.Copy\<close> reads from it and the error that ends the copy, if
  any), and any other value.
\<close>

datatype 'd val =
    VNil
  | VResponder "wop list"
  | VString string
  | VStatusCode int
  | VBytes string
  | VHTML string
  | VReader "string list" "err option"
  | VData 'd

text \<open>\<^verbatim>\<open>func handleCommonTypes(w http.ResponseWriter, data any) error\<close>\<close>

definition handleCommonTypes ::
  "('d \<Rightarrow> err + string) \<Rightarrow> 'd val \<Rightarrow> 'd state \<Rightarrow> panic + (err option \<times> 'd state)"
where
  "handleCommonTypes M data s =
     (case data of
        VNil \<Rightarrow> Inr (None, s)
      | VResponder ops \<Rightarrow> and_then (run_wops ops s) (\<lambda>s'. Inr (None, s'))
      | VString v \<Rightarrow>
          and_then (Write v (Header_Set ''Content-Type'' ''text/plain; charset=utf-8'' s))
            (\<lambda>s'. Inr (None, s'))
      | VStatusCode v \<Rightarrow> and_then (WriteHeader v s) (\<lambda>s'. Inr (None, s'))
      | VBytes v \<Rightarrow>
          and_then (Write v (Header_Set ''Content-Type'' ''application/octet-stream'' s))
            (\<lambda>s'. Inr (None, s'))
      | VHTML v \<Rightarrow>
          and_then (Write v (Header_Set ''Content-Type'' ''text/html; charset=utf-8'' s))
            (\<lambda>s'. Inr (None, s'))
      | VReader chunks e \<Rightarrow> and_then (Write_all chunks s) (\<lambda>s'. Inr (e, s'))
      | VData d \<Rightarrow>
          config_jsonEncode M (EncData d)
            (Header_Set ''Content-Type'' ''application/json; charset=utf-8'' s))"

text \<open>
  \<^verbatim>\<open>func handleError(w http.ResponseWriter, err error) error\<close>, for the writer that \<^verbatim>\<open>H\<close>
  passes, which is the wrapper. The hook is given by what it does with the writer.
\<close>

definition handleError ::
  "('d \<Rightarrow> err + string) \<Rightarrow> err \<Rightarrow> 'd state \<Rightarrow> panic + (err option \<times> 'd state)"
where
  "handleError M e s =
     (case CustomErrorHandler s of
        Some hook \<Rightarrow> and_then (run_wops (hook e) s) (\<lambda>s'. Inr (None, s'))
      | None \<Rightarrow>
          (let statusWritten = headerWritten s in
           case toHTTPError (Some e) of
             None \<Rightarrow> Inr (None, s)
           | Some httpErr \<Rightarrow>
               and_then
                 (let s1 = Header_Set ''Content-Type'' ''application/json; charset=utf-8'' s
                  in if \<not> statusWritten then WriteHeader (Code httpErr) s1 else Inr s1)
                 (\<lambda>s2. config_jsonEncode M (EncHTTPError httpErr) s2)))"

text \<open>
  \<^verbatim>\<open>type Result[T any] struct\<close>, as \<open>Result Code Headers Data Err\<close>: the four fields in the
  order of the declaration, \<open>None\<close> for a nil header map and for a nil error.
\<close>

datatype 'd Result = Result int "(string \<times> string list) list option" "'d val" "err option"

text \<open>\<^verbatim>\<open>func handleResult(w http.ResponseWriter, result Result[any]) error\<close>\<close>

fun handleResult ::
  "('d \<Rightarrow> err + string) \<Rightarrow> 'd Result \<Rightarrow> 'd state \<Rightarrow> panic + (err option \<times> 'd state)"
where
  "handleResult M (Result code headers data e) s =
     and_then
       (let s1 = (case headers of Some h \<Rightarrow> WriteHeaders h s | None \<Rightarrow> s)
        in if code \<noteq> 0 then WriteHeader code s1 else Inr s1)
       (\<lambda>s2. case e of Some e' \<Rightarrow> handleError M e' s2 | None \<Rightarrow> handleCommonTypes M data s2)"

text \<open>
  The one value a handler returns, as \<^verbatim>\<open>handleOneResult\<close> tells it apart: a result envelope,
  an error, or anything else.
\<close>

datatype 'd ret = RetResult "'d Result" | RetError err | RetValue "'d val"

text \<open>\<^verbatim>\<open>func handleOneResult(w http.ResponseWriter, data any) error\<close>\<close>

fun handleOneResult ::
  "('d \<Rightarrow> err + string) \<Rightarrow> 'd ret \<Rightarrow> 'd state \<Rightarrow> panic + (err option \<times> 'd state)"
where
  "handleOneResult M (RetResult r) s = handleResult M r s"
| "handleOneResult M (RetError e) s = handleError M e s"
| "handleOneResult M (RetValue v) s = handleCommonTypes M v s"

text \<open>\<^verbatim>\<open>func handleTwoResults(w http.ResponseWriter, data any, err any) error\<close>\<close>

definition handleTwoResults ::
  "('d \<Rightarrow> err + string) \<Rightarrow> 'd val \<Rightarrow> err option \<Rightarrow> 'd state \<Rightarrow> panic + (err option \<times> 'd state)"
where
  "handleTwoResults M data e s =
     (case e of Some e' \<Rightarrow> handleError M e' s | None \<Rightarrow> handleCommonTypes M data s)"

section \<open>Parsing numbers and booleans\<close>

text \<open>
  The functions of the package \<^verbatim>\<open>strconv\<close> that \<^verbatim>\<open>Path.Extract\<close> calls, in base 10, for a
  platform whose \<^verbatim>\<open>int\<close> and \<^verbatim>\<open>uint\<close> have 64 bits. Each returns its value together with
  its error, as the Go function does. The accumulator of the digit loop is a \<^verbatim>\<open>uint64\<close>:
  the sum that may overflow is taken modulo \<open>2 ^ 64\<close>.
\<close>

definition digit_val :: "char \<Rightarrow> nat option" where
  "digit_val c =
     (let n = (of_char c :: nat) in if 48 \<le> n \<and> n \<le> 57 then Some (n - 48) else None)"

definition maxUint64 :: nat where
  "maxUint64 = 2 ^ 64 - 1"

fun uint_loop :: "nat \<Rightarrow> string \<Rightarrow> nat \<Rightarrow> nat \<times> strconv_err option" where
  "uint_loop maxVal [] n = (n, None)"
| "uint_loop maxVal (c # cs) n =
     (case digit_val c of
        None \<Rightarrow> (0, Some ErrSyntax)
      | Some d \<Rightarrow>
          if n \<ge> maxUint64 div 10 + 1 then (maxVal, Some ErrRange)
          else
            (let n10 = n * 10; n1 = (n10 + d) mod 2 ^ 64
             in if n1 < n10 \<or> n1 > maxVal then (maxVal, Some ErrRange)
                else uint_loop maxVal cs n1))"

text \<open>\<^verbatim>\<open>strconv.ParseUint(s, 10, bitSize)\<close>, for a bit size from 1 to 64.\<close>

definition ParseUint :: "string \<Rightarrow> nat \<Rightarrow> nat \<times> strconv_err option" where
  "ParseUint s bitSize = (if s = [] then (0, Some ErrSyntax) else uint_loop (2 ^ bitSize - 1) s 0)"

text \<open>\<^verbatim>\<open>strconv.ParseInt(s, 10, bitSize)\<close>, for a bit size from 1 to 64.\<close>

definition ParseInt :: "string \<Rightarrow> nat \<Rightarrow> int \<times> strconv_err option" where
  "ParseInt s bitSize =
     (if s = [] then (0, Some ErrSyntax)
      else
        (let neg = (hd s = CHR ''-'');
             s1 = (if hd s = CHR ''+'' \<or> hd s = CHR ''-'' then tl s else s);
             (un, e) = ParseUint s1 bitSize;
             cutoff = (2 :: nat) ^ (bitSize - 1)
         in if e = Some ErrSyntax then (0, Some ErrSyntax)
            else if \<not> neg \<and> un \<ge> cutoff then (int cutoff - 1, Some ErrRange)
            else if neg \<and> un > cutoff then (- int cutoff, Some ErrRange)
            else (if neg then - int un else int un, None)))"

text \<open>
  \<^verbatim>\<open>strconv.Atoi(s)\<close>: its fast path for short strings and \<^verbatim>\<open>ParseInt(s, 10, 0)\<close> return
  the same value and the same sentinel.
\<close>

definition Atoi :: "string \<Rightarrow> int \<times> strconv_err option" where
  "Atoi s = ParseInt s 64"

text \<open>\<^verbatim>\<open>strconv.ParseBool(str)\<close>\<close>

definition ParseBool :: "string \<Rightarrow> bool \<times> strconv_err option" where
  "ParseBool str =
     (if str \<in> set [''1'', ''t'', ''T'', ''true'', ''TRUE'', ''True''] then (True, None)
      else if str \<in> set [''0'', ''f'', ''F'', ''false'', ''FALSE'', ''False''] then (False, None)
      else (False, Some ErrSyntax))"

section \<open>Requests and the Path extractor\<close>

text \<open>
  Of an \<^verbatim>\<open>*http.Request\<close>, the matched pattern \<^verbatim>\<open>r.Pattern\<close> and the values of the path
  wildcards; \<^verbatim>\<open>r.PathValue(name)\<close> is the empty string when there is none.
\<close>

record request =
  Pattern :: string
  PathValues :: "string \<rightharpoonup> string"

definition PathValue :: "request \<Rightarrow> string \<Rightarrow> string" where
  "PathValue r name = (case PathValues r name of None \<Rightarrow> [] | Some v \<Rightarrow> v)"

text \<open>
  The type argument of \<^verbatim>\<open>Path[T]\<close>: one of the seven types of the switch in
  \<^verbatim>\<open>Path.Extract\<close>, or a defined type (\<^verbatim>\<open>type UserID int\<close>), which the constraint
  \<^verbatim>\<open>PathValue\<close> admits and the switch does not know; \<open>TNamed\<close> carries the name that the
  verb \<^verbatim>\<open>%T\<close> prints for it. The values of type \<^verbatim>\<open>float64\<close> are left abstract, and
  \<^verbatim>\<open>strconv.ParseFloat(s, 64)\<close> is a parameter of the extractor, which gives the sentinel
  of its error or its value.
\<close>

datatype path_type = TString | TInt | TInt64 | TUint | TUint64 | TFloat64 | TBool | TNamed string

typedecl float64

datatype pathval =
    PString string
  | PInt int
  | PInt64 int
  | PUint nat
  | PUint64 nat
  | PFloat64 float64
  | PBool bool

text \<open>From the value and the error of a parsing function to the result of the extractor.\<close>

definition converted ::
  "string \<Rightarrow> string \<Rightarrow> string \<Rightarrow> string \<Rightarrow> ('a \<Rightarrow> pathval) \<Rightarrow> 'a \<times> strconv_err option \<Rightarrow> err + pathval"
where
  "converted key pv targetType fn mk res =
     (case res of
        (val, Some e) \<Rightarrow>
          Inl (NewPathConversionError key pv targetType (NumErrorPtr (NumError fn pv e)))
      | (val, None) \<Rightarrow> Inr (mk val))"

text \<open>
  \<^verbatim>\<open>func (p *Path[T]) Extract(r *http.Request) error\<close>, on an extractor whose key has been
  set to \<open>key\<close>: the error, or the value stored in \<^verbatim>\<open>p.Value\<close>.
\<close>

definition Path_Extract ::
  "(string \<Rightarrow> strconv_err + float64) \<Rightarrow> path_type \<Rightarrow> string \<Rightarrow> request \<Rightarrow> err + pathval"
where
  "Path_Extract ParseFloat T key r =
     (let pv = PathValue r key in
      if pv = [] then Inl (NewMissingPathError key)
      else
        (case T of
           TString \<Rightarrow> Inr (PString pv)
         | TInt \<Rightarrow> converted key pv ''int'' ''Atoi'' PInt (Atoi pv)
         | TInt64 \<Rightarrow> converted key pv ''int64'' ''ParseInt'' PInt64 (ParseInt pv 64)
         | TUint \<Rightarrow> converted key pv ''uint'' ''ParseUint'' PUint (ParseUint pv 64)
         | TUint64 \<Rightarrow> converted key pv ''uint64'' ''ParseUint'' PUint64 (ParseUint pv 64)
         | TFloat64 \<Rightarrow>
             (case ParseFloat pv of
                Inl e \<Rightarrow>
                  Inl (NewPathConversionError key pv ''float64''
                         (NumErrorPtr (NumError ''ParseFloat'' pv e)))
              | Inr val \<Rightarrow> Inr (PFloat64 val))
         | TBool \<Rightarrow> converted key pv ''bool'' ''ParseBool'' PBool (ParseBool pv)
         | TNamed name \<Rightarrow>
             Inl (ExtractErrorPtr ''unsupported_type'' key []
                    (''Unsupported path parameter type: *'' @ name) None)))"

section \<open>Path names of a route pattern\<close>

text \<open>
  \<^verbatim>\<open>func extractPatternNames(pattern string) []string\<close>. The loop runs over the bytes that
  are left, \<open>i\<close> is the index of the current one, and the local variables are
  \<open>(names, inParam, currentName, depth)\<close>. (The Go loop runs over code points, with the index
  of their first byte; the two agree on well-formed UTF-8, where a brace is one byte and
  every other code point is appended to \<^verbatim>\<open>currentName\<close> byte for byte.)
\<close>

type_synonym scan_vars = "string list \<times> bool \<times> string \<times> int"

fun scan ::
  "string \<Rightarrow> nat \<Rightarrow> string \<Rightarrow> scan_vars \<Rightarrow> ('d, 'z) globals_scheme
     \<Rightarrow> panic + (scan_vars \<times> ('d, 'z) globals_scheme)"
where
  "scan pattern i [] vars s = Inr (vars, s)"
| "scan pattern i (char # rest) (names, inParam, currentName, depth) s =
     (if char = CHR ''{'' then
        (case (if inParam then log_Printf (WarnNestedBraces i pattern) s else Inr s) of
           Inl p \<Rightarrow> Inl p
         | Inr s' \<Rightarrow> scan pattern (i + 1) rest (names, True, [], depth + 1) s')
      else if char = CHR ''}'' then
        (if \<not> inParam then
           (case log_Printf (WarnUnmatchedBrace i pattern) s of
              Inl p \<Rightarrow> Inl p
            | Inr s' \<Rightarrow> scan pattern (i + 1) rest (names, inParam, currentName, depth) s')
         else
           scan pattern (i + 1) rest
             (if currentName \<noteq> [] then names @ [currentName] else names,
              False, currentName, depth - 1) s)
      else if inParam then
        scan pattern (i + 1) rest (names, inParam, currentName @ [char], depth) s
      else scan pattern (i + 1) rest (names, inParam, currentName, depth) s)"

definition extractPatternNames ::
  "string \<Rightarrow> ('d, 'z) globals_scheme \<Rightarrow> panic + (string list \<times> ('d, 'z) globals_scheme)"
where
  "extractPatternNames pattern s =
     (case scan pattern 0 pattern ([], False, [], 0) s of
        Inl p \<Rightarrow> Inl p
      | Inr ((names, inParam, currentName, depth), s') \<Rightarrow>
          and_then (if depth \<noteq> 0 then log_Printf (WarnUnbalancedBraces pattern) s' else Inr s')
            (\<lambda>s''. Inr (names, s'')))"

section \<open>The handler adapter\<close>

text \<open>
  What an extractor leaves in its parameter: a \<^verbatim>\<open>Path[T]\<close> with its value and key, or a
  value of the application.
\<close>

datatype 'd extracted = PathOf pathval string | DataOf 'd

text \<open>The arguments of the call of the handler function.\<close>

datatype 'd arg = ArgExtractor "'d extracted" | ArgResponseWriter | ArgRequest request

text \<open>
  A parameter type that implements \<^verbatim>\<open>Extractor\<close>, by its \<^verbatim>\<open>Extract\<close> method on a fresh
  value: \<open>Extractor\<close> when the type has no \<^verbatim>\<open>SetKey\<close> method, \<open>KeySetter\<close> when it has one,
  the method then depending on the key it was given. \<^verbatim>\<open>Extract\<close> returns an error or fills
  the parameter; it sees the request and the variables of the package (the JSON, Query and
  Form extractors call \<^verbatim>\<open>getConfig()\<close>), and it has no access to the writer.
\<close>

datatype 'd extractor =
    Extractor "request \<Rightarrow> 'd globals \<Rightarrow> (err + 'd extracted) \<times> 'd globals"
  | KeySetter "string \<Rightarrow> request \<Rightarrow> 'd globals \<Rightarrow> (err + 'd extracted) \<times> 'd globals"

text \<open>\<^verbatim>\<open>Path[T]\<close> as a parameter type.\<close>

definition Path :: "(string \<Rightarrow> strconv_err + float64) \<Rightarrow> path_type \<Rightarrow> 'd extractor" where
  "Path ParseFloat T =
     KeySetter (\<lambda>key r g.
       (case Path_Extract ParseFloat T key r of
          Inl e \<Rightarrow> Inl e
        | Inr v \<Rightarrow> Inr (PathOf v key), g))"

text \<open>
  The parameter types of a handler function, as the switch in the closure of \<^verbatim>\<open>H\<close> sorts
  them; \<open>ParamUnsupported\<close> carries the name of a type of its default branch.
\<close>

datatype 'd param =
    ParamExtractor "'d extractor"
  | ParamResponseWriter
  | ParamRequest
  | ParamUnsupported string

text \<open>
  The loop of the closure over \<^verbatim>\<open>paramTypes\<close>, from the parameters that are left and the
  current \<^verbatim>\<open>keyIdx\<close>: it panics, or stops at the first error of an extractor, or returns the
  arguments.
\<close>

fun bind_params ::
  "request \<Rightarrow> string list \<Rightarrow> 'd param list \<Rightarrow> nat \<Rightarrow> 'd state
     \<Rightarrow> panic + ((err + 'd arg list) \<times> 'd state)"
where
  "bind_params r pathKeys [] keyIdx s = Inr (Inr [], s)"
| "bind_params r pathKeys (ParamExtractor (Extractor ex) # ps) keyIdx s =
     (case ex r (globals.truncate s) of
        (Inl e, g) \<Rightarrow> Inr (Inl e, put_globals g s)
      | (Inr v, g) \<Rightarrow>
          (case bind_params r pathKeys ps keyIdx (put_globals g s) of
             Inr (Inr args, s'') \<Rightarrow> Inr (Inr (ArgExtractor v # args), s'')
           | other \<Rightarrow> other))"
| "bind_params r pathKeys (ParamExtractor (KeySetter ex) # ps) keyIdx s =
     (if keyIdx \<ge> length pathKeys then Inl (InsufficientPathParameters (Pattern r))
      else
        (case ex (pathKeys ! keyIdx) r (globals.truncate s) of
           (Inl e, g) \<Rightarrow> Inr (Inl e, put_globals g s)
         | (Inr v, g) \<Rightarrow>
             (case bind_params r pathKeys ps (keyIdx + 1) (put_globals g s) of
                Inr (Inr args, s'') \<Rightarrow> Inr (Inr (ArgExtractor v # args), s'')
              | other \<Rightarrow> other)))"
| "bind_params r pathKeys (ParamResponseWriter # ps) keyIdx s =
     (case bind_params r pathKeys ps keyIdx s of
        Inr (Inr args, s') \<Rightarrow> Inr (Inr (ArgResponseWriter # args), s')
      | other \<Rightarrow> other)"
| "bind_params r pathKeys (ParamRequest # ps) keyIdx s =
     (case bind_params r pathKeys ps keyIdx s of
        Inr (Inr args, s') \<Rightarrow> Inr (Inr (ArgRequest r # args), s')
      | other \<Rightarrow> other)"
| "bind_params r pathKeys (ParamUnsupported t # ps) keyIdx s = Inl (UnsupportedParameterType t)"

text \<open>
  What the call of the handler function returns, by the number of its results:
  \<^item> one result is nil (\<^verbatim>\<open>isNilValue\<close>), or an \<^verbatim>\<open>http.Handler\<close> (given by what its
    \<^verbatim>\<open>ServeHTTP\<close> does with the writer), or a value for \<^verbatim>\<open>handleOneResult\<close>;
  \<^item> of two results, the second is the error, and \<open>VNil\<close> for the first is a value that
    \<^verbatim>\<open>isNilValue\<close> finds nil.
  The function is given the arguments and may use the writer and the package variables.
\<close>

datatype 'd results =
    NoResult
  | OneNil
  | OneHandler "wop list"
  | One "'d ret"
  | Two "'d val" "err option"

type_synonym 'd handler_fn = "'d arg list \<Rightarrow> 'd state \<Rightarrow> 'd results \<times> 'd state"

text \<open>The end of the closure: what happens to an error that writing the response returned.\<close>

definition log_failure ::
  "(err \<Rightarrow> log_entry) \<Rightarrow> panic + (err option \<times> 'd state) \<Rightarrow> panic + 'd state"
where
  "log_failure entry res =
     and_then res (\<lambda>(e, s). case e of None \<Rightarrow> Inr s | Some e' \<Rightarrow> log_Printf (entry e') s)"

text \<open>The routing of the results of the call.\<close>

definition route_results ::
  "('d \<Rightarrow> err + string) \<Rightarrow> 'd results \<Rightarrow> 'd state \<Rightarrow> panic + 'd state"
where
  "route_results M results s =
     (case results of
        NoResult \<Rightarrow> Inr s
      | OneNil \<Rightarrow> Inr s
      | OneHandler ops \<Rightarrow> run_wops ops s
      | One rv \<Rightarrow> log_failure FailedWriteResponse (handleOneResult M rv s)
      | Two rv e \<Rightarrow>
          if rv = VNil \<and> e = None then Inr s
          else log_failure FailedWriteResponse (handleTwoResults M rv e s))"

text \<open>
  The closure that \<^verbatim>\<open>H(fn)\<close> returns, for a function \<open>fn\<close> whose parameter types are
  \<open>params\<close> and whose signature passed the checks that \<^verbatim>\<open>H\<close> makes before it returns the
  closure. The closure is called with the writer of the transport, around which it builds a
  fresh wrapper, and the request.
\<close>

definition H ::
  "('d \<Rightarrow> err + string) \<Rightarrow> 'd param list \<Rightarrow> 'd handler_fn \<Rightarrow> request \<Rightarrow> 'd state \<Rightarrow> panic + 'd state"
where
  "H M params fn r s =
     and_then (extractPatternNames (Pattern r) s)
       (\<lambda>(pathKeys, s0).
          let rw = s0\<lparr>statusCode := 0, headerWritten := False\<rparr>
          in and_then (bind_params r pathKeys params 0 rw)
               (\<lambda>(bound, s1).
                  case bound of
                    Inl e \<Rightarrow> log_failure FailedWriteErrorResponse (handleError M e s1)
                  | Inr args \<Rightarrow> (case fn args s1 of (results, s2) \<Rightarrow> route_results M results s2)))"

section \<open>The specification's wording\<close>

text \<open>
  The definitions of this section are written from the sentences of the specification, to
  be compared with the definitions above, which are written from the code.

  ``Case-insensitive substring search over the error's message'': the message, read as a
  sequence of characters, has a stretch in which each character is the letter of the phrase
  at that place, in either case. The phrases are written in small ASCII letters and the
  space. The capital of a small letter is the ASCII capital letter, and Unicode has two
  more characters whose lower case is an ASCII letter: U+0130 (the capital I with a dot
  above) for \<open>i\<close> and U+212A (the Kelvin sign) for \<open>k\<close>.
\<close>

definition capitals :: "nat \<Rightarrow> nat list" where
  "capitals p =
     (if 0x61 \<le> p \<and> p \<le> 0x7A then [p - 32] else [])
     @ (if p = 0x69 then [0x130] else []) @ (if p = 0x6B then [0x212A] else [])"

definition same_letter :: "nat \<Rightarrow> nat \<Rightarrow> bool" where
  "same_letter r p = (r = p \<or> r \<in> set (capitals p))"

fun starts_with :: "nat list \<Rightarrow> nat list \<Rightarrow> bool" where
  "starts_with rs [] = True"
| "starts_with [] (p # ps) = False"
| "starts_with (r # rs) (p # ps) = (same_letter r p \<and> starts_with rs ps)"

fun occurs :: "nat list \<Rightarrow> nat list \<Rightarrow> bool" where
  "occurs [] ps = (ps = [])"
| "occurs (r # rs) ps = (starts_with (r # rs) ps \<or> occurs rs ps)"

definition mentions :: "string \<Rightarrow> string \<Rightarrow> bool" where
  "mentions msg phrase = occurs (runes msg) (map of_char phrase)"

text \<open>The priority order of the fallback.\<close>

definition status_by_phrase :: "string \<Rightarrow> int" where
  "status_by_phrase msg =
     (if mentions msg ''not found'' then 404
      else if mentions msg ''unauthorized'' then 401
      else if mentions msg ''forbidden'' then 403
      else if mentions msg ''timeout'' then 408
      else if mentions msg ''bad request'' \<or> mentions msg ''invalid'' then 400
      else 500)"

text \<open>The canonical names of the six statuses.\<close>

definition canonical_tag :: "int \<rightharpoonup> string" where
  "canonical_tag =
     map_of [(400, ''bad_request''), (401, ''unauthorized''), (403, ''forbidden''),
             (404, ''not_found''), (408, ''timeout''), (500, ''internal_error'')]"

text \<open>
  An error reaches the fallback step: it is not and does not wrap a uniform structured error
  or an extraction failure, and it has none of the shapes of the decode libraries.
\<close>

definition reaches_fallback :: "err \<Rightarrow> bool" where
  "reaches_fallback e =
     (As_HTTPErrorPtr e = None \<and> As_HTTPErrorVal e = None \<and> As_ExtractErrorPtr e = None
      \<and> (case e of
            UnmarshalTypeError f t v \<Rightarrow> False
          | SyntaxError \<Rightarrow> False
          | MultiError es \<Rightarrow> False
          | ConversionError k \<Rightarrow> False
          | UnknownKeyError k \<Rightarrow> False
          | _ \<Rightarrow> True))"

text \<open>
  The status that a wrapper has committed, if any; the status that a sequence of calls
  commits on a wrapper that has committed none (an explicit value that is not positive
  counts as 200, and so does a write of bytes); and the values of the status-set calls of
  a sequence.
\<close>

definition committed :: "('d, 'z) state_scheme \<Rightarrow> int option" where
  "committed s = (if headerWritten s then Some (statusCode s) else None)"

fun first_commit :: "wop list \<Rightarrow> int option" where
  "first_commit [] = None"
| "first_commit (OpWriteHeader c # ops) = Some (if c \<le> 0 then 200 else c)"
| "first_commit (OpWrite b # ops) = Some 200"
| "first_commit (x # ops) = first_commit ops"

fun status_sets :: "wop list \<Rightarrow> int list" where
  "status_sets [] = []"
| "status_sets (OpWriteHeader c # ops) = c # status_sets ops"
| "status_sets (x # ops) = status_sets ops"

text \<open>A wrapper that has committed the status 200, in a process that has just started.\<close>

definition served_200 :: "nat state" where
  "served_200 = process_start\<lparr>statusCode := 200, headerWritten := True, wire_status := [200]\<rparr>"

text \<open>
  The scan of a route pattern, in words: outside a capture a \<open>{\<close> opens one and a \<open>}\<close> is
  ignored with a warning; inside a capture a \<open>{\<close> starts the capture again from the empty
  name with a warning, a \<open>}\<close> closes the capture and yields the captured name if it is not
  empty, and any other byte is added to the name. \<open>names_from\<close> gives the names from the
  current situation (\<open>None\<close> outside a capture, \<open>Some cur\<close> inside one with \<open>cur\<close> captured so
  far), \<open>warnings_from\<close> the warnings with their positions, \<open>open_at_end\<close> whether a capture
  is open when the string ends and \<open>nested_braces\<close> how many times a \<open>{\<close> came inside a
  capture.
\<close>

fun names_from :: "string option \<Rightarrow> string \<Rightarrow> string list" where
  "names_from st [] = []"
| "names_from st (c # cs) =
     (if c = CHR ''{'' then names_from (Some []) cs
      else if c = CHR ''}'' then
        (case st of
           None \<Rightarrow> names_from None cs
         | Some cur \<Rightarrow> (if cur = [] then [] else [cur]) @ names_from None cs)
      else names_from (map_option (\<lambda>cur. cur @ [c]) st) cs)"

fun warnings_from :: "string \<Rightarrow> nat \<Rightarrow> bool \<Rightarrow> string \<Rightarrow> log_entry list" where
  "warnings_from p i inside [] = []"
| "warnings_from p i inside (c # cs) =
     (if c = CHR ''{'' then
        (if inside then [WarnNestedBraces i p] else []) @ warnings_from p (i + 1) True cs
      else if c = CHR ''}'' then
        (if inside then [] else [WarnUnmatchedBrace i p]) @ warnings_from p (i + 1) False cs
      else warnings_from p (i + 1) inside cs)"

fun open_at_end :: "bool \<Rightarrow> string \<Rightarrow> bool" where
  "open_at_end inside [] = inside"
| "open_at_end inside (c # cs) =
     (if c = CHR ''{'' then open_at_end True cs
      else if c = CHR ''}'' then open_at_end False cs
      else open_at_end inside cs)"

fun nested_braces :: "bool \<Rightarrow> string \<Rightarrow> nat" where
  "nested_braces inside [] = 0"
| "nested_braces inside (c # cs) =
     (if c = CHR ''{'' then (if inside then 1 else 0) + nested_braces True cs
      else if c = CHR ''}'' then nested_braces False cs
      else nested_braces inside cs)"

definition unbalanced :: "string \<Rightarrow> bool" where
  "unbalanced p = (nested_braces False p \<noteq> 0 \<or> open_at_end False p)"

text \<open>
  The parameters that are key-settable extractors, and how many of them a list of parameters
  has.
\<close>

fun is_key_setter :: "'d param \<Rightarrow> bool" where
  "is_key_setter (ParamExtractor (KeySetter ex)) = True"
| "is_key_setter p = False"

definition key_setters :: "'d param list \<Rightarrow> nat" where
  "key_setters ps = length (filter is_key_setter ps)"

text \<open>
  Two requests: one matched by the pattern \<^verbatim>\<open>/items/{category}/{id}\<close> with the segments
  \<^verbatim>\<open>books\<close> and \<^verbatim>\<open>7\<close>, one matched by \<^verbatim>\<open>/items/{id}\<close>. And a \<^verbatim>\<open>ParseFloat\<close> that accepts
  nothing, for the examples that parse no float.
\<close>

definition items_request :: request where
  "items_request =
     \<lparr>Pattern = ''/items/{category}/{id}'',
      PathValues = [''category'' \<mapsto> ''books'', ''id'' \<mapsto> ''7'']\<rparr>"

definition item_request :: request where
  "item_request = \<lparr>Pattern = ''/items/{id}'', PathValues = [''id'' \<mapsto> ''7'']\<rparr>"

definition no_float :: "string \<Rightarrow> strconv_err + float64" where
  "no_float s = Inl ErrSyntax"

text \<open>
  The state of a process in which the default configuration has been installed (by a first
  \<^verbatim>\<open>getConfig()\<close>, or by \<^verbatim>\<open>SetConfig(nil)\<close>), with a writer that has been sent nothing.
\<close>

definition configured :: "'d state" where
  "configured = initDefaultConfig process_start"

text \<open>
  The fixed pair of status and tag of each kind of extraction failure (section 4.4, step 4,
  of the specification).
\<close>

definition failure_pair :: "string \<Rightarrow> int \<times> string" where
  "failure_pair K =
     (if K = ErrTypeBodyRead then (500, ''internal_server_error'')
      else if K = ErrTypeEmptyBody then (400, ''empty_body'')
      else if K = ErrTypeFormParse then (400, ''invalid_form'')
      else if K = ErrTypePathConversion then (400, ''invalid_path_parameter'')
      else if K = ErrTypeMissingPath then (400, ''missing_path_parameter'')
      else if K = ErrTypeValidation then (400, ''validation_failed'')
      else (400, K))"

text \<open>For the examples: values of the application that are natural numbers, and their JSON.\<close>

definition marshal_nat :: "nat \<Rightarrow> err + string" where
  "marshal_nat n = Inr (nat_digits n)"

text \<open>
  The structured error of an extraction failure of kind \<open>K\<close> with message \<open>msg\<close>: the fixed
  pair, and the message of the failure, except for a body-read failure, whose message is a
  fixed text.
\<close>

definition failure_error :: "string \<Rightarrow> string \<Rightarrow> HTTPError" where
  "failure_error K msg =
     \<lparr>Code = fst (failure_pair K), Err = snd (failure_pair K),
      Message = (if K = ErrTypeBodyRead then ''unable to process request'' else msg)\<rparr>"

text \<open>What a header map is after the entries of another one have been added to it.\<close>

definition add_headers ::
  "(string \<times> string list) list \<Rightarrow> (string \<Rightarrow> string list) \<Rightarrow> (string \<Rightarrow> string list)"
where
  "add_headers headers m =
     fold (\<lambda>(key, values) m. fold (\<lambda>value m. m(key := m key @ [value])) values m) headers m"

text \<open>
  For the examples: a request matched by \<^verbatim>\<open>GET /users/{id}\<close> that has no value for \<open>id\<close>, a
  handler function that returns nothing, an extractor whose decode step fails as the JSON
  extractor does when the body cannot be read, a custom error hook that answers every error
  with the status 418 and the body \<open>teapot\<close>, and a process in which this hook is installed.
\<close>

definition users_request :: request where
  "users_request = \<lparr>Pattern = ''GET /users/{id}'', PathValues = Map.empty\<rparr>"

definition handler_skip :: "nat handler_fn" where
  "handler_skip args s = (NoResult, s)"

definition body_read_fails :: "request \<Rightarrow> nat globals \<Rightarrow> (err + nat extracted) \<times> nat globals" where
  "body_read_fails r g = (Inl (NewBodyReadError (Other ''unexpected EOF'' None)), g)"

definition teapot_hook :: "err \<Rightarrow> wop list" where
  "teapot_hook e = [OpWriteHeader 418, OpWrite ''teapot'']"

definition hooked :: "nat state" where
  "hooked = configured\<lparr>CustomErrorHandler := Some teapot_hook\<rparr>"

text \<open>
  For a result envelope with a failure: the status that it commits on a wrapper that has
  committed none, which is the code of the envelope if that is not zero and the code of the
  structured error otherwise, a value that is not positive counting as 200; and what the
  configured JSON encoder writes for a structured error, with the error that it returns: the
  custom streaming encoder if there is one, else the custom marshal function, else the JSON
  object of the structured error and a newline.
\<close>

definition envelope_status :: "int \<Rightarrow> HTTPError \<Rightarrow> int" where
  "envelope_status code h =
     (let st = (if code \<noteq> 0 then code else Code h) in if st \<le> 0 then 200 else st)"

definition error_body :: "'d Config \<Rightarrow> HTTPError \<Rightarrow> string \<times> err option" where
  "error_body c h =
     (case JSONEncodeFunc c of
        Some f \<Rightarrow> (concat (fst (f (EncHTTPError h))), snd (f (EncHTTPError h)))
      | None \<Rightarrow>
          (case JSONMarshalFunc c of
             Some f \<Rightarrow> (case f (EncHTTPError h) of Inl e \<Rightarrow> ([], Some e) | Inr b \<Rightarrow> (b, None))
           | None \<Rightarrow> (marshal_HTTPError h @ [CHR 0x0A], None)))"

text \<open>
  For the examples: a wrapper on which the handler has already written \<open>partial\<close> with the
  status 200, and a process configured with a custom streaming encoder that writes \<open>ERR\<close>
  and \<open>OR\<close> for every value.
\<close>

definition answered :: "nat state" where
  "answered =
     configured\<lparr>statusCode := 200, headerWritten := True, wire_status := [200],
                wire_body := ''partial''\<rparr>"

definition shouting_encoder :: "nat encodable \<Rightarrow> string list \<times> err option" where
  "shouting_encoder v = ([''ERR'', ''OR''], None)"

definition shouting :: "nat state" where
  "shouting = SetConfig (Some (defaultConfig\<lparr>JSONEncodeFunc := Some shouting_encoder\<rparr>)) process_start"














section \<open>Runes and bytes\<close>

lemma decode_Nil [simp]: "decode [] = []"
  by (simp add: decode.simps)

lemma DecodeRune_ascii:
  "(of_char c :: nat) < 0x80 \<Longrightarrow> DecodeRuneInString (c # s) = (of_char c, 1)"
  by (simp add: DecodeRuneInString_def first_def Let_def)

lemma decode_ascii:
  "(of_char c :: nat) < 0x80 \<Longrightarrow> decode (c # s) = (of_char c, [c]) # decode s"
  by (subst decode.simps) (simp add: DecodeRune_ascii)

lemma AppendRune_ascii: "r < 0x80 \<Longrightarrow> AppendRune r = [char_of r]"
  by (simp add: AppendRune_def)

lemma of_char_of_byte: "n < 256 \<Longrightarrow> (of_char (char_of n) :: nat) = n"
  by simp

lemma AppendRune_high:
  assumes "0x80 \<le> r"
  shows "AppendRune r \<noteq> [] \<and> (\<forall>c \<in> set (AppendRune r). (0x80 :: nat) \<le> of_char c)"
proof -
  have d2: "r < 0x800 \<Longrightarrow> r div 64 < 32" by simp
  have d3: "r < 0x10000 \<Longrightarrow> r div 4096 < 16" by simp
  have d4: "r \<le> 0x10FFFF \<Longrightarrow> r div 262144 < 8" by simp
  have m: "\<And>k :: nat. k mod 64 < 64" by simp
  have hi: "(of_char (char_of (a + b)) :: nat) = a + b" if "a + b < 256" for a b :: nat
    using that by simp
  show ?thesis
    using assms d2 d3 d4
    by (auto simp add: AppendRune_def hi m [THEN less_imp_le] simp del: of_char_of)
qed

lemma decode_all_ascii:
  "list_all (\<lambda>c. (of_char c :: nat) < 0x80) s \<Longrightarrow> decode s = map (\<lambda>c. (of_char c, [c])) s"
  by (induction s) (simp_all add: decode_ascii)

lemma lower_byte_rune:
  "(of_char c :: nat) < 0x80 \<Longrightarrow> AppendRune (unicode_ToLower (of_char c)) = [lower_byte c]"
  by (simp add: unicode_ToLower_def lower_byte_def AppendRune_def Let_def)

lemma ToLower_Map: "ToLower s = strings_Map unicode_ToLower s"
proof (cases "list_all (\<lambda>c. (of_char c :: nat) < 0x80) s")
  case True
  then have "concat (map (\<lambda>c. AppendRune (unicode_ToLower (of_char c))) s) = map lower_byte s"
    by (induction s) (simp_all add: lower_byte_rune)
  then show ?thesis
    using True by (simp add: ToLower_def strings_Map_def decode_all_ascii comp_def)
next
  case False
  then show ?thesis by (simp add: ToLower_def)
qed

lemma runes_Nil [simp]: "runes [] = []"
  by (simp add: runes_def)

lemma strings_Map_runes:
  "strings_Map mapping s = concat (map AppendRune (map mapping (runes s)))"
  by (simp add: strings_Map_def runes_def comp_def case_prod_unfold)

section \<open>Substring search\<close>

lemma Contains_iff_sublist: "Contains s sub \<longleftrightarrow> sublist sub s"
  by (induction s) (auto simp: sublist_Cons_right)

text \<open>
  A phrase of ASCII characters in the encoding of a sequence of runes: the runes beyond ASCII
  are encoded by bytes that are no ASCII characters, so the phrase is found among the bytes
  where it is found among the runes.
\<close>

lemma prefix_encoded:
  assumes "\<forall>p \<in> set ps. p < 0x80 \<and> (\<forall>r. f r = p \<longleftrightarrow> same_letter r p)"
  shows "prefix (map char_of ps) (concat (map AppendRune (map f rs))) \<longleftrightarrow> starts_with rs ps"
  using assms
proof (induction rs ps rule: starts_with.induct)
  case (1 rs)
  then show ?case by simp
next
  case (2 p ps)
  then show ?case by simp
next
  case (3 r rs p ps)
  have p: "p < 0x80" and same: "f r = p \<longleftrightarrow> same_letter r p" using 3(2) by auto
  have IH: "prefix (map char_of ps) (concat (map AppendRune (map f rs))) \<longleftrightarrow> starts_with rs ps"
    using 3 by simp
  show ?case
  proof (cases "f r < 0x80")
    case True
    have "char_of p = (char_of (f r) :: char) \<longleftrightarrow> p = f r"
      using p True by (metis of_char_of_byte less_trans [of _ 128 256] numeral_less_iff
          semiring_norm(76,78) )
    then show ?thesis
      using True IH same by (auto simp add: AppendRune_ascii)
  next
    case False
    then have hi: "AppendRune (f r) \<noteq> []"
      "\<forall>c \<in> set (AppendRune (f r)). (0x80 :: nat) \<le> of_char c"
      using AppendRune_high [of "f r"] by auto
    then obtain h hs where h: "AppendRune (f r) = h # hs" by (cases "AppendRune (f r)") auto
    have "(0x80 :: nat) \<le> of_char h" using hi(2) h by simp
    moreover have "(of_char (char_of p :: char) :: nat) = p" using p by simp
    ultimately have "char_of p \<noteq> h" using p by auto
    moreover have "f r \<noteq> p" using False p by auto
    ultimately show ?thesis using h same by simp
  qed
qed

lemma sublist_skip_high:
  assumes "ps \<noteq> []" "\<forall>p \<in> set ps. (of_char p :: nat) < 0x80"
    "\<forall>c \<in> set hs. (0x80 :: nat) \<le> of_char c"
  shows "sublist ps (hs @ bs) \<longleftrightarrow> sublist ps bs"
  using assms(3)
proof (induction hs)
  case Nil
  then show ?case by simp
next
  case (Cons h hs)
  obtain p ps' where ps: "ps = p # ps'" using assms(1) by (cases ps) auto
  have "p \<noteq> h" using assms(2) Cons.prems ps by auto
  then have "\<not> prefix ps (h # hs @ bs)" by (simp add: ps)
  then show ?case using Cons by (simp add: sublist_Cons_right)
qed

lemma sublist_encoded:
  assumes good: "\<forall>p \<in> set ps. p < 0x80 \<and> (\<forall>r. f r = p \<longleftrightarrow> same_letter r p)" and ne: "ps \<noteq> []"
  shows "sublist (map char_of ps) (concat (map AppendRune (map f rs))) \<longleftrightarrow> occurs rs ps"
proof (induction rs)
  case Nil
  then show ?case using ne by simp
next
  case (Cons r rs)
  let ?P = "map char_of ps :: string"
  let ?B = "concat (map AppendRune (map f rs))"
  have pre: "prefix ?P (AppendRune (f r) @ ?B) \<longleftrightarrow> starts_with (r # rs) ps"
    using prefix_encoded [OF good, of "r # rs"] by simp
  show ?case
  proof (cases "f r < 0x80")
    case True
    then show ?thesis
      using pre Cons by (simp add: AppendRune_ascii sublist_Cons_right)
  next
    case False
    obtain p ps' where ps: "ps = p # ps'" using ne by (cases ps) auto
    have lowp: "\<forall>c \<in> set ?P. (of_char c :: nat) < 0x80" using good by auto
    have "sublist ?P (AppendRune (f r) @ ?B) \<longleftrightarrow> sublist ?P ?B"
      using sublist_skip_high [of ?P "AppendRune (f r)" ?B] lowp ne AppendRune_high [of "f r"] False
      by simp
    moreover have "\<not> same_letter r p" using good False ps by force
    ultimately show ?thesis using Cons by (simp add: ps)
  qed
qed

section \<open>The lower case of a rune\<close>

lemma to_lower_ascii:
  assumes "list_all (\<lambda>(lo, hi, d). case d of UpperLower \<Rightarrow> True
              | Delta k \<Rightarrow> 0x80 \<le> int lo + k \<or> lo = hi \<and> (lo = 0x130 \<or> lo = 0x212A)) tbl"
    and "0x80 \<le> r" "to_lower tbl r < 0x80"
  shows "r = 0x130 \<or> r = 0x212A"
  using assms
proof (induction tbl)
  case Nil
  then show ?case by simp
next
  case (Cons e tbl)
  obtain lo hi d where e: "e = (lo, hi, d)" by (cases e)
  show ?case
  proof (cases "lo \<le> r \<and> r \<le> hi")
    case False
    then show ?thesis using Cons e by auto
  next
    case True
    show ?thesis
    proof (cases d)
      case UpperLower
      have "r \<le> lo + ((r - lo) div 2 * 2 + 1)" using True by (simp add: div_mult2_eq)
      then show ?thesis using Cons.prems True e UpperLower by simp
    next
      case (Delta k)
      then show ?thesis using Cons.prems True e by auto
    qed
  qed
qed

lemma CaseRanges_ascii:
  "0x80 \<le> r \<Longrightarrow> to_lower CaseRanges r < 0x80 \<Longrightarrow> r = 0x130 \<or> r = 0x212A"
  by (rule to_lower_ascii [of CaseRanges]) (simp_all add: CaseRanges_def)

lemma to_lower_dotted_I: "to_lower CaseRanges 0x130 = 0x69"
  by (simp add: CaseRanges_def)

lemma to_lower_kelvin: "to_lower CaseRanges 0x212A = 0x6B"
  by (simp add: CaseRanges_def)

text \<open>
  The runes that \<^verbatim>\<open>unicode.ToLower\<close> maps to a small ASCII letter or to the space are the
  letter itself and its capitals.
\<close>

lemma unicode_ToLower_small:
  assumes "p = 0x20 \<or> (0x61 \<le> p \<and> p \<le> 0x7A)"
  shows "unicode_ToLower r = p \<longleftrightarrow> same_letter r p"
proof (cases "r \<le> 0x7F")
  case True
  then show ?thesis
    using assms by (auto simp add: unicode_ToLower_def same_letter_def capitals_def)
next
  case False
  then have r: "0x80 \<le> r" by simp
  have "unicode_ToLower r = to_lower CaseRanges r" using False by (simp add: unicode_ToLower_def)
  moreover have "to_lower CaseRanges r = p \<longleftrightarrow> (r = 0x130 \<and> p = 0x69) \<or> (r = 0x212A \<and> p = 0x6B)"
  proof
    assume a: "to_lower CaseRanges r = p"
    then have "to_lower CaseRanges r < 0x80" using assms by auto
    then have "r = 0x130 \<or> r = 0x212A" using CaseRanges_ascii [OF r] by simp
    then show "(r = 0x130 \<and> p = 0x69) \<or> (r = 0x212A \<and> p = 0x6B)"
      using a to_lower_dotted_I to_lower_kelvin by auto
  next
    assume "(r = 0x130 \<and> p = 0x69) \<or> (r = 0x212A \<and> p = 0x6B)"
    then show "to_lower CaseRanges r = p" using to_lower_dotted_I to_lower_kelvin by auto
  qed
  moreover have "same_letter r p \<longleftrightarrow> (r = 0x130 \<and> p = 0x69) \<or> (r = 0x212A \<and> p = 0x6B)"
    using r assms by (auto simp add: same_letter_def capitals_def)
  ultimately show ?thesis by simp
qed

lemma Contains_ToLower:
  assumes "phrase \<noteq> []"
    "\<forall>c \<in> set phrase. (of_char c :: nat) = 0x20 \<or> (0x61 \<le> (of_char c :: nat) \<and> (of_char c :: nat) \<le> 0x7A)"
  shows "Contains (ToLower msg) phrase \<longleftrightarrow> mentions msg phrase"
proof -
  let ?ps = "map of_char phrase :: nat list"
  have ph: "map char_of ?ps = phrase" by (simp add: comp_def)
  have good: "\<forall>p \<in> set ?ps. p < 0x80 \<and> (\<forall>r. unicode_ToLower r = p \<longleftrightarrow> same_letter r p)"
    using assms(2) unicode_ToLower_small by fastforce
  have "Contains (ToLower msg) phrase
      \<longleftrightarrow> sublist (map char_of ?ps) (concat (map AppendRune (map unicode_ToLower (runes msg))))"
    by (simp only: Contains_iff_sublist ToLower_Map strings_Map_runes ph)
  also have "\<dots> \<longleftrightarrow> occurs (runes msg) ?ps"
    using sublist_encoded [OF good] assms(1) by simp
  finally show ?thesis by (simp add: mentions_def)
qed

section \<open>Strings of ASCII characters\<close>

lemma char_of_eq_byte:
  "(char_of (n :: nat) = c) = (n mod 256 = of_char c)"
  "(c = char_of (n :: nat)) = (n mod 256 = of_char c)"
  using char_of_eq_iff [of n c] by (auto simp add: take_bit_eq_mod)

lemma decode_two:
  "decode (CHR 0xC4 # CHR 0xB0 # s) = (0x130, [CHR 0xC4, CHR 0xB0]) # decode s"
  by (subst decode.simps)
     (simp add: DecodeRuneInString_def first_def acceptRanges_def Let_def)

lemma json_string_ascii:
  assumes "list_all (\<lambda>c. (of_char c :: nat) < 0x80) s"
  shows "json_string s = [CHR 0x22] @ concat (map json_byte s) @ [CHR 0x22]"
proof -
  have "concat (map json_rune (map (\<lambda>c. (of_char c, [c])) s)) = concat (map json_byte s)"
    using assms by (induction s) (simp_all add: json_rune_def)
  then show ?thesis using assms by (simp add: json_string_def decode_all_ascii)
qed

lemmas quote_defs =
  Quote_def decode_ascii quote_rune_def appendEscapedRune_def IsPrint_def AppendRune_def
  RuneError_def char_of_eq_byte

lemmas lower_defs = ToLower_def lower_byte_def char_of_eq_byte

lemma inferStatusCode_eq: "inferStatusCode msg = status_by_phrase msg"
proof -
  have "Contains (ToLower msg) ''not found'' = mentions msg ''not found''"
       "Contains (ToLower msg) ''unauthorized'' = mentions msg ''unauthorized''"
       "Contains (ToLower msg) ''forbidden'' = mentions msg ''forbidden''"
       "Contains (ToLower msg) ''timeout'' = mentions msg ''timeout''"
       "Contains (ToLower msg) ''bad request'' = mentions msg ''bad request''"
       "Contains (ToLower msg) ''invalid'' = mentions msg ''invalid''"
    by (rule Contains_ToLower; simp)+
  then show ?thesis
    unfolding inferStatusCode_def status_by_phrase_def Let_def by presburger
qed

lemma inferErrorType_canonical:
  "canonical_tag (inferStatusCode msg) = Some (inferErrorType (inferStatusCode msg))"
  by (simp add: inferStatusCode_def canonical_tag_def inferErrorType_def Let_def)

section \<open>Classification of errors\<close>

lemmas chain_defs = As_HTTPErrorPtr_def As_HTTPErrorVal_def As_ExtractErrorPtr_def

lemma toHTTPError_fallback:
  "reaches_fallback e \<Longrightarrow>
   toHTTPError (Some e) =
     Some \<lparr>Code = inferStatusCode (Error_text e),
           Err = inferErrorType (inferStatusCode (Error_text e)), Message = []\<rparr>"
  by (cases e) (simp_all add: reaches_fallback_def toHTTPError_def switch_to_HTTPError_def Let_def)

text \<open>
  Claim C4. An error that reaches the fallback step of \<^verbatim>\<open>toHTTPError\<close> gets the status that
  the case-insensitive search for the phrases in its message gives, in the priority order
  ``not found'' 404, ``unauthorized'' 401, ``forbidden'' 403, ``timeout'' 408, ``bad
  request'' or ``invalid'' 400, otherwise 500, and its tag is the canonical name of that
  status. The search is the one of \<open>mentions\<close>: over the characters of the message, each
  letter of a phrase in either case. The message ``Resource not found'' yields 404 and
  \<open>not_found\<close>, ``request timeout'' yields 408 and \<open>timeout\<close>, and a text with none of the
  phrases yields 500 and \<open>internal_error\<close>.
\<close>

theorem fallback_infers_status:
  "reaches_fallback e \<Longrightarrow>
     (\<exists>h. toHTTPError (Some e) = Some h
        \<and> Code h = status_by_phrase (Error_text e)
        \<and> canonical_tag (Code h) = Some (Err h))
   \<and> toHTTPError (Some (Other ''Resource not found'' None))
       = Some \<lparr>Code = 404, Err = ''not_found'', Message = []\<rparr>
   \<and> toHTTPError (Some (Other ''request timeout'' None))
       = Some \<lparr>Code = 408, Err = ''timeout'', Message = []\<rparr>
   \<and> toHTTPError (Some (Other ''disk quota exceeded'' None))
       = Some \<lparr>Code = 500, Err = ''internal_error'', Message = []\<rparr>"
proof (intro conjI)
  assume fb: "reaches_fallback e"
  show "\<exists>h. toHTTPError (Some e) = Some h
        \<and> Code h = status_by_phrase (Error_text e)
        \<and> canonical_tag (Code h) = Some (Err h)"
    using toHTTPError_fallback [OF fb] inferErrorType_canonical [of "Error_text e"]
    by (simp add: inferStatusCode_eq)
next
  show "toHTTPError (Some (Other ''Resource not found'' None))
       = Some \<lparr>Code = 404, Err = ''not_found'', Message = []\<rparr>"
    by (simp add: toHTTPError_def chain_defs switch_to_HTTPError_def Error_text_def
        inferStatusCode_def inferErrorType_def lower_defs)
next
  show "toHTTPError (Some (Other ''request timeout'' None))
       = Some \<lparr>Code = 408, Err = ''timeout'', Message = []\<rparr>"
    by (simp add: toHTTPError_def chain_defs switch_to_HTTPError_def Error_text_def
        inferStatusCode_def inferErrorType_def lower_defs)
next
  show "toHTTPError (Some (Other ''disk quota exceeded'' None))
       = Some \<lparr>Code = 500, Err = ''internal_error'', Message = []\<rparr>"
    by (simp add: toHTTPError_def chain_defs switch_to_HTTPError_def Error_text_def
        inferStatusCode_def inferErrorType_def lower_defs)
qed

theorem fallback_infers_status_witness:
  "reaches_fallback (Other ''Invalid token: user NOT FOUND'' None)
   \<and> toHTTPError (Some (Other ''Invalid token: user NOT FOUND'' None))
       = Some \<lparr>Code = 404, Err = ''not_found'', Message = []\<rparr>
   \<and> status_by_phrase ''Invalid token: user NOT FOUND'' = 404
   \<and> toHTTPError (Some (Other ''UNAUTHORIZED: Bad Request'' None))
       = Some \<lparr>Code = 401, Err = ''unauthorized'', Message = []\<rparr>
   \<and> toHTTPError (Some (Other ''Access Forbidden (Timeout)'' None))
       = Some \<lparr>Code = 403, Err = ''forbidden'', Message = []\<rparr>
   \<and> toHTTPError (Some (Other ''Gateway TimeOut on INVALID host'' None))
       = Some \<lparr>Code = 408, Err = ''timeout'', Message = []\<rparr>
   \<and> toHTTPError (Some (Other ''BAD REQUEST'' None))
       = Some \<lparr>Code = 400, Err = ''bad_request'', Message = []\<rparr>
   \<and> toHTTPError (Some (Other ''InVaLiD json'' None))
       = Some \<lparr>Code = 400, Err = ''bad_request'', Message = []\<rparr>
   \<and> toHTTPError (Some (Other ''notfound'' None))
       = Some \<lparr>Code = 500, Err = ''internal_error'', Message = []\<rparr>
   \<and> toHTTPError (Some (Other (''request t'' @ [CHR 0xC4, CHR 0xB0] @ ''meout'') None))
       = Some \<lparr>Code = 408, Err = ''timeout'', Message = []\<rparr>
   \<and> status_by_phrase (''request t'' @ [CHR 0xC4, CHR 0xB0] @ ''meout'') = 408
   \<and> toHTTPError (Some (NumErrorPtr (NumError ''Atoi'' ''12a'' ErrSyntax)))
       = Some \<lparr>Code = 400, Err = ''bad_request'', Message = []\<rparr>"
proof -
  have fb: "reaches_fallback (Other ''Invalid token: user NOT FOUND'' None)"
    by (simp add: reaches_fallback_def chain_defs)
  have ev: "toHTTPError (Some (Other ''Invalid token: user NOT FOUND'' None))
       = Some \<lparr>Code = 404, Err = ''not_found'', Message = []\<rparr>"
    by (simp add: toHTTPError_def chain_defs switch_to_HTTPError_def Error_text_def
        inferStatusCode_def inferErrorType_def lower_defs)
  have more:
    "toHTTPError (Some (Other ''UNAUTHORIZED: Bad Request'' None))
       = Some \<lparr>Code = 401, Err = ''unauthorized'', Message = []\<rparr>"
    "toHTTPError (Some (Other ''Access Forbidden (Timeout)'' None))
       = Some \<lparr>Code = 403, Err = ''forbidden'', Message = []\<rparr>"
    "toHTTPError (Some (Other ''Gateway TimeOut on INVALID host'' None))
       = Some \<lparr>Code = 408, Err = ''timeout'', Message = []\<rparr>"
    "toHTTPError (Some (Other ''BAD REQUEST'' None))
       = Some \<lparr>Code = 400, Err = ''bad_request'', Message = []\<rparr>"
    "toHTTPError (Some (Other ''InVaLiD json'' None))
       = Some \<lparr>Code = 400, Err = ''bad_request'', Message = []\<rparr>"
    "toHTTPError (Some (Other ''notfound'' None))
       = Some \<lparr>Code = 500, Err = ''internal_error'', Message = []\<rparr>"
    by (simp_all add: toHTTPError_def chain_defs switch_to_HTTPError_def Error_text_def
        inferStatusCode_def inferErrorType_def lower_defs)
  have dotted:
    "toHTTPError (Some (Other (''request t'' @ [CHR 0xC4, CHR 0xB0] @ ''meout'') None))
       = Some \<lparr>Code = 408, Err = ''timeout'', Message = []\<rparr>"
    by (simp add: toHTTPError_def chain_defs switch_to_HTTPError_def Error_text_def
        inferStatusCode_def inferErrorType_def ToLower_def strings_Map_def decode_ascii
        decode_two unicode_ToLower_def CaseRanges_def AppendRune_def char_of_eq_byte)
  have dotted_spec: "status_by_phrase (''request t'' @ [CHR 0xC4, CHR 0xB0] @ ''meout'') = 408"
    by (simp add: status_by_phrase_def mentions_def runes_def decode_ascii decode_two
        same_letter_def capitals_def)
  have num: "toHTTPError (Some (NumErrorPtr (NumError ''Atoi'' ''12a'' ErrSyntax)))
       = Some \<lparr>Code = 400, Err = ''bad_request'', Message = []\<rparr>"
    by (simp add: toHTTPError_def chain_defs switch_to_HTTPError_def Error_text_def
        NumError_Error_def strconv_err_text_def quote_defs
        inferStatusCode_def inferErrorType_def lower_defs)
  show ?thesis
    using fb ev more dotted dotted_spec num fallback_infers_status [OF fb]
    by (auto simp: Error_text_def)
qed

section \<open>The response wrapper: the first status wins\<close>

lemma log_Printf_ok:
  fixes s :: "('d, 'z) state_scheme"
  assumes "config_ok s"
  shows "\<exists>s'. log_Printf l s = Inr s' \<and> config_ok s'
           \<and> map snd (log_output s') = map snd (log_output s) @ [l]
           \<and> CustomErrorHandler s' = CustomErrorHandler s
           \<and> statusCode s' = statusCode s \<and> headerWritten s' = headerWritten s
           \<and> wire_status s' = wire_status s \<and> wire_header s' = wire_header s
           \<and> wire_body s' = wire_body s"
  using assms
  by (auto simp: log_Printf_def getConfig_def initDefaultConfig_def config_ok_def Let_def
      split: option.splits)

lemma WriteHeader_committed:
  fixes s :: "'d state"
  assumes "config_ok s" "headerWritten s"
  shows "\<exists>s'. WriteHeader c s = Inr s' \<and> config_ok s'
           \<and> map snd (log_output s') = map snd (log_output s) @ [WarnMultipleWriteHeader (statusCode s) c]
           \<and> CustomErrorHandler s' = CustomErrorHandler s
           \<and> statusCode s' = statusCode s \<and> headerWritten s'
           \<and> wire_status s' = wire_status s \<and> wire_header s' = wire_header s
           \<and> wire_body s' = wire_body s"
  using log_Printf_ok [OF assms(1), of "WarnMultipleWriteHeader (statusCode s) c"] assms(2)
  by (auto simp: WriteHeader_def)

lemma WriteHeader_fresh:
  "\<not> headerWritten s \<Longrightarrow>
   WriteHeader c s =
     Inr (s\<lparr>statusCode := (if c \<le> 0 then 200 else c), headerWritten := True,
            wire_status := wire_status s @ [if c \<le> 0 then 200 else c]\<rparr>)"
  by (simp add: WriteHeader_def Let_def)

lemma Write_committed:
  "headerWritten s \<Longrightarrow> Write b s = Inr (s\<lparr>wire_body := wire_body s @ b\<rparr>)"
  by (simp add: Write_def and_then_def)

lemma Write_fresh:
  "\<not> headerWritten s \<Longrightarrow>
   Write b s =
     Inr (s\<lparr>statusCode := 200, headerWritten := True, wire_status := wire_status s @ [200],
            wire_body := wire_body s @ b\<rparr>)"
  by (simp add: Write_def and_then_def WriteHeader_fresh)

lemma do_wop_effect:
  fixes s :: "'d state"
  assumes "config_ok s"
  shows "\<exists>s'. do_wop x s = Inr s' \<and> config_ok s'
           \<and> committed s' = (case committed s of Some c \<Rightarrow> Some c | None \<Rightarrow> first_commit [x])
           \<and> (headerWritten s \<longrightarrow>
                wire_status s' = wire_status s
              \<and> map snd (log_output s') =
                  map snd (log_output s) @ map (WarnMultipleWriteHeader (statusCode s)) (status_sets [x]))"
proof (cases x)
  case (OpWriteHeader c)
  show ?thesis
  proof (cases "headerWritten s")
    case True
    then show ?thesis
      using WriteHeader_committed [OF assms True, of c] OpWriteHeader
      by (auto simp: committed_def)
  next
    case False
    then show ?thesis
      using assms OpWriteHeader by (simp add: WriteHeader_fresh committed_def config_ok_def)
  qed
next
  case (OpWrite b)
  then show ?thesis
    using assms
    by (cases "headerWritten s") (simp_all add: Write_fresh Write_committed committed_def config_ok_def)
next
  case (OpHeaderSet k v)
  then show ?thesis using assms by (simp add: Header_Set_def committed_def config_ok_def)
next
  case (OpHeaderAdd k v)
  then show ?thesis using assms by (simp add: Header_Add_def committed_def config_ok_def)
qed

lemma first_commit_Cons:
  "first_commit (x # ops) = (case first_commit [x] of Some c \<Rightarrow> Some c | None \<Rightarrow> first_commit ops)"
  by (cases x) simp_all

lemma status_sets_Cons: "status_sets (x # ops) = status_sets [x] @ status_sets ops"
  by (cases x) simp_all

lemma run_wops_effect:
  fixes s :: "'d state"
  assumes "config_ok s"
  shows "\<exists>s'. run_wops ops s = Inr s' \<and> config_ok s'
           \<and> committed s' = (case committed s of Some c \<Rightarrow> Some c | None \<Rightarrow> first_commit ops)
           \<and> (headerWritten s \<longrightarrow>
                wire_status s' = wire_status s
              \<and> map snd (log_output s') =
                  map snd (log_output s) @ map (WarnMultipleWriteHeader (statusCode s)) (status_sets ops))"
  using assms
proof (induction ops arbitrary: s)
  case Nil
  then show ?case by (simp split: option.splits)
next
  case (Cons x ops)
  from do_wop_effect [OF Cons.prems, of x] obtain s1 where
    s1: "do_wop x s = Inr s1" "config_ok s1"
      "committed s1 = (case committed s of Some c \<Rightarrow> Some c | None \<Rightarrow> first_commit [x])"
      "headerWritten s \<longrightarrow> wire_status s1 = wire_status s
              \<and> map snd (log_output s1) =
                  map snd (log_output s) @ map (WarnMultipleWriteHeader (statusCode s)) (status_sets [x])"
    by blast
  from Cons.IH [OF s1(2)] obtain s2 where
    s2: "run_wops ops s1 = Inr s2" "config_ok s2"
      "committed s2 = (case committed s1 of Some c \<Rightarrow> Some c | None \<Rightarrow> first_commit ops)"
      "headerWritten s1 \<longrightarrow> wire_status s2 = wire_status s1
              \<and> map snd (log_output s2) =
                  map snd (log_output s1) @ map (WarnMultipleWriteHeader (statusCode s1)) (status_sets ops)"
    by blast
  have run: "run_wops (x # ops) s = Inr s2" using s1(1) s2(1) by simp
  have com: "committed s2 = (case committed s of Some c \<Rightarrow> Some c | None \<Rightarrow> first_commit (x # ops))"
    using s1(3) s2(3) by (simp add: first_commit_Cons [of x ops] split: option.splits)
  have rest: "headerWritten s \<longrightarrow> wire_status s2 = wire_status s
              \<and> map snd (log_output s2) =
                  map snd (log_output s) @ map (WarnMultipleWriteHeader (statusCode s)) (status_sets (x # ops))"
  proof
    assume hw: "headerWritten s"
    then have c1: "committed s1 = Some (statusCode s)" using s1(3) by (simp add: committed_def)
    then have hw1: "headerWritten s1" and st1: "statusCode s1 = statusCode s"
      by (auto simp: committed_def split: if_splits)
    show "wire_status s2 = wire_status s
              \<and> map snd (log_output s2) =
                  map snd (log_output s) @ map (WarnMultipleWriteHeader (statusCode s)) (status_sets (x # ops))"
      using s1(4) s2(4) hw hw1 st1 by (simp add: status_sets_Cons [of x ops])
  qed
  show ?case using run s2(2) com rest by blast
qed


lemmas start_defs = process_start_def config_ok_def

text \<open>
  Claim C3. Whatever sequence of status-set and body-write calls (and header changes) is
  made on one response wrapper, the first committed status wins: the status that the wrapper
  holds afterwards is the one it had committed before, or else the one that the first
  committing call of the sequence commits. Once a status has been committed, every later
  status-set attempt is logged as a warning and leaves the committed status, and what the
  transport was sent, unchanged. Setting 200 and then attempting 500 leaves the status 200.
\<close>

theorem first_status_wins:
  fixes s :: "'d state"
  shows "config_ok s \<Longrightarrow>
     (\<exists>s'. run_wops ops s = Inr s'
         \<and> committed s' = (case committed s of Some c \<Rightarrow> Some c | None \<Rightarrow> first_commit ops)
         \<and> (headerWritten s \<longrightarrow>
              statusCode s' = statusCode s \<and> wire_status s' = wire_status s
            \<and> map snd (log_output s') =
                map snd (log_output s)
                @ map (WarnMultipleWriteHeader (statusCode s)) (status_sets ops)))
   \<and> (\<exists>s'. run_wops [OpWriteHeader 200, OpWriteHeader 500] (process_start :: 'd state) = Inr s'
         \<and> statusCode s' = 200 \<and> wire_status s' = [200]
         \<and> map snd (log_output s') = [WarnMultipleWriteHeader 200 500])"
proof (intro conjI)
  assume ok: "config_ok s"
  from run_wops_effect [OF ok, of ops] obtain s' where
    s': "run_wops ops s = Inr s'"
      "committed s' = (case committed s of Some c \<Rightarrow> Some c | None \<Rightarrow> first_commit ops)"
      "headerWritten s \<longrightarrow> wire_status s' = wire_status s
         \<and> map snd (log_output s') =
             map snd (log_output s) @ map (WarnMultipleWriteHeader (statusCode s)) (status_sets ops)"
    by blast
  have "headerWritten s \<longrightarrow> statusCode s' = statusCode s"
    using s'(2) by (auto simp: committed_def split: if_splits)
  with s' show "\<exists>s'. run_wops ops s = Inr s'
         \<and> committed s' = (case committed s of Some c \<Rightarrow> Some c | None \<Rightarrow> first_commit ops)
         \<and> (headerWritten s \<longrightarrow>
              statusCode s' = statusCode s \<and> wire_status s' = wire_status s
            \<and> map snd (log_output s') =
                map snd (log_output s)
                @ map (WarnMultipleWriteHeader (statusCode s)) (status_sets ops))"
    by blast
next
  show "\<exists>s'. run_wops [OpWriteHeader 200, OpWriteHeader 500] (process_start :: 'd state) = Inr s'
         \<and> statusCode s' = 200 \<and> wire_status s' = [200]
         \<and> map snd (log_output s') = [WarnMultipleWriteHeader 200 500]"
    by (simp add: process_start_def WriteHeader_def log_Printf_def getConfig_def
        initDefaultConfig_def Let_def defaultConfig_def)
qed

theorem first_status_wins_witness:
  "config_ok served_200 \<and> headerWritten served_200
   \<and> (\<exists>s'. run_wops [OpWrite ''a'', OpWriteHeader 500, OpWrite ''b'', OpWriteHeader 0] served_200 = Inr s'
         \<and> committed s' = Some 200
         \<and> statusCode s' = 200 \<and> wire_status s' = [200]
         \<and> map snd (log_output s') =
               [WarnMultipleWriteHeader 200 500, WarnMultipleWriteHeader 200 0])"
proof -
  have ok: "config_ok served_200" by (simp add: served_200_def start_defs)
  have hw: "headerWritten served_200" "statusCode served_200 = 200" "wire_status served_200 = [200]"
    "log_output served_200 = []" "committed served_200 = Some 200"
    by (simp_all add: served_200_def process_start_def committed_def)
  show ?thesis
    using ok hw first_status_wins [OF ok, of "[OpWrite ''a'', OpWriteHeader 500, OpWrite ''b'', OpWriteHeader 0]"]
    by auto
qed


section \<open>The scan of a route pattern\<close>

lemma log_Printf_scheme:
  fixes s :: "('d, 'z) globals_scheme"
  assumes "config_ok s"
  shows "\<exists>s'. log_Printf l s = Inr s' \<and> config_ok s'
           \<and> map snd (log_output s') = map snd (log_output s) @ [l]
           \<and> CustomErrorHandler s' = CustomErrorHandler s
           \<and> globals.more s' = globals.more s"
  using assms
  by (auto simp: log_Printf_def getConfig_def initDefaultConfig_def config_ok_def Let_def
      split: option.splits)

lemma scan_refines:
  fixes s :: "('d, 'z) globals_scheme"
  assumes "config_ok s"
  shows "\<exists>s' inP cur'.
           scan p i cs (names, inParam, cur, depth) s =
             Inr ((names @ names_from (if inParam then Some cur else None) cs, inP, cur',
                   depth + int (nested_braces inParam cs)
                     + (if open_at_end inParam cs then 1 else 0) - (if inParam then 1 else 0)), s')
         \<and> config_ok s' \<and> CustomErrorHandler s' = CustomErrorHandler s
         \<and> globals.more s' = globals.more s
         \<and> map snd (log_output s') = map snd (log_output s) @ warnings_from p i inParam cs"
  using assms
proof (induction cs arbitrary: i names inParam cur depth s)
  case Nil
  then show ?case by simp
next
  case (Cons c cs)
  show ?case
  proof (cases "c = CHR ''{''")
    case True
    show ?thesis
    proof (cases inParam)
      case True
      from log_Printf_scheme [OF Cons.prems, of "WarnNestedBraces i p"] obtain s1 where
        s1: "log_Printf (WarnNestedBraces i p) s = Inr s1" "config_ok s1"
          "map snd (log_output s1) = map snd (log_output s) @ [WarnNestedBraces i p]"
          "CustomErrorHandler s1 = CustomErrorHandler s" "globals.more s1 = globals.more s"
        by blast
      from Cons.IH [OF s1(2), of "i + 1" names True "[]" "depth + 1"]
      show ?thesis using \<open>c = CHR ''{''\<close> True s1 by auto
    next
      case False
      from Cons.IH [OF Cons.prems, of "i + 1" names True "[]" "depth + 1"]
      show ?thesis using \<open>c = CHR ''{''\<close> False by auto
    qed
  next
    case notopen: False
    show ?thesis
    proof (cases "c = CHR ''}''")
      case True
      show ?thesis
      proof (cases inParam)
        case inside: True
        from Cons.IH [OF Cons.prems, of "i + 1" "if cur \<noteq> [] then names @ [cur] else names" False cur "depth - 1"]
        show ?thesis using True inside by auto
      next
        case False
        from log_Printf_scheme [OF Cons.prems, of "WarnUnmatchedBrace i p"] obtain s1 where
          s1: "log_Printf (WarnUnmatchedBrace i p) s = Inr s1" "config_ok s1"
            "map snd (log_output s1) = map snd (log_output s) @ [WarnUnmatchedBrace i p]"
            "CustomErrorHandler s1 = CustomErrorHandler s" "globals.more s1 = globals.more s"
          by blast
        from Cons.IH [OF s1(2), of "i + 1" names False cur depth]
        show ?thesis using True False s1 by auto
      qed
    next
      case False
      show ?thesis
      proof (cases inParam)
        case True
        from Cons.IH [OF Cons.prems, of "i + 1" names True "cur @ [c]" depth]
        show ?thesis using notopen False True by auto
      next
        case outside: False
        from Cons.IH [OF Cons.prems, of "i + 1" names False cur depth]
        show ?thesis using notopen False outside by auto
      qed
    qed
  qed
qed

lemma extractPatternNames_refines:
  fixes s :: "('d, 'z) globals_scheme"
  assumes "config_ok s"
  shows "\<exists>s'. extractPatternNames p s = Inr (names_from None p, s')
         \<and> config_ok s' \<and> CustomErrorHandler s' = CustomErrorHandler s
         \<and> globals.more s' = globals.more s
         \<and> map snd (log_output s') =
             map snd (log_output s) @ warnings_from p 0 False p
               @ (if unbalanced p then [WarnUnbalancedBraces p] else [])"
proof -
  from scan_refines [OF assms, of p 0 p "[]" False "[]" 0] obtain s1 inP cur' where
    s1: "scan p 0 p ([], False, [], 0) s =
           Inr ((names_from None p, inP, cur',
                 int (nested_braces False p) + (if open_at_end False p then 1 else 0)), s1)"
      "config_ok s1" "CustomErrorHandler s1 = CustomErrorHandler s"
      "globals.more s1 = globals.more s"
      "map snd (log_output s1) = map snd (log_output s) @ warnings_from p 0 False p"
    by auto
  show ?thesis
  proof (cases "unbalanced p")
    case True
    then have d: "int (nested_braces False p) + (if open_at_end False p then 1 else 0) \<noteq> 0"
      by (auto simp: unbalanced_def)
    from log_Printf_scheme [OF s1(2), of "WarnUnbalancedBraces p"] obtain s2 where
      "log_Printf (WarnUnbalancedBraces p) s1 = Inr s2" "config_ok s2"
      "map snd (log_output s2) = map snd (log_output s1) @ [WarnUnbalancedBraces p]"
      "CustomErrorHandler s2 = CustomErrorHandler s1" "globals.more s2 = globals.more s1"
      by blast
    then show ?thesis using s1 d True
      by (simp add: extractPatternNames_def and_then_def)
  next
    case False
    then have d: "int (nested_braces False p) + (if open_at_end False p then 1 else 0) = 0"
      by (auto simp: unbalanced_def)
    show ?thesis using s1 d False
      by (simp add: extractPatternNames_def and_then_def)
  qed
qed


section \<open>Path names are consumed by position\<close>

lemma put_globals_truncate [simp]: "put_globals (globals.truncate s) s = s"
  by (simp add: put_globals_def globals.truncate_def)

lemma key_setters_simps [simp]:
  "key_setters [] = 0"
  "key_setters (ParamExtractor (KeySetter ex) # ps) = Suc (key_setters ps)"
  "key_setters (ParamExtractor (Extractor ex') # ps) = key_setters ps"
  "key_setters (ParamResponseWriter # ps) = key_setters ps"
  "key_setters (ParamRequest # ps) = key_setters ps"
  "key_setters (ParamUnsupported t # ps) = key_setters ps"
  by (simp_all add: key_setters_def)

lemma bind_params_append:
  "bind_params r keys (pre @ post) k s =
     (case bind_params r keys pre k s of
        Inr (Inr args, s') \<Rightarrow>
          (case bind_params r keys post (k + key_setters pre) s' of
             Inr (Inr args', s'') \<Rightarrow> Inr (Inr (args @ args'), s'')
           | other \<Rightarrow> other)
      | other \<Rightarrow> other)"
proof (induction r keys pre k s rule: bind_params.induct)
  case (1 r pathKeys keyIdx s)
  show ?case by (simp split: sum.splits prod.splits)
next
  case (2 r pathKeys ex ps keyIdx s)
  then show ?case by (simp split: sum.splits prod.splits)
next
  case (3 r pathKeys ex ps keyIdx s)
  then show ?case by (simp split: sum.splits prod.splits)
next
  case (4 r pathKeys ps keyIdx s)
  then show ?case by (simp split: sum.splits prod.splits)
next
  case (5 r pathKeys ps keyIdx s)
  then show ?case by (simp split: sum.splits prod.splits)
next
  case (6 r pathKeys t ps keyIdx s)
  show ?case by simp
qed

lemma extractPatternNames_items:
  "extractPatternNames ''/items/{category}/{id}'' g = Inr ([''category'', ''id''], g)"
  by (simp add: extractPatternNames_def and_then_def)


lemma bind_key_setter:
  assumes "bind_params r keys pre 0 s = Inr (Inr args, s')"
  shows "bind_params r keys (pre @ ParamExtractor (KeySetter ex) # post) 0 s =
       (if length keys \<le> key_setters pre then Inl (InsufficientPathParameters (Pattern r))
        else
          (case ex (keys ! key_setters pre) r (globals.truncate s') of
             (Inl e, g) \<Rightarrow> Inr (Inl e, put_globals g s')
           | (Inr v, g) \<Rightarrow>
               (case bind_params r keys post (key_setters pre + 1) (put_globals g s') of
                  Inr (Inr rest, s'') \<Rightarrow> Inr (Inr (args @ ArgExtractor v # rest), s'')
                | other \<Rightarrow> other)))"
  using assms
  by (simp add: bind_params_append [of r keys pre] split: sum.splits prod.splits)

lemmas path_defs = Path_def Path_Extract_def PathValue_def converted_def

text \<open>
  Claim C6. The pattern \<^verbatim>\<open>/items/{category}/{id}\<close> yields the path names \<open>category\<close>, \<open>id\<close>
  in this order. The list is consumed by position: when the parameters before a
  key-settable extractor parameter have been bound, that parameter is decoded with the
  path name whose index is the number of key-settable parameters before it, whatever the
  names are, and the closure panics if the list has no such entry. A handler with two
  \<^verbatim>\<open>Path[string]\<close> parameters is called with the segments of \<open>category\<close> and \<open>id\<close>, in
  this order; on a pattern with one name it panics.
\<close>

theorem path_names_positional:
  "bind_params r keys pre 0 s = Inr (Inr args, s') \<Longrightarrow>
     extractPatternNames ''/items/{category}/{id}'' g = Inr ([''category'', ''id''], g)
   \<and> bind_params r keys (pre @ ParamExtractor (KeySetter ex) # post) 0 s =
       (if length keys \<le> key_setters pre then Inl (InsufficientPathParameters (Pattern r))
        else
          (case ex (keys ! key_setters pre) r (globals.truncate s') of
             (Inl e, g) \<Rightarrow> Inr (Inl e, put_globals g s')
           | (Inr v, g) \<Rightarrow>
               (case bind_params r keys post (key_setters pre + 1) (put_globals g s') of
                  Inr (Inr rest, s'') \<Rightarrow> Inr (Inr (args @ ArgExtractor v # rest), s'')
                | other \<Rightarrow> other)))
   \<and> H M [ParamExtractor (Path P TString), ParamExtractor (Path P TString)] fn items_request t =
       (case fn [ArgExtractor (PathOf (PString ''books'') ''category''),
                 ArgExtractor (PathOf (PString ''7'') ''id'')]
               (t\<lparr>statusCode := 0, headerWritten := False\<rparr>) of
          (results, t2) \<Rightarrow> route_results M results t2)
   \<and> H M [ParamExtractor (Path P TString), ParamExtractor (Path P TString)] fn item_request t =
       Inl (InsufficientPathParameters ''/items/{id}'')"
proof (intro conjI)
  show "extractPatternNames ''/items/{category}/{id}'' g = Inr ([''category'', ''id''], g)"
    by (rule extractPatternNames_items)
next
  assume "bind_params r keys pre 0 s = Inr (Inr args, s')"
  then show "bind_params r keys (pre @ ParamExtractor (KeySetter ex) # post) 0 s =
       (if length keys \<le> key_setters pre then Inl (InsufficientPathParameters (Pattern r))
        else
          (case ex (keys ! key_setters pre) r (globals.truncate s') of
             (Inl e, g) \<Rightarrow> Inr (Inl e, put_globals g s')
           | (Inr v, g) \<Rightarrow>
               (case bind_params r keys post (key_setters pre + 1) (put_globals g s') of
                  Inr (Inr rest, s'') \<Rightarrow> Inr (Inr (args @ ArgExtractor v # rest), s'')
                | other \<Rightarrow> other)))"
    by (rule bind_key_setter)
next
  show "H M [ParamExtractor (Path P TString), ParamExtractor (Path P TString)] fn items_request t =
       (case fn [ArgExtractor (PathOf (PString ''books'') ''category''),
                 ArgExtractor (PathOf (PString ''7'') ''id'')]
               (t\<lparr>statusCode := 0, headerWritten := False\<rparr>) of
          (results, t2) \<Rightarrow> route_results M results t2)"
    by (simp add: H_def items_request_def extractPatternNames_items and_then_def path_defs)
next
  have "extractPatternNames ''/items/{id}'' t = Inr ([''id''], t)"
    by (simp add: extractPatternNames_def and_then_def)
  then show "H M [ParamExtractor (Path P TString), ParamExtractor (Path P TString)] fn item_request t =
       Inl (InsufficientPathParameters ''/items/{id}'')"
    by (simp add: H_def item_request_def and_then_def path_defs)
qed

theorem path_names_positional_witness:
  "bind_params items_request [''category'', ''id''] [ParamRequest] 0 (process_start :: nat state)
     = Inr (Inr [ArgRequest items_request], process_start)
   \<and> bind_params items_request [''category'', ''id'']
       ([ParamRequest] @ ParamExtractor (Path no_float TString) # [ParamExtractor (Path no_float TInt)])
       0 (process_start :: nat state)
     = Inr (Inr [ArgRequest items_request, ArgExtractor (PathOf (PString ''books'') ''category''),
                 ArgExtractor (PathOf (PInt 7) ''id'')], process_start)"
proof -
  have pre: "bind_params items_request [''category'', ''id''] [ParamRequest] 0 (process_start :: nat state)
     = Inr (Inr [ArgRequest items_request], process_start)"
    by simp
  have "bind_params items_request [''category'', ''id'']
       ([ParamRequest] @ ParamExtractor (KeySetter (\<lambda>key r g.
       (case Path_Extract no_float TString key r of
          Inl e \<Rightarrow> Inl e
        | Inr v \<Rightarrow> Inr (PathOf v key), g))) # [ParamExtractor (Path no_float TInt)])
       0 (process_start :: nat state)
     = Inr (Inr [ArgRequest items_request, ArgExtractor (PathOf (PString ''books'') ''category''),
                 ArgExtractor (PathOf (PInt 7) ''id'')], process_start)"
    using path_names_positional [OF pre, THEN conjunct2, THEN conjunct1,
        of "\<lambda>key r g.
       (case Path_Extract no_float TString key r of
          Inl e \<Rightarrow> Inl e
        | Inr v \<Rightarrow> Inr (PathOf v key), g)" "[ParamExtractor (Path no_float TInt)]"]
    by (simp add: path_defs items_request_def Atoi_def ParseInt_def ParseUint_def digit_val_def maxUint64_def)
  then show ?thesis using pre by (simp add: Path_def)
qed


section \<open>What the scan of a pattern returns and logs\<close>

lemma more_eq_fields:
  fixes s s' :: "('d, 'z) state_scheme"
  assumes "globals.more s' = globals.more s"
  shows "statusCode s' = statusCode s" "headerWritten s' = headerWritten s"
    "wire_status s' = wire_status s" "wire_header s' = wire_header s" "wire_body s' = wire_body s"
  using assms by (cases s; cases s'; simp)+

text \<open>
  Claim C7, as amended. For every route pattern the scan from left to right behaves as
  follows. A \<open>{\<close> opens the capture of a parameter name. A \<open>{\<close> seen while a name is being
  captured logs a warning, drops what has been captured so far and starts the capture again
  from the empty name. A \<open>}\<close> closes the capture and appends the captured name to the list
  if it is not empty. A \<open>}\<close> outside a capture logs a warning and is ignored. At the end of
  the string a warning is logged exactly when a capture is still open or a \<open>{\<close> was seen
  inside a capture. So \<^verbatim>\<open>/{a{b}\<close> yields the one name \<open>b\<close>, with the warning for the nested
  brace at position 3 and the warning at the end.
\<close>

theorem pattern_scan:
  fixes s :: "'d state"
  shows "config_ok s \<Longrightarrow>
     (\<exists>s'. extractPatternNames p s = Inr (names_from None p, s')
         \<and> map snd (log_output s') =
             map snd (log_output s) @ warnings_from p 0 False p
               @ (if unbalanced p then [WarnUnbalancedBraces p] else []))
   \<and> names_from None ''/{a{b}'' = [''b'']
   \<and> warnings_from ''/{a{b}'' 0 False ''/{a{b}'' = [WarnNestedBraces 3 ''/{a{b}'']
   \<and> unbalanced ''/{a{b}''
   \<and> names_from None ''/x}/{id}'' = [''id'']
   \<and> warnings_from ''/x}/{id}'' 0 False ''/x}/{id}'' = [WarnUnmatchedBrace 2 ''/x}/{id}'']
   \<and> \<not> unbalanced ''/x}/{id}''
   \<and> names_from None ''/{}/{id'' = []
   \<and> warnings_from ''/{}/{id'' 0 False ''/{}/{id'' = []
   \<and> unbalanced ''/{}/{id''"
proof (intro conjI)
  assume "config_ok s"
  from extractPatternNames_refines [OF this, of p]
  show "\<exists>s'. extractPatternNames p s = Inr (names_from None p, s')
         \<and> map snd (log_output s') =
             map snd (log_output s) @ warnings_from p 0 False p
               @ (if unbalanced p then [WarnUnbalancedBraces p] else [])"
    by blast
qed (simp_all add: unbalanced_def)

theorem pattern_scan_witness:
  "config_ok (process_start :: nat state)
   \<and> (\<exists>s'. extractPatternNames ''/{a{b}}'' (process_start :: nat state) = Inr ([''b''], s')
         \<and> map snd (log_output s') =
             [WarnNestedBraces 3 ''/{a{b}}'', WarnUnmatchedBrace 6 ''/{a{b}}'',
              WarnUnbalancedBraces ''/{a{b}}''])"
proof -
  have ok: "config_ok (process_start :: nat state)" by (simp add: start_defs)
  have "log_output (process_start :: nat state) = []" by (simp add: process_start_def)
  then show ?thesis
    using ok pattern_scan [OF ok, of "''/{a{b}}''", THEN conjunct1]
    by (simp add: unbalanced_def eval_nat_numeral)
qed

text \<open>
  Claim C7 as it is stated says that a nested \<open>{\<close> keeps capturing the name. On the pattern
  \<^verbatim>\<open>/{a{b}\<close> the name \<open>a\<close> is being captured when the second \<open>{\<close> comes, and the list that
  is returned holds \<open>b\<close> alone: what had been captured is dropped.
\<close>

theorem nested_brace_restarts_name:
  "map_sum id fst (extractPatternNames ''/{a{b}'' (process_start :: nat state)) = Inr [''b'']"
  by (simp add: extractPatternNames_def and_then_def process_start_def log_Printf_def
      getConfig_def initDefaultConfig_def Let_def)


section \<open>A status that is not positive, and a write before any status\<close>

lemma WriteHeader_nonpositive:
  "\<not> headerWritten s \<Longrightarrow> code \<le> 0 \<Longrightarrow>
   WriteHeader code s =
     Inr (s\<lparr>statusCode := 200, headerWritten := True, wire_status := wire_status s @ [200]\<rparr>)"
  by (simp add: WriteHeader_fresh)

lemma H_status_only:
  fixes t :: "'d state"
  assumes "config_ok t"
  shows "\<exists>s'. H M [] (\<lambda>args s. (One (RetValue (VStatusCode 0)), s)) r t = Inr s'
           \<and> statusCode s' = 200 \<and> headerWritten s'
           \<and> wire_status s' = wire_status t @ [200] \<and> wire_body s' = wire_body t"
proof -
  from extractPatternNames_refines [OF assms, of "Pattern r"] obtain t0 where
    t0: "extractPatternNames (Pattern r) t = Inr (names_from None (Pattern r), t0)"
      "globals.more t0 = globals.more t"
    by blast
  have "H M [] (\<lambda>args s. (One (RetValue (VStatusCode 0)), s)) r t
          = Inr (t0\<lparr>statusCode := 200, headerWritten := True, wire_status := wire_status t0 @ [200]\<rparr>)"
    using t0(1)
    by (simp add: H_def and_then_def route_results_def log_failure_def handleCommonTypes_def
        WriteHeader_fresh)
  then show ?thesis using more_eq_fields [OF t0(2)] by simp
qed

text \<open>
  Claim C8. On a response wrapper that has committed no status, an explicit status-set with
  a value that is zero or negative commits the status 200, and a write of body bytes
  commits 200 before the bytes are written. So \<^verbatim>\<open>handleCommonTypes\<close> commits 200 for the
  marker \<^verbatim>\<open>StatusCode(0)\<close>, and a handler that returns this marker alone produces a
  response with status 200 and no body.
\<close>

theorem nonpositive_status_is_200:
  fixes s t :: "'d state"
  shows "\<not> headerWritten s \<Longrightarrow> code \<le> 0 \<Longrightarrow> config_ok t \<Longrightarrow>
     WriteHeader code s =
       Inr (s\<lparr>statusCode := 200, headerWritten := True, wire_status := wire_status s @ [200]\<rparr>)
   \<and> Write b s =
       Inr (s\<lparr>statusCode := 200, headerWritten := True, wire_status := wire_status s @ [200],
              wire_body := wire_body s @ b\<rparr>)
   \<and> handleCommonTypes M (VStatusCode 0) s =
       Inr (None, s\<lparr>statusCode := 200, headerWritten := True,
                    wire_status := wire_status s @ [200]\<rparr>)
   \<and> (\<exists>s'. H M [] (\<lambda>args s. (One (RetValue (VStatusCode 0)), s)) r t = Inr s'
          \<and> statusCode s' = 200 \<and> headerWritten s'
          \<and> wire_status s' = wire_status t @ [200] \<and> wire_body s' = wire_body t)"
  using H_status_only [of t M r]
  by (simp add: WriteHeader_nonpositive Write_fresh handleCommonTypes_def and_then_def)

theorem nonpositive_status_is_200_witness:
  "\<not> headerWritten (process_start :: nat state) \<and> (- 5 :: int) \<le> 0
   \<and> config_ok (process_start :: nat state)
   \<and> WriteHeader (- 5) (process_start :: nat state) =
       Inr (process_start\<lparr>statusCode := 200, headerWritten := True, wire_status := [200]\<rparr>)
   \<and> Write ''hello'' (process_start :: nat state) =
       Inr (process_start\<lparr>statusCode := 200, headerWritten := True, wire_status := [200],
              wire_body := ''hello''\<rparr>)"
proof -
  have a: "\<not> headerWritten (process_start :: nat state)" by (simp add: process_start_def)
  have b: "(- 5 :: int) \<le> 0" by simp
  have c: "config_ok (process_start :: nat state)" by (simp add: start_defs)
  have d: "wire_status (process_start :: nat state) = []" "wire_body (process_start :: nat state) = []"
    by (simp_all add: process_start_def)
  show ?thesis
    using a b c d nonpositive_status_is_200 [OF a b c, of "''hello''"]
    by simp
qed


section \<open>The configuration and the classification of errors\<close>

lemma config_ok_start: "config_ok process_start"
  by (simp add: start_defs)

lemma config_ok_initDefaultConfig:
  "config_ok s \<Longrightarrow> config_ok (initDefaultConfig s) \<and> config (initDefaultConfig s) \<noteq> None"
  by (auto simp: initDefaultConfig_def config_ok_def)

lemma config_ok_SetConfig: "config_ok s \<Longrightarrow> config_ok (SetConfig cfg s)"
  by (cases cfg) (simp_all add: SetConfig_def config_ok_initDefaultConfig config_ok_def)

lemma getConfig_set: "config_ok s \<Longrightarrow> fst (getConfig s) \<noteq> None"
  by (simp add: getConfig_def initDefaultConfig_def config_ok_def Let_def)

lemma jsonEncode_default:
  assumes "JSONEncodeFunc c = None" "JSONMarshalFunc c = None" "headerWritten s"
  shows "jsonEncode M c (EncHTTPError h) s =
           Inr (None, s\<lparr>wire_body := wire_body s @ marshal_HTTPError h @ [CHR 0x0A]\<rparr>)"
  using assms by (simp add: jsonEncode_def std_Encode_def Write_committed and_then_def)

lemma handleError_classified:
  assumes "CustomErrorHandler s = None" "\<not> headerWritten s" "toHTTPError (Some e) = Some h"
  shows "handleError M e s =
           config_jsonEncode M (EncHTTPError h)
             (s\<lparr>wire_header := (wire_header s)(''Content-Type'' := [''application/json; charset=utf-8'']),
                statusCode := (if Code h \<le> 0 then 200 else Code h), headerWritten := True,
                wire_status := wire_status s @ [if Code h \<le> 0 then 200 else Code h]\<rparr>)"
  using assms
  by (simp add: handleError_def Let_def and_then_def Header_Set_def WriteHeader_fresh)

lemma handleError_committed:
  assumes "CustomErrorHandler s = None" "headerWritten s" "toHTTPError (Some e) = Some h"
  shows "handleError M e s =
           config_jsonEncode M (EncHTTPError h)
             (s\<lparr>wire_header := (wire_header s)(''Content-Type'' := [''application/json; charset=utf-8''])\<rparr>)"
  using assms
  by (simp add: handleError_def Let_def and_then_def Header_Set_def)

lemma handleError_only_classification:
  assumes "CustomErrorHandler s = None" "toHTTPError (Some e) = toHTTPError (Some e')"
  shows "handleError M e s = handleError M e' s"
  using assms by (simp add: handleError_def)

lemma json_string_tag:
  "json_string (inferErrorType c) = [CHR 0x22] @ inferErrorType c @ [CHR 0x22]"
  by (simp add: inferErrorType_def json_string_ascii json_byte_def)

lemmas eval_defs =
  configured_def process_start_def initDefaultConfig_def defaultConfig_def
  handleError_def toHTTPError_def chain_defs switch_to_HTTPError_def Error_text_def
  inferStatusCode_def inferErrorType_def lower_defs Let_def and_then_def Header_Set_def
  WriteHeader_def Write_def config_jsonEncode_def jsonEncode_def std_Encode_def
  marshal_HTTPError_def json_string_ascii json_byte_def Itoa_def hex_digit_def

lemma nat_digits_404: "nat_digits 404 = ''404''"
  by (simp add: nat_digits.simps hex_digit_def)

text \<open>
  Claim C9 says that the JSON encoding of a success payload or of an error envelope never
  dereferences a configuration that is not initialised, also when \<^verbatim>\<open>SetConfig\<close> was never
  called and no extractor has asked for the configuration. The code does not keep this:
  \<^verbatim>\<open>handleCommonTypes\<close> and \<^verbatim>\<open>handleError\<close> call \<^verbatim>\<open>jsonEncode\<close> on the package variable
  \<^verbatim>\<open>config\<close>, not on \<^verbatim>\<open>getConfig()\<close>. In a process that has just started, a handler without
  parameters that returns a value to encode, or an error, makes the closure dereference the
  nil pointer, although \<^verbatim>\<open>getConfig()\<close> would return the default configuration at that
  moment.
\<close>

theorem unset_config_panics:
  "H M [] (\<lambda>args s. (One (RetValue (VData d)), s))
     \<lparr>Pattern = ''GET /api/custom'', PathValues = Map.empty\<rparr> process_start
     = Inl NilPointerDereference
   \<and> H M [] (\<lambda>args s. (One (RetError (Other ''something went wrong'' None)), s))
       \<lparr>Pattern = ''GET /api/error'', PathValues = Map.empty\<rparr> process_start
     = Inl NilPointerDereference
   \<and> fst (getConfig process_start) = Some defaultConfig"
  by (simp add: H_def extractPatternNames_def and_then_def route_results_def log_failure_def
      handleCommonTypes_def handleError_def config_jsonEncode_def process_start_def Header_Set_def
      toHTTPError_def chain_defs switch_to_HTTPError_def WriteHeader_def Let_def
      getConfig_def initDefaultConfig_def)

text \<open>
  Claim C10. An error that the fallback step classifies gets a structured error whose message
  is empty, so that the JSON object written for it has the two keys \<open>code\<close> and \<open>error\<close> and
  no key \<open>message\<close>; and the response to such an error depends on its text through the
  inferred status only, so that the text itself is never part of the response.
\<close>

theorem fallback_drops_message:
  "reaches_fallback e \<Longrightarrow> reaches_fallback e' \<Longrightarrow>
   inferStatusCode (Error_text e) = inferStatusCode (Error_text e') \<Longrightarrow>
   CustomErrorHandler s = None \<Longrightarrow>
     (\<exists>h. toHTTPError (Some e) = Some h \<and> Message h = []
         \<and> marshal_HTTPError h =
             ''{'' @ [CHR 0x22] @ ''code'' @ [CHR 0x22] @ '':'' @ Itoa (Code h)
             @ '','' @ [CHR 0x22] @ ''error'' @ [CHR 0x22] @ '':''
             @ [CHR 0x22] @ Err h @ [CHR 0x22] @ ''}'')
   \<and> handleError M e s = handleError M e' s"
proof (intro conjI)
  assume fb: "reaches_fallback e"
  show "\<exists>h. toHTTPError (Some e) = Some h \<and> Message h = []
         \<and> marshal_HTTPError h =
             ''{'' @ [CHR 0x22] @ ''code'' @ [CHR 0x22] @ '':'' @ Itoa (Code h)
             @ '','' @ [CHR 0x22] @ ''error'' @ [CHR 0x22] @ '':''
             @ [CHR 0x22] @ Err h @ [CHR 0x22] @ ''}''"
    using toHTTPError_fallback [OF fb] json_string_tag
    by (simp add: marshal_HTTPError_def)
next
  assume "reaches_fallback e" "reaches_fallback e'"
    "inferStatusCode (Error_text e) = inferStatusCode (Error_text e')" "CustomErrorHandler s = None"
  then show "handleError M e s = handleError M e' s"
    using toHTTPError_fallback [of e] toHTTPError_fallback [of e']
    by (intro handleError_only_classification) simp_all
qed

theorem fallback_drops_message_witness:
  \<open>reaches_fallback (Other ''user 42 not found in table accounts'' None)
   \<and> reaches_fallback (Other ''not found'' None)
   \<and> inferStatusCode (Error_text (Other ''user 42 not found in table accounts'' None))
       = inferStatusCode (Error_text (Other ''not found'' None))
   \<and> CustomErrorHandler (configured :: nat state) = None
   \<and> handleError marshal_nat (Other ''user 42 not found in table accounts'' None) configured
       = Inr (None, configured
           \<lparr>wire_header := (\<lambda>k. [])(''Content-Type'' := [''application/json; charset=utf-8'']),
            statusCode := 404, headerWritten := True, wire_status := [404],
            wire_body := ''{"code":404,"error":"not_found"}'' @ [CHR 0x0A]\<rparr>)\<close>
proof -
  have a: "reaches_fallback (Other ''user 42 not found in table accounts'' None)"
    and b: "reaches_fallback (Other ''not found'' None)"
    by (simp_all add: reaches_fallback_def chain_defs)
  have c: "inferStatusCode (Error_text (Other ''user 42 not found in table accounts'' None))
       = inferStatusCode (Error_text (Other ''not found'' None))"
    by (simp add: Error_text_def inferStatusCode_def lower_defs)
  have d: "CustomErrorHandler (configured :: nat state) = None"
    by (simp add: configured_def process_start_def initDefaultConfig_def)
  have e: \<open>handleError marshal_nat (Other ''not found'' None) (configured :: nat state)
       = Inr (None, configured
           \<lparr>wire_header := (\<lambda>k. [])(''Content-Type'' := [''application/json; charset=utf-8'']),
            statusCode := 404, headerWritten := True, wire_status := [404],
            wire_body := ''{"code":404,"error":"not_found"}'' @ [CHR 0x0A]\<rparr>)\<close>
    by (simp add: eval_defs nat_digits_404)
  show ?thesis
    using a b c d e fallback_drops_message [OF a b c d, of marshal_nat]
    by simp
qed


section \<open>The response to an extraction failure\<close>

lemma put_globals_fields [simp]:
  "statusCode (put_globals g s) = statusCode s" "headerWritten (put_globals g s) = headerWritten s"
  "wire_status (put_globals g s) = wire_status s" "wire_header (put_globals g s) = wire_header s"
  "wire_body (put_globals g s) = wire_body s"
  by (simp_all add: put_globals_def)

lemma bind_params_wrapper:
  "bind_params r keys ps k s = Inr (res, s') \<Longrightarrow>
     statusCode s' = statusCode s \<and> headerWritten s' = headerWritten s
   \<and> wire_status s' = wire_status s \<and> wire_header s' = wire_header s
   \<and> wire_body s' = wire_body s"
proof (induction r keys ps k s arbitrary: res s' rule: bind_params.induct)
  case (1 r pathKeys keyIdx s)
  then show ?case by simp
next
  case (2 r pathKeys ex ps keyIdx s)
  then show ?case
    by (fastforce split: sum.splits prod.splits)
next
  case (3 r pathKeys ex ps keyIdx s)
  then show ?case
    by (fastforce split: sum.splits prod.splits if_splits)
next
  case (4 r pathKeys ps keyIdx s)
  then show ?case by (fastforce split: sum.splits prod.splits)
next
  case (5 r pathKeys ps keyIdx s)
  then show ?case by (fastforce split: sum.splits prod.splits)
next
  case (6 r pathKeys t ps keyIdx s)
  then show ?case by simp
qed

lemma bind_params_stops:
  assumes "bind_params r keys pre 0 s = Inr (Inr args, s')"
    and "bind_params r keys [p] (key_setters pre) s' = Inr (Inl e, s1)"
  shows "bind_params r keys (pre @ p # post) 0 s = Inr (Inl e, s1)"
proof -
  have "bind_params r keys ([p] @ post) (key_setters pre) s' = Inr (Inl e, s1)"
    using assms(2) by (simp only: bind_params_append [of r keys "[p]" post]) simp
  then show ?thesis
    using assms(1) by (simp add: bind_params_append [of r keys pre "p # post"])
qed

lemma extractErr_to_HTTPError_eq: "extractErr_to_HTTPError K msg = failure_error K msg"
  by (simp add: extractErr_to_HTTPError_def failure_error_def failure_pair_def ErrType_defs)

lemma failure_pair_positive: "0 < fst (failure_pair K)"
  by (simp add: failure_pair_def)

lemma toHTTPError_extract:
  assumes "As_HTTPErrorPtr (ExtractErrorPtr K field val msg cause) = None"
    and "As_HTTPErrorVal (ExtractErrorPtr K field val msg cause) = None"
  shows "toHTTPError (Some (ExtractErrorPtr K field val msg cause)) = Some (failure_error K msg)"
proof -
  have "As_ExtractErrorPtr (ExtractErrorPtr K field val msg cause) = Some (K, msg)"
    by (cases cause) (simp_all add: As_ExtractErrorPtr_def)
  then show ?thesis
    using assms by (simp add: toHTTPError_def extractErr_to_HTTPError_eq)
qed

lemma nat_digits_400: "nat_digits 400 = ''400''"
  by (simp add: nat_digits.simps hex_digit_def)

lemma nat_digits_500: "nat_digits 500 = ''500''"
  by (simp add: nat_digits.simps hex_digit_def)

text \<open>
  Claim C1, as amended. Let the decode step of a declared extractor fail with an extraction
  failure of kind \<open>K\<close> that wraps no uniform structured error, at a moment when no custom
  error hook is installed and the configuration is set. Then the status of the response
  and the tag of the structured error are the fixed pair of the kind (body-read 500 and
  \<open>internal_server_error\<close>, empty-body 400 and \<open>empty_body\<close>, form-parse 400 and
  \<open>invalid_form\<close>, path-conversion 400 and \<open>invalid_path_parameter\<close>, missing-path-value
  400 and \<open>missing_path_parameter\<close>, validation 400 and \<open>validation_failed\<close>, any other kind
  400 and the kind itself); the message of the structured error is the message of the
  failure, unchanged, for every kind but body-read, for which it is the fixed text
  \<open>unable to process request\<close>; this structured error is what is encoded as JSON; and the
  response depends neither on the handler function nor on the parameters after the failing
  one: the function is not called and no further parameter is extracted.
\<close>

theorem extraction_failure_response:
  fixes s :: "'d state"
  assumes pat: "extractPatternNames (Pattern r) s = Inr (keys, s0)"
    and pre: "bind_params r keys pre 0 (s0\<lparr>statusCode := 0, headerWritten := False\<rparr>)
                = Inr (Inr args, s')"
    and fail: "bind_params r keys [ParamExtractor x] (key_setters pre) s'
                = Inr (Inl (ExtractErrorPtr K field val msg cause), s1)"
    and nowrap: "As_HTTPErrorPtr (ExtractErrorPtr K field val msg cause) = None"
      "As_HTTPErrorVal (ExtractErrorPtr K field val msg cause) = None"
    and nohook: "CustomErrorHandler s1 = None"
    and cfg: "config s1 = Some c"
  shows "H M (pre @ ParamExtractor x # post) fn r s =
           log_failure FailedWriteErrorResponse
             (jsonEncode M c (EncHTTPError (failure_error K msg))
                (s1\<lparr>wire_header :=
                      (wire_header s1)(''Content-Type'' := [''application/json; charset=utf-8'']),
                    statusCode := fst (failure_pair K), headerWritten := True,
                    wire_status := wire_status s1 @ [fst (failure_pair K)]\<rparr>))
       \<and> H M (pre @ ParamExtractor x # post) fn r s = H M (pre @ ParamExtractor x # post') fn' r s
       \<and> (JSONEncodeFunc c = None \<and> JSONMarshalFunc c = None \<longrightarrow>
            H M (pre @ ParamExtractor x # post) fn r s =
              Inr (s1\<lparr>wire_header :=
                      (wire_header s1)(''Content-Type'' := [''application/json; charset=utf-8'']),
                    statusCode := fst (failure_pair K), headerWritten := True,
                    wire_status := wire_status s1 @ [fst (failure_pair K)],
                    wire_body := wire_body s1 @ marshal_HTTPError (failure_error K msg) @ [CHR 0x0A]\<rparr>))"
proof -
  let ?e = "ExtractErrorPtr K field val msg cause"
  let ?rw = "s0\<lparr>statusCode := 0, headerWritten := False\<rparr>"
  let ?s2 = "s1\<lparr>wire_header :=
                      (wire_header s1)(''Content-Type'' := [''application/json; charset=utf-8'']),
                    statusCode := fst (failure_pair K), headerWritten := True,
                    wire_status := wire_status s1 @ [fst (failure_pair K)]\<rparr>"
  have stop: "bind_params r keys (pre @ ParamExtractor x # ps) 0 ?rw = Inr (Inl ?e, s1)" for ps
    using bind_params_stops [OF pre fail] .
  have "headerWritten s' = headerWritten ?rw" using bind_params_wrapper [OF pre] by simp
  moreover have "headerWritten s1 = headerWritten s'" using bind_params_wrapper [OF fail] by simp
  ultimately have fresh: "\<not> headerWritten s1" by simp
  have code: "Code (failure_error K msg) = fst (failure_pair K)"
    by (simp add: failure_error_def)
  have he: "handleError M ?e s1 = jsonEncode M c (EncHTTPError (failure_error K msg)) ?s2"
    using handleError_classified [OF nohook fresh toHTTPError_extract [OF nowrap], of M]
      failure_pair_positive [of K] cfg
    by (simp add: code config_jsonEncode_def)
  have H_eq: "H M (pre @ ParamExtractor x # ps) f r s =
      log_failure FailedWriteErrorResponse
        (jsonEncode M c (EncHTTPError (failure_error K msg)) ?s2)" for ps f
    using pat stop [of ps] he by (simp add: H_def and_then_def)
  have dflt: "JSONEncodeFunc c = None \<and> JSONMarshalFunc c = None \<longrightarrow>
      H M (pre @ ParamExtractor x # post) fn r s =
        Inr (?s2\<lparr>wire_body := wire_body ?s2 @ marshal_HTTPError (failure_error K msg) @ [CHR 0x0A]\<rparr>)"
  proof
    assume d: "JSONEncodeFunc c = None \<and> JSONMarshalFunc c = None"
    have "headerWritten ?s2" by simp
    from jsonEncode_default [OF conjunct1 [OF d] conjunct2 [OF d] this, of M "failure_error K msg"]
    show "H M (pre @ ParamExtractor x # post) fn r s =
        Inr (?s2\<lparr>wire_body := wire_body ?s2 @ marshal_HTTPError (failure_error K msg) @ [CHR 0x0A]\<rparr>)"
      by (simp add: H_eq log_failure_def and_then_def)
  qed
  show ?thesis using H_eq [of post fn] H_eq [of post' fn'] dflt by simp
qed


theorem extraction_failure_response_witness:
  \<open>extractPatternNames (Pattern users_request) (configured :: nat state) = Inr ([''id''], configured)
   \<and> bind_params users_request [''id''] [] 0 (configured\<lparr>statusCode := 0, headerWritten := False\<rparr>)
       = Inr (Inr [], (configured :: nat state))
   \<and> bind_params users_request [''id''] [ParamExtractor (Path no_float TInt)] (key_setters [])
         (configured :: nat state)
       = Inr (Inl (ExtractErrorPtr ErrTypeMissingPath ''id'' []
                     ''missing required path parameter: id'' None), configured)
   \<and> CustomErrorHandler (configured :: nat state) = None
   \<and> config (configured :: nat state) = Some defaultConfig
   \<and> H marshal_nat ([] @ ParamExtractor (Path no_float TInt) # [ParamResponseWriter])
        handler_skip users_request configured
       = Inr (configured
           \<lparr>wire_header := (\<lambda>k. [])(''Content-Type'' := [''application/json; charset=utf-8'']),
            statusCode := 400, headerWritten := True, wire_status := [400],
            wire_body :=
              ''{"code":400,"error":"missing_path_parameter","message":"missing required path parameter: id"}''
              @ [CHR 0x0A]\<rparr>)\<close>
proof -
  let ?c = "configured :: nat state"
  have pat: "extractPatternNames (Pattern users_request) ?c = Inr ([''id''], ?c)"
    by (simp add: users_request_def extractPatternNames_def and_then_def)
  have rw: "?c\<lparr>statusCode := 0, headerWritten := False\<rparr> = ?c"
    by (simp add: configured_def process_start_def initDefaultConfig_def)
  have pre: "bind_params users_request [''id''] [] 0 (?c\<lparr>statusCode := 0, headerWritten := False\<rparr>)
       = Inr (Inr [], ?c)"
    by (simp add: rw)
  have fail: "bind_params users_request [''id''] [ParamExtractor (Path no_float TInt)] (key_setters []) ?c
       = Inr (Inl (ExtractErrorPtr ErrTypeMissingPath ''id'' []
                     ''missing required path parameter: id'' None), ?c)"
    by (simp add: path_defs users_request_def NewMissingPathError_def)
  have nowrap:
    "As_HTTPErrorPtr (ExtractErrorPtr ErrTypeMissingPath ''id'' [] ''missing required path parameter: id'' None) = None"
    "As_HTTPErrorVal (ExtractErrorPtr ErrTypeMissingPath ''id'' [] ''missing required path parameter: id'' None) = None"
    by (simp_all add: chain_defs)
  have nohook: "CustomErrorHandler ?c = None"
    and cfg: "config ?c = Some defaultConfig"
    by (simp_all add: configured_def process_start_def initDefaultConfig_def)
  have fields: "wire_header ?c = (\<lambda>k. [])" "wire_status ?c = []" "wire_body ?c = []"
    by (simp_all add: configured_def process_start_def initDefaultConfig_def)
  have enc: "JSONEncodeFunc (defaultConfig :: nat Config) = None \<and> JSONMarshalFunc (defaultConfig :: nat Config) = None"
    by (simp add: defaultConfig_def)
  have body: \<open>marshal_HTTPError (failure_error ErrTypeMissingPath ''missing required path parameter: id'')
      = ''{"code":400,"error":"missing_path_parameter","message":"missing required path parameter: id"}''\<close>
    by (simp add: failure_error_def failure_pair_def ErrType_defs marshal_HTTPError_def
        json_string_ascii json_byte_def Itoa_def nat_digits_400)
  have code: "fst (failure_pair ErrTypeMissingPath) = 400"
    by (simp add: failure_pair_def ErrType_defs)
  from extraction_failure_response [OF pat pre fail nowrap nohook cfg,
      of marshal_nat "[ParamResponseWriter]" handler_skip, THEN conjunct2, THEN conjunct2] enc
  have "H marshal_nat ([] @ ParamExtractor (Path no_float TInt) # [ParamResponseWriter])
        handler_skip users_request configured
       = Inr (configured
           \<lparr>wire_header := (\<lambda>k. [])(''Content-Type'' := [''application/json; charset=utf-8'']),
            statusCode := 400, headerWritten := True, wire_status := [400],
            wire_body := marshal_HTTPError (failure_error ErrTypeMissingPath ''missing required path parameter: id'')
              @ [CHR 0x0A]\<rparr>)"
    by (simp add: fields code)
  then show ?thesis
    using pat pre fail nohook cfg unfolding body by simp
qed

text \<open>
  Claim C1 as it is stated says that the message of the extraction failure is carried through
  unchanged for every kind. For a body-read failure, whose message is
  \<open>failed to read request body\<close>, the structured error and the body of the response carry
  \<open>unable to process request\<close>.
\<close>

theorem body_read_message_replaced:
  \<open>Error_text (NewBodyReadError (Other ''unexpected EOF'' None)) = ''failed to read request body''
   \<and> toHTTPError (Some (NewBodyReadError (Other ''unexpected EOF'' None)))
       = Some \<lparr>Code = 500, Err = ''internal_server_error'', Message = ''unable to process request''\<rparr>
   \<and> H marshal_nat [ParamExtractor (Extractor body_read_fails)] handler_skip users_request configured
       = Inr (configured
           \<lparr>wire_header := (\<lambda>k. [])(''Content-Type'' := [''application/json; charset=utf-8'']),
            statusCode := 500, headerWritten := True, wire_status := [500],
            wire_body :=
              ''{"code":500,"error":"internal_server_error","message":"unable to process request"}''
              @ [CHR 0x0A]\<rparr>)\<close>
proof -
  have t: "toHTTPError (Some (NewBodyReadError (Other ''unexpected EOF'' None)))
       = Some \<lparr>Code = 500, Err = ''internal_server_error'', Message = ''unable to process request''\<rparr>"
    by (simp add: NewBodyReadError_def toHTTPError_def chain_defs extractErr_to_HTTPError_def
        ErrType_defs)
  have pat: "extractPatternNames (Pattern users_request) (configured :: nat state) = Inr ([''id''], configured)"
    by (simp add: users_request_def extractPatternNames_def and_then_def)
  have rw: "(configured :: nat state)\<lparr>statusCode := 0, headerWritten := False\<rparr> = configured"
    by (simp add: configured_def process_start_def initDefaultConfig_def)
  have f: "CustomErrorHandler (configured :: nat state) = None" "\<not> headerWritten (configured :: nat state)"
    "config (configured :: nat state) = Some defaultConfig"
    "wire_header (configured :: nat state) = (\<lambda>k. [])" "wire_status (configured :: nat state) = []"
    "wire_body (configured :: nat state) = []"
    by (simp_all add: configured_def process_start_def initDefaultConfig_def)
  have body: \<open>marshal_HTTPError
        \<lparr>Code = 500, Err = ''internal_server_error'', Message = ''unable to process request''\<rparr>
      = ''{"code":500,"error":"internal_server_error","message":"unable to process request"}''\<close>
    by (simp add: marshal_HTTPError_def json_string_ascii json_byte_def Itoa_def nat_digits_500)
  have he: "handleError marshal_nat (NewBodyReadError (Other ''unexpected EOF'' None)) (configured :: nat state)
      = Inr (None, configured
           \<lparr>wire_header := (\<lambda>k. [])(''Content-Type'' := [''application/json; charset=utf-8'']),
            statusCode := 500, headerWritten := True, wire_status := [500],
            wire_body := marshal_HTTPError
               \<lparr>Code = 500, Err = ''internal_server_error'', Message = ''unable to process request''\<rparr>
              @ [CHR 0x0A]\<rparr>)"
    using handleError_classified [OF f(1) f(2) t, of marshal_nat] f(3-6)
    by (simp add: config_jsonEncode_def jsonEncode_default defaultConfig_def)
  have "H marshal_nat [ParamExtractor (Extractor body_read_fails)] handler_skip users_request configured
      = Inr (configured
           \<lparr>wire_header := (\<lambda>k. [])(''Content-Type'' := [''application/json; charset=utf-8'']),
            statusCode := 500, headerWritten := True, wire_status := [500],
            wire_body := marshal_HTTPError
               \<lparr>Code = 500, Err = ''internal_server_error'', Message = ''unable to process request''\<rparr>
              @ [CHR 0x0A]\<rparr>)"
    using pat he
    by (simp add: H_def and_then_def rw body_read_fails_def log_failure_def)
  then show ?thesis
    using t unfolding body
    by (simp add: Error_text_def NewBodyReadError_def)
qed


section \<open>A result envelope with a failure\<close>

lemma WriteHeaders_inner:
  "fold (\<lambda>value s. Header_Add key value s) values s
     = s\<lparr>wire_header := fold (\<lambda>value m. m(key := m key @ [value])) values (wire_header s)\<rparr>"
  by (induction "values" arbitrary: s) (simp_all add: Header_Add_def)

lemma WriteHeaders_eq:
  "WriteHeaders headers s = s\<lparr>wire_header := add_headers headers (wire_header s)\<rparr>"
  unfolding WriteHeaders_def add_headers_def
  by (induction headers arbitrary: s) (simp_all add: WriteHeaders_inner split: prod.splits)


lemma Write_all_committed:
  "headerWritten s \<Longrightarrow> Write_all chunks s = Inr (s\<lparr>wire_body := wire_body s @ concat chunks\<rparr>)"
  by (induction chunks arbitrary: s) (simp_all add: Write_committed)

lemma jsonEncode_committed:
  assumes "headerWritten s"
  shows "jsonEncode M c (EncHTTPError h) s =
           Inr (snd (error_body c h), s\<lparr>wire_body := wire_body s @ fst (error_body c h)\<rparr>)"
  using assms
  by (simp add: jsonEncode_def error_body_def std_Encode_def Write_committed Write_all_committed
      and_then_def split: option.splits sum.splits prod.splits)

lemma WriteHeader_logged:
  fixes s :: "'d state"
  assumes "headerWritten s" "config s = Some c"
  shows "WriteHeader code s =
           Inr (s\<lparr>configOnce := True,
                  log_output := log_output s @ [(Logger c, WarnMultipleWriteHeader (statusCode s) code)]\<rparr>)"
  using assms
  by (simp add: WriteHeader_def log_Printf_def getConfig_def initDefaultConfig_def Let_def)

text \<open>
  Claim C2, as amended. For every result envelope whose failure value is not nil, the payload
  is never serialized: the response is the same whatever the payload is. When no custom
  error hook is installed and the configuration is set, the response is this: the headers of
  the envelope are added and the content type is JSON; the status is the one that the
  wrapper had committed before, if any (a code of the envelope that is not zero is then
  logged as ignored), and otherwise the code of the envelope if it is not zero, else the
  code of the structured error produced from the failure, a value that is not positive
  counting as 200; and the body, after what had been written before, is what the configured
  JSON encoder writes for the structured error, which for the default encoder is its JSON
  object and a newline. The envelope with code 500, data \<open>X\<close> and an error, on a wrapper that
  has committed nothing and with the default configuration, yields the status 500 and the
  JSON of the structured error.
\<close>

theorem failure_wins_over_payload:
  fixes s :: "'d state"
  shows "handleResult M (Result code hdrs d (Some e)) s
           = handleResult M (Result code hdrs d' (Some e)) s
   \<and> (CustomErrorHandler s = None \<and> config s = Some c \<and> toHTTPError (Some e) = Some h \<longrightarrow>
        handleResult M (Result code hdrs d (Some e)) s =
          Inr (snd (error_body c h),
               (if headerWritten s then
                  (if code \<noteq> 0 then
                     s\<lparr>configOnce := True,
                       log_output := log_output s
                         @ [(Logger c, WarnMultipleWriteHeader (statusCode s) code)]\<rparr>
                   else s)
                else
                  s\<lparr>statusCode := envelope_status code h, headerWritten := True,
                    wire_status := wire_status s @ [envelope_status code h]\<rparr>)
               \<lparr>wire_header :=
                  (case hdrs of Some hs \<Rightarrow> add_headers hs (wire_header s) | None \<Rightarrow> wire_header s)
                    (''Content-Type'' := [''application/json; charset=utf-8'']),
                wire_body := wire_body s @ fst (error_body c h)\<rparr>))
   \<and> (toHTTPError (Some e) = Some h \<longrightarrow>
        handleResult M (Result 500 None (VString ''X'') (Some e)) configured =
          Inr (None,
               configured
               \<lparr>wire_header := (\<lambda>k. [])(''Content-Type'' := [''application/json; charset=utf-8'']),
                statusCode := 500, headerWritten := True, wire_status := [500],
                wire_body := marshal_HTTPError h @ [CHR 0x0A]\<rparr>))"
proof -
  have indep: "handleResult M (Result code hdrs d (Some e)) s
           = handleResult M (Result code hdrs d' (Some e)) s"
    by simp
  have main: "handleResult M (Result code hdrs d (Some e)) s =
          Inr (snd (error_body c h),
               (if headerWritten s then
                  (if code \<noteq> 0 then
                     s\<lparr>configOnce := True,
                       log_output := log_output s
                         @ [(Logger c, WarnMultipleWriteHeader (statusCode s) code)]\<rparr>
                   else s)
                else
                  s\<lparr>statusCode := envelope_status code h, headerWritten := True,
                    wire_status := wire_status s @ [envelope_status code h]\<rparr>)
               \<lparr>wire_header :=
                  (case hdrs of Some hs \<Rightarrow> add_headers hs (wire_header s) | None \<Rightarrow> wire_header s)
                    (''Content-Type'' := [''application/json; charset=utf-8'']),
                wire_body := wire_body s @ fst (error_body c h)\<rparr>)"
    if a: "CustomErrorHandler s = None" "config s = Some c" "toHTTPError (Some e) = Some h"
    for code hdrs d and s :: "'d state" and c h
  proof -
    let ?s1 = "case hdrs of Some hs \<Rightarrow> WriteHeaders hs s | None \<Rightarrow> s"
    have s1: "?s1 = s\<lparr>wire_header :=
        (case hdrs of Some hs \<Rightarrow> add_headers hs (wire_header s) | None \<Rightarrow> wire_header s)\<rparr>"
      by (cases hdrs) (simp_all add: WriteHeaders_eq)
    have f1: "CustomErrorHandler ?s1 = None" "config ?s1 = Some c"
      "headerWritten ?s1 = headerWritten s" "statusCode ?s1 = statusCode s"
      using a by (simp_all add: s1)
    show ?thesis
    proof (cases "headerWritten s")
      case True
      note hw = True
      show ?thesis
      proof (cases "code = 0")
        case True
        have "handleResult M (Result code hdrs d (Some e)) s = handleError M e ?s1"
          using True by (simp add: and_then_def)
        also have "\<dots> = config_jsonEncode M (EncHTTPError h)
             (?s1\<lparr>wire_header := (wire_header ?s1)(''Content-Type'' := [''application/json; charset=utf-8''])\<rparr>)"
          using handleError_committed [OF f1(1), of e h M] hw f1(3) a(3) by simp
        finally show ?thesis
          using True hw a(2)
          by (simp add: config_jsonEncode_def jsonEncode_committed s1)
      next
        case False
        let ?s2 = "?s1\<lparr>configOnce := True,
                  log_output := log_output ?s1 @ [(Logger c, WarnMultipleWriteHeader (statusCode ?s1) code)]\<rparr>"
        have wh: "WriteHeader code ?s1 = Inr ?s2"
          using WriteHeader_logged [of ?s1 c code] hw f1 by simp
        have f2: "headerWritten ?s2" "CustomErrorHandler ?s2 = None" "config ?s2 = Some c"
          using f1 hw by simp_all
        have "handleResult M (Result code hdrs d (Some e)) s = handleError M e ?s2"
          using False wh by (simp add: and_then_def Let_def)
        also have "\<dots> = config_jsonEncode M (EncHTTPError h)
             (?s2\<lparr>wire_header := (wire_header ?s2)(''Content-Type'' := [''application/json; charset=utf-8''])\<rparr>)"
          using handleError_committed [OF f2(2) f2(1), of e h M] a(3) by simp
        finally show ?thesis
          using False hw f2(3)
          by (simp add: config_jsonEncode_def jsonEncode_committed s1)
      qed
    next
      case False
      note nhw = False
      have f1': "\<not> headerWritten ?s1" using nhw f1(3) by simp
      show ?thesis
      proof (cases "code = 0")
        case True
        have "handleResult M (Result code hdrs d (Some e)) s = handleError M e ?s1"
          using True by (simp add: and_then_def)
        also have "\<dots> = config_jsonEncode M (EncHTTPError h)
             (?s1\<lparr>wire_header := (wire_header ?s1)(''Content-Type'' := [''application/json; charset=utf-8'']),
                statusCode := (if Code h \<le> 0 then 200 else Code h), headerWritten := True,
                wire_status := wire_status ?s1 @ [if Code h \<le> 0 then 200 else Code h]\<rparr>)"
          using handleError_classified [OF f1(1) f1', of e h M] a(3) by simp
        finally show ?thesis
          using True nhw f1(2)
          by (simp add: config_jsonEncode_def jsonEncode_committed s1 envelope_status_def)
      next
        case False
        let ?st = "if code \<le> 0 then 200 else code"
        let ?s2 = "?s1\<lparr>statusCode := ?st, headerWritten := True, wire_status := wire_status ?s1 @ [?st]\<rparr>"
        have wh: "WriteHeader code ?s1 = Inr ?s2"
          using WriteHeader_fresh [OF f1', of code] by simp
        have f2: "headerWritten ?s2" "CustomErrorHandler ?s2 = None" "config ?s2 = Some c"
          using f1 by simp_all
        have "handleResult M (Result code hdrs d (Some e)) s = handleError M e ?s2"
          using False wh by (simp add: and_then_def Let_def)
        also have "\<dots> = config_jsonEncode M (EncHTTPError h)
             (?s2\<lparr>wire_header := (wire_header ?s2)(''Content-Type'' := [''application/json; charset=utf-8''])\<rparr>)"
          using handleError_committed [OF f2(2) f2(1), of e h M] a(3) by simp
        finally show ?thesis
          using False nhw f2(3)
          by (simp add: config_jsonEncode_def jsonEncode_committed s1 envelope_status_def)
      qed
    qed
  qed
  have cfg: "CustomErrorHandler (configured :: 'd state) = None"
    "config (configured :: 'd state) = Some defaultConfig"
    "\<not> headerWritten (configured :: 'd state)"
    "wire_header (configured :: 'd state) = (\<lambda>k. [])" "wire_status (configured :: 'd state) = []"
    "wire_body (configured :: 'd state) = []"
    by (simp_all add: configured_def process_start_def initDefaultConfig_def)
  have dflt: "error_body (defaultConfig :: 'd Config) h = (marshal_HTTPError h @ [CHR 0x0A], None)"
    by (simp add: error_body_def defaultConfig_def)
  have ex: "handleResult M (Result 500 None (VString ''X'') (Some e)) configured =
          Inr (None,
               configured
               \<lparr>wire_header := (\<lambda>k. [])(''Content-Type'' := [''application/json; charset=utf-8'']),
                statusCode := 500, headerWritten := True, wire_status := [500],
                wire_body := marshal_HTTPError h @ [CHR 0x0A]\<rparr>)"
    if "toHTTPError (Some e) = Some h"
    using main [OF cfg(1) cfg(2) that, of 500 None "VString ''X''"] cfg(3-6)
    by (simp add: dflt envelope_status_def)
  show ?thesis using indep main ex by blast
qed


theorem failure_wins_over_payload_witness:
  \<open>CustomErrorHandler answered = None \<and> config answered = Some defaultConfig
   \<and> CustomErrorHandler shouting = None
   \<and> config shouting = Some (defaultConfig\<lparr>JSONEncodeFunc := Some shouting_encoder\<rparr>)
   \<and> toHTTPError (Some (Other ''boom'' None))
       = Some \<lparr>Code = 500, Err = ''internal_error'', Message = []\<rparr>
   \<and> handleResult marshal_nat (Result 500 None (VString ''X'') (Some (Other ''boom'' None))) configured
       = Inr (None, configured
           \<lparr>wire_header := (\<lambda>k. [])(''Content-Type'' := [''application/json; charset=utf-8'']),
            statusCode := 500, headerWritten := True, wire_status := [500],
            wire_body := ''{"code":500,"error":"internal_error"}'' @ [CHR 0x0A]\<rparr>)
   \<and> handleResult marshal_nat (Result 500 None (VString ''X'') (Some (Other ''boom'' None))) answered
       = Inr (None, answered
           \<lparr>log_output := [(None, WarnMultipleWriteHeader 200 500)],
            wire_header := (\<lambda>k. [])(''Content-Type'' := [''application/json; charset=utf-8'']),
            wire_body := ''partial{"code":500,"error":"internal_error"}'' @ [CHR 0x0A]\<rparr>)
   \<and> handleResult marshal_nat (Result (- 1) None (VString ''X'') (Some (Other ''boom'' None))) shouting
       = Inr (None, shouting
           \<lparr>wire_header := (\<lambda>k. [])(''Content-Type'' := [''application/json; charset=utf-8'']),
            statusCode := 200, headerWritten := True, wire_status := [200],
            wire_body := ''ERROR''\<rparr>)\<close>
proof -
  let ?e = "Other ''boom'' None"
  let ?h = "\<lparr>Code = 500, Err = ''internal_error'', Message = []\<rparr>"
  let ?c = "defaultConfig\<lparr>JSONEncodeFunc := Some shouting_encoder\<rparr> :: nat Config"
  have h: "toHTTPError (Some ?e) = Some ?h"
    by (simp add: toHTTPError_def chain_defs switch_to_HTTPError_def Error_text_def
        inferStatusCode_def inferErrorType_def lower_defs)
  have ans: "CustomErrorHandler answered = None" "config answered = Some defaultConfig"
    "headerWritten answered" "statusCode answered = 200" "wire_header answered = (\<lambda>k. [])"
    "wire_body answered = ''partial''" "log_output answered = []" "configOnce answered"
    "Logger (defaultConfig :: nat Config) = None"
    by (simp_all add: answered_def configured_def process_start_def initDefaultConfig_def
        defaultConfig_def)
  have sh: "CustomErrorHandler shouting = None" "config shouting = Some ?c"
    "\<not> headerWritten shouting" "wire_header shouting = (\<lambda>k. [])" "wire_status shouting = []"
    "wire_body shouting = []"
    by (simp_all add: shouting_def SetConfig_def process_start_def defaultConfig_def)
  have body: \<open>marshal_HTTPError ?h = ''{"code":500,"error":"internal_error"}''\<close>
    by (simp add: marshal_HTTPError_def json_string_ascii json_byte_def Itoa_def nat_digits_500)
  have eb: "error_body (defaultConfig :: nat Config) ?h = (marshal_HTTPError ?h @ [CHR 0x0A], None)"
    "error_body ?c ?h = (''ERROR'', None)"
    by (simp_all add: error_body_def defaultConfig_def shouting_encoder_def)
  note t = failure_wins_over_payload [of marshal_nat _ None "VString ''X''" ?e _ "VString ''X''"]
  from t [of 500 configured defaultConfig ?h, THEN conjunct2, THEN conjunct2, rule_format, OF h]
  have one: "handleResult marshal_nat (Result 500 None (VString ''X'') (Some ?e)) configured
       = Inr (None, configured
           \<lparr>wire_header := (\<lambda>k. [])(''Content-Type'' := [''application/json; charset=utf-8'']),
            statusCode := 500, headerWritten := True, wire_status := [500],
            wire_body := marshal_HTTPError ?h @ [CHR 0x0A]\<rparr>)" .
  from t [of 500 answered defaultConfig ?h, THEN conjunct2, THEN conjunct1, rule_format]
    ans(1,2) h
  have two: "handleResult marshal_nat (Result 500 None (VString ''X'') (Some ?e)) answered
       = Inr (None, answered
           \<lparr>log_output := [(None, WarnMultipleWriteHeader 200 500)],
            wire_header := (\<lambda>k. [])(''Content-Type'' := [''application/json; charset=utf-8'']),
            wire_body := ''partial'' @ marshal_HTTPError ?h @ [CHR 0x0A]\<rparr>)"
    by (simp add: ans eb)
  from t [of "- 1" shouting ?c ?h, THEN conjunct2, THEN conjunct1, rule_format]
    sh(1,2) h
  have three: "handleResult marshal_nat (Result (- 1) None (VString ''X'') (Some ?e)) shouting
       = Inr (None, shouting
           \<lparr>wire_header := (\<lambda>k. [])(''Content-Type'' := [''application/json; charset=utf-8'']),
            statusCode := 200, headerWritten := True, wire_status := [200],
            wire_body := ''ERROR''\<rparr>)"
    by (simp add: sh eb envelope_status_def)
  show ?thesis
    using ans(1,2) sh(1,2) h one two three unfolding body by simp
qed

text \<open>
  Claim C2 as it is stated says that the body is the structured error JSON for every envelope
  with a failure. With a custom error hook installed, the failure is handed to the hook, and
  the body is what the hook writes.
\<close>

theorem hook_replaces_error_json:
  "handleResult marshal_nat (Result 500 None (VString ''X'') (Some (Other ''boom'' None))) hooked
     = Inr (None, hooked
         \<lparr>log_output := [(None, WarnMultipleWriteHeader 500 418)],
          statusCode := 500, headerWritten := True, wire_status := [500],
          wire_body := ''teapot''\<rparr>)"
  by (simp add: hooked_def teapot_hook_def configured_def process_start_def initDefaultConfig_def
      defaultConfig_def handleError_def and_then_def WriteHeader_def Write_def log_Printf_def
      getConfig_def Let_def)


section \<open>The Path extractor and the parsing of literals\<close>

































end
